theory Spec2Isabelle
  imports Main
begin

section \<open>JavaScript values\<close>

text \<open>
  JSON values as the client receives them from the Deluge web panel and from the
  extension's callers. \<open>JNull\<close> stands for both \<open>null\<close> and \<open>undefined\<close>: the modelled code
  only tests such values for truthiness or reads them through optional chaining. The
  association list of \<open>JObj\<close> lists the own properties in enumeration order.
\<close>

datatype json =
    JNull
  | JBool bool
  | JNum int
  | JStr string
  | JArr "json list"
  | JObj "(string \<times> json) list"

fun truthy :: "json \<Rightarrow> bool" where
  "truthy JNull = False"
| "truthy (JBool b) = b"
| "truthy (JNum n) = (n \<noteq> 0)"
| "truthy (JStr s) = (s \<noteq> [])"
| "truthy (JArr xs) = True"
| "truthy (JObj kvs) = True"

text \<open>Truthiness of a field that holds a string or \<open>null\<close>.\<close>

definition nonempty :: "string option \<Rightarrow> bool" where
  "nonempty s = (case s of None \<Rightarrow> False | Some t \<Rightarrow> t \<noteq> [])"

text \<open>\<open>x.k\<close> (and \<open>x?.k\<close>) for a named data property \<open>k\<close>.\<close>

fun jsget :: "json \<Rightarrow> string \<Rightarrow> json" where
  "jsget (JObj kvs) k = (case map_of kvs k of Some v \<Rightarrow> v | None \<Rightarrow> JNull)"
| "jsget x k = JNull"

text \<open>\<open>String.prototype.startsWith\<close> and \<open>String.prototype.includes\<close>.\<close>

definition startsWith :: "string \<Rightarrow> string \<Rightarrow> bool" where
  "startsWith s sub = (take (length sub) s = sub)"

fun str_includes :: "string \<Rightarrow> string \<Rightarrow> bool" where
  "str_includes [] sub = (sub = [])"
| "str_includes (c # s) sub = (startsWith (c # s) sub \<or> str_includes s sub)"

text \<open>Decimal rendering of a number inside a template string.\<close>

fun digits :: "nat \<Rightarrow> nat \<Rightarrow> string" where
  "digits 0 n = []"
| "digits (Suc k) n =
     (if n < 10 then [char_of (48 + n)]
      else digits k (n div 10) @ [char_of (48 + n mod 10)])"

definition show_nat :: "nat \<Rightarrow> string" where
  "show_nat n = digits (Suc n) n"

text \<open>
  An \<open>Error\<close> object: its \<open>name\<close>, its \<open>message\<close> and the \<open>code\<close> property that
  \<open>_addTorrentViaUrl\<close> attaches to one of its errors.
\<close>

datatype js_error = JsError (err_name: string) (message: string) (code: "int option")

definition Error :: "string \<Rightarrow> js_error" where
  "Error msg = JsError ''Error'' msg None"

definition TypeError :: "string \<Rightarrow> js_error" where
  "TypeError msg = JsError ''TypeError'' msg None"

section \<open>The wire and the browser\<close>

text \<open>
  A call as \<open>_request\<close> receives it in its \<open>params\<close> argument: the method name and the
  positional parameters. The \<open>id\<close> is a constant or a timestamp and is left out.
\<close>

record rpc =
  rpc_method :: string
  rpc_params :: "json list"

text \<open>
  The body of a 2xx answer is the JSON-RPC envelope of the web panel: \<open>error\<close> is \<open>null\<close>
  (\<open>None\<close>) or an object whose message is the given string (empty when it has none),
  \<open>result\<close> is any JSON value, \<open>status\<close> is the extra field the second generation reads.
\<close>

record payload =
  p_error :: "string option"
  p_result :: json
  p_status :: json

text \<open>
  What \<open>fetch\<close> resolves with: the status, the \<open>Set-Cookie\<close> and \<open>X-CSRF-Token\<close> headers,
  and the body (\<open>None\<close> when \<open>response.json()\<close> cannot parse it).
\<close>

record http_response =
  status :: nat
  set_cookie :: "string option"
  csrf_header :: "string option"
  body :: "payload option"

definition ok :: "http_response \<Rightarrow> bool" where
  "ok r = (200 \<le> status r \<and> status r \<le> 299)"

text \<open>One entry per \<open>fetch\<close>: an answer, a network failure, or the 20 s abort.\<close>

datatype reply = Answer http_response | NetworkFailure | TimedOut

text \<open>
  Observable actions: a \<open>fetch\<close> of the panel's \<open>/json\<close> endpoint with the session and
  anti-forgery headers it carried, and an attempt to download a torrent file.
\<close>

datatype event =
    Fetch rpc "string option" "string option"
  | Download string

record connection =
  url :: "string option"
  pass :: "string option"

text \<open>What \<open>chrome.storage.local\<close> holds under \<open>connections\<close>.\<close>

datatype stored = NoValue | Text string | Entries "connection list" | NotAList

text \<open>
  The \<open>DelugeConnection\<close> instance (upper part), the global \<open>COOKIES\<close> table, and the
  environment: extension storage, \<open>JSON.parse\<close> on a stored text (\<open>None\<close> when it throws
  or gives no array), whether \<open>new URL('json', base)\<close> accepts a base, the cookie string
  the browser's cookie store yields for a URL and a domain, the replies the network will
  give to the coming fetches (a failure once the list is used up), and the actions so far.
\<close>

record world =
  SERVER_URL :: "string option"
  SERVER_PASS :: "string option"
  CONNECTION_INFO :: "connection list"
  SESSION_COOKIE :: "string option"
  CSRF_TOKEN :: "string option"
  DAEMON_INFO :: json
  CONNECT_ATTEMPTS :: nat
  daemon_hosts :: json
  server_config :: json
  COOKIES :: "(string \<times> string) list"
  storage_connections :: stored
  storage_send_cookies :: json
  JSON_parse :: "string \<Rightarrow> connection list option"
  url_valid :: "string \<Rightarrow> bool"
  cookie_store :: "string \<Rightarrow> string \<Rightarrow> string"
  network :: "reply list"
  trace :: "event list"

section \<open>Promises\<close>

text \<open>
  A promise is run against the world. It resolves, rejects, or stays pending for ever
  (nobody holds its \<open>resolve\<close> or \<open>reject\<close> any more). \<open>None\<close> means that the recursion
  allowance given to the run was used up before the promise settled.
\<close>

datatype 'a settled = Resolved 'a | Rejected js_error | Pending

type_synonym 'a promise = "world \<Rightarrow> ('a settled \<times> world) option"

definition resolve :: "'a \<Rightarrow> 'a promise" where
  "resolve v = (\<lambda>w. Some (Resolved v, w))"

definition reject :: "js_error \<Rightarrow> 'a promise" where
  "reject e = (\<lambda>w. Some (Rejected e, w))"

definition pending :: "'a promise" where
  "pending = (\<lambda>w. Some (Pending, w))"

definition out_of_fuel :: "'a promise" where
  "out_of_fuel = (\<lambda>w. None)"

text \<open>\<open>p.then(f)\<close> and \<open>p.catch(f)\<close>.\<close>

definition then_p :: "'a promise \<Rightarrow> ('a \<Rightarrow> 'b promise) \<Rightarrow> 'b promise" where
  "then_p p f = (\<lambda>w. case p w of
       None \<Rightarrow> None
     | Some (Resolved v, w') \<Rightarrow> f v w'
     | Some (Rejected e, w') \<Rightarrow> Some (Rejected e, w')
     | Some (Pending, w') \<Rightarrow> Some (Pending, w'))"

definition catch_p :: "'a promise \<Rightarrow> (js_error \<Rightarrow> 'a promise) \<Rightarrow> 'a promise" where
  "catch_p p f = (\<lambda>w. case p w of
       None \<Rightarrow> None
     | Some (Resolved v, w') \<Rightarrow> Some (Resolved v, w')
     | Some (Rejected e, w') \<Rightarrow> f e w'
     | Some (Pending, w') \<Rightarrow> Some (Pending, w'))"

text \<open>
  \<open>fetch(url, fetchOptions)\<close>: the call is recorded with the headers built from the
  held tokens, and the next reply of the network decides the outcome.
\<close>

definition fetch :: "rpc \<Rightarrow> http_response promise" where
  "fetch p = (\<lambda>w.
     let w1 = w\<lparr>trace := trace w @ [Fetch p (SESSION_COOKIE w) (CSRF_TOKEN w)]\<rparr> in
     case network w of
       [] \<Rightarrow> Some (Rejected (TypeError ''Failed to fetch''), w1)
     | NetworkFailure # rs \<Rightarrow>
         Some (Rejected (TypeError ''Failed to fetch''), w1\<lparr>network := rs\<rparr>)
     | TimedOut # rs \<Rightarrow>
         Some (Rejected (JsError ''AbortError'' ''The user aborted a request.'' None),
               w1\<lparr>network := rs\<rparr>)
     | Answer r # rs \<Rightarrow> Some (Resolved r, w1\<lparr>network := rs\<rparr>))"

text \<open>\<open>response.json()\<close>.\<close>

definition response_json :: "http_response \<Rightarrow> payload promise" where
  "response_json r = (case body r of
       None \<Rightarrow> reject (JsError ''SyntaxError'' ''Unexpected token'' None)
     | Some p \<Rightarrow> resolve p)"

text \<open>The tokens of a response replace the held ones when the headers carry them.\<close>

definition store_tokens :: "http_response \<Rightarrow> world \<Rightarrow> world" where
  "store_tokens r w =
     (let w1 = (if nonempty (set_cookie r) then w\<lparr>SESSION_COOKIE := set_cookie r\<rparr> else w)
      in if nonempty (csrf_header r) then w1\<lparr>CSRF_TOKEN := csrf_header r\<rparr> else w1)"

section \<open>First generation: transport and session\<close>

text \<open>
  \<open>_initState\<close>: re-reads the stored connections and takes the server URL and the
  password from the first entry. It always resolves.
\<close>

definition read_connections :: "world \<Rightarrow> connection list" where
  "read_connections w = (case storage_connections w of
       NoValue \<Rightarrow> []
     | Text s \<Rightarrow> (if s = [] then [] else (case JSON_parse w s of Some cs \<Rightarrow> cs | None \<Rightarrow> []))
     | Entries cs \<Rightarrow> cs
     | NotAList \<Rightarrow> [])"

definition initState_v1 :: "json promise" where
  "initState_v1 = (\<lambda>w.
     let info = read_connections w in
     resolve JNull
       (w\<lparr>CONNECTION_INFO := info,
          SERVER_URL := (case info of [] \<Rightarrow> None | c # cs \<Rightarrow> url c),
          SERVER_PASS := (case info of [] \<Rightarrow> None | c # cs \<Rightarrow> pass c)\<rparr>))"

text \<open>
  \<open>_request\<close>, \<open>_doLogin\<close> and \<open>_getSession\<close> call each other; the first argument bounds
  the depth of these calls. Notifications and log lines are not modelled, so \<open>silent\<close> and
  the \<open>state\<close> label are carried but not used.
\<close>

fun request_v1 :: "nat \<Rightarrow> string \<Rightarrow> rpc \<Rightarrow> bool \<Rightarrow> payload promise"
and doLogin_v1 :: "nat \<Rightarrow> bool \<Rightarrow> json promise"
and getSession_v1 :: "nat \<Rightarrow> json promise"
where
  "request_v1 0 st params silent = out_of_fuel"
| "request_v1 (Suc n) st params silent = (\<lambda>w.
     if \<not> nonempty (SERVER_URL w) then
       then_p initState_v1 (\<lambda>u w1.
         if \<not> nonempty (SERVER_URL w1) then reject (Error ''Server URL not available'') w1
         else request_v1 n st params silent w1) w
     else if \<not> url_valid w (the (SERVER_URL w)) then reject (Error ''Invalid server URL'') w
     else
       catch_p
         (then_p
           (then_p (fetch params) (\<lambda>response w0.
              let w1 = store_tokens response w0 in
              if \<not> ok response then
                if status response = 403 \<and> \<not> str_includes (rpc_method params) ''add_torrent'' then
                  then_p (doLogin_v1 n silent) (\<lambda>u. request_v1 n st params silent)
                    (w1\<lparr>SESSION_COOKIE := None, CSRF_TOKEN := None\<rparr>)
                else
                  reject (Error (''HTTP error! status: '' @ show_nat (status response))) w1
              else response_json response w1))
           (\<lambda>payload w1.
              case p_error payload of
                Some msg \<Rightarrow>
                  if str_includes msg ''403 Forbidden'' \<and> str_includes (rpc_method params) ''add_torrent'' then
                    reject (Error ''Remote server denied access - the site may require authentication'') w1
                  else if str_includes msg ''Not authenticated'' then
                    then_p (doLogin_v1 n silent) (\<lambda>u. request_v1 n st params silent)
                      (w1\<lparr>SESSION_COOKIE := None, CSRF_TOKEN := None\<rparr>)
                  else reject (Error (if msg \<noteq> [] then msg else ''Server error'')) w1
              | None \<Rightarrow> resolve payload w1))
         (\<lambda>error. reject error) w)"
| "doLogin_v1 0 silent = out_of_fuel"
| "doLogin_v1 (Suc n) silent = (\<lambda>w.
     if \<not> nonempty (SERVER_PASS w) then reject (Error ''No password available'') w
     else
       then_p
         (request_v1 n ''dologin''
            \<lparr>rpc_method = ''auth.login'', rpc_params = [JStr (the (SERVER_PASS w))]\<rparr> silent)
         (\<lambda>payload.
            if truthy (p_result payload) then
              then_p (getSession_v1 n) (\<lambda>u. resolve (p_result payload))
            else reject (Error ''Login failed - check your Deluge password'')) w)"
| "getSession_v1 0 = out_of_fuel"
| "getSession_v1 (Suc n) =
     then_p
       (request_v1 n ''getsession'' \<lparr>rpc_method = ''auth.check_session'', rpc_params = []\<rparr> False)
       (\<lambda>payload.
          if truthy (p_result payload) then resolve (p_result payload)
          else reject (Error ''Invalid session''))"

section \<open>First generation: daemon discovery and configuration\<close>

definition checkDaemonConnection_v1 :: "nat \<Rightarrow> json promise" where
  "checkDaemonConnection_v1 n =
     then_p
       (request_v1 n ''check-daemon'' \<lparr>rpc_method = ''web.connected'', rpc_params = []\<rparr> False)
       (\<lambda>response.
          if p_result response = JBool True then resolve (JBool True)
          else resolve (JBool False))"

definition getDaemons_v1 :: "nat \<Rightarrow> json promise" where
  "getDaemons_v1 n =
     then_p
       (request_v1 n ''getdaemons'' \<lparr>rpc_method = ''web.get_hosts'', rpc_params = []\<rparr> False)
       (\<lambda>payload w.
          if truthy (p_result payload) then
            resolve (p_result payload) (w\<lparr>daemon_hosts := p_result payload\<rparr>)
          else
            reject (Error ''Failed to get daemons'') (w\<lparr>daemon_hosts := JArr []\<rparr>))"

text \<open>\<open>Array.prototype.shift\<close>: the first element (\<open>undefined\<close> on an empty array) and the rest.\<close>

fun shift :: "json list \<Rightarrow> json \<times> json list" where
  "shift [] = (JNull, [])"
| "shift (x # xs) = (x, xs)"

text \<open>
  The \<open>daemon_info\<close> object that \<open>_getHostStatus\<close> builds from the answer
  \<open>[host_id, ip, port, status, version]\<close> or \<open>[host_id, status, version]\<close>.
\<close>

definition daemon_info_v1 :: "json list \<Rightarrow> json \<Rightarrow> json \<Rightarrow> json" where
  "daemon_info_v1 result ip port =
     (let (host_id, r1) = shift result;
          (ip', port', r2) =
            (if length r1 > 2 then
               (let (a, r') = shift r1; (b, r'') = shift r' in (a, b, r''))
             else (ip, port, r1));
          (st, r3) = shift r2;
          (version, r4) = shift r3
      in JObj [(''host_id'', host_id), (''ip'', ip'), (''port'', port'),
               (''status'', st), (''version'', version)])"

definition getHostStatus_v1 :: "nat \<Rightarrow> json \<Rightarrow> json \<Rightarrow> json \<Rightarrow> json promise" where
  "getHostStatus_v1 n hostId ip port =
     then_p
       (request_v1 n ''gethoststatus''
          \<lparr>rpc_method = ''web.get_host_status'', rpc_params = [hostId]\<rparr> False)
       (\<lambda>payload.
          if \<not> truthy (p_result payload) then reject (Error ''Failed to get host status'')
          else (case p_result payload of
                  JArr xs \<Rightarrow> resolve (daemon_info_v1 xs ip port)
                | other \<Rightarrow> reject (TypeError ''payload.result.shift is not a function'')))"

definition startDaemon_v1 :: "nat \<Rightarrow> json \<Rightarrow> json promise" where
  "startDaemon_v1 n daemon_info =
     then_p
       (request_v1 n ''startdaemon''
          \<lparr>rpc_method = ''web.start_daemon'', rpc_params = [jsget daemon_info ''port'']\<rparr> False)
       (\<lambda>payload.
          if p_error payload = None then resolve daemon_info
          else reject (Error ''Failed to start daemon''))"

text \<open>
  \<open>_connectDaemon\<close>: an \<open>Online\<close> daemon is connected to; any other status is polled
  again (after 5 s, which the model does not count) while \<open>CONNECT_ATTEMPTS\<close> is below 5.
\<close>

fun connectDaemon_v1 :: "nat \<Rightarrow> json \<Rightarrow> json promise" where
  "connectDaemon_v1 0 daemon_info = out_of_fuel"
| "connectDaemon_v1 (Suc n) daemon_info = (\<lambda>w.
     if jsget daemon_info ''status'' = JStr ''Online'' then
       then_p
         (request_v1 n ''connectdaemon''
            \<lparr>rpc_method = ''web.connect'', rpc_params = [jsget daemon_info ''host_id'']\<rparr> False)
         (\<lambda>payload.
            if p_error payload = None then resolve daemon_info
            else reject (Error ''Failed to connect to daemon'')) w
     else if CONNECT_ATTEMPTS w \<ge> 5 then reject (Error ''Max connection attempts reached'') w
     else
       then_p (getHostStatus_v1 n (jsget daemon_info ''host_id'') JNull JNull)
         (\<lambda>info. connectDaemon_v1 n info)
         (w\<lparr>CONNECT_ATTEMPTS := CONNECT_ATTEMPTS w + 1\<rparr>))"

text \<open>
  \<open>daemon_host[i]\<close>: an element of an array, a character of a string, a property of an
  object; \<open>None\<close> where the read throws (on \<open>null\<close>).
\<close>

fun elem :: "json \<Rightarrow> nat \<Rightarrow> json option" where
  "elem JNull i = None"
| "elem (JArr xs) i = Some (if i < length xs then xs ! i else JNull)"
| "elem (JStr s) i = Some (if i < length s then JStr [s ! i] else JNull)"
| "elem (JObj kvs) i = Some (jsget (JObj kvs) (show_nat i))"
| "elem x i = Some JNull"

text \<open>The text a value takes inside a template string (objects and arrays abridged).\<close>

fun template :: "json \<Rightarrow> string" where
  "template JNull = ''undefined''"
| "template (JBool b) = (if b then ''true'' else ''false'')"
| "template (JNum i) = (if i < 0 then ''-'' @ show_nat (nat (- i)) else show_nat (nat i))"
| "template (JStr s) = s"
| "template (JArr xs) = ''[array]''"
| "template (JObj kvs) = ''[object Object]''"

text \<open>
  One round of the \<open>reduce\<close> in \<open>_getConnectedDaemon\<close>: what the \<open>catch\<close> handler does
  for one \<open>daemon_host\<close>.
\<close>

definition tryDaemon_v1 :: "nat \<Rightarrow> json \<Rightarrow> json promise" where
  "tryDaemon_v1 n daemon_host =
     (case (elem daemon_host 0, elem daemon_host 1, elem daemon_host 2) of
        (Some hostId, Some ip, Some port) \<Rightarrow>
          then_p
            (then_p (getHostStatus_v1 n hostId ip port) (\<lambda>daemon_info.
               if jsget daemon_info ''status'' = JStr ''Connected'' then resolve daemon_info
               else if jsget daemon_info ''status'' = JStr ''Online'' then
                 connectDaemon_v1 n daemon_info
               else if jsget daemon_info ''status'' = JStr ''Offline'' then
                 then_p (startDaemon_v1 n daemon_info) (\<lambda>info. connectDaemon_v1 n info)
               else
                 reject (Error (''Unknown daemon status: '' @ template (jsget daemon_info ''status'')))))
            (\<lambda>daemon_info w.
               resolve daemon_info (w\<lparr>DAEMON_INFO := daemon_info, CONNECT_ATTEMPTS := 1\<rparr>))
      | other \<Rightarrow> reject (TypeError ''Cannot read properties of null''))"

definition getConnectedDaemon_v1 :: "nat \<Rightarrow> json \<Rightarrow> json promise" where
  "getConnectedDaemon_v1 n hosts = (\<lambda>w.
     if truthy (jsget (DAEMON_INFO w) ''host_id'') then resolve (DAEMON_INFO w) w
     else (case hosts of
         JArr hs \<Rightarrow>
           if hs = [] then reject (Error ''No daemons available'') w
           else
             foldl (\<lambda>promise daemon_host. catch_p promise (\<lambda>e. tryDaemon_v1 n daemon_host))
               (reject (Error ''Starting daemon connection attempts'')) hs w
       | JStr s \<Rightarrow>
           if s = [] then reject (Error ''No daemons available'') w
           else reject (TypeError ''daemon_hosts.reduce is not a function'') w
       | other \<Rightarrow> reject (Error ''No daemons available'') w))"

text \<open>\<open>{ ...x }\<close>: the own enumerable properties of \<open>x\<close> copied into a fresh object.\<close>

fun spread :: "json \<Rightarrow> json" where
  "spread (JObj kvs) = JObj kvs"
| "spread (JArr xs) = JObj (zip (map show_nat [0..<length xs]) xs)"
| "spread (JStr s) = JObj (zip (map show_nat [0..<length s]) (map (\<lambda>c. JStr [c]) s))"
| "spread x = JObj []"

definition getServerConfig_v1 :: "nat \<Rightarrow> json promise" where
  "getServerConfig_v1 n =
     catch_p
       (then_p
          (request_v1 n ''getconfig''
             \<lparr>rpc_method = ''core.get_config_values'',
              rpc_params = [JArr [JStr ''allow_remote'', JStr ''download_location'',
                                  JStr ''move_completed'', JStr ''move_completed_path'',
                                  JStr ''add_paused'']]\<rparr> False)
          (\<lambda>payload w.
             let w1 = w\<lparr>server_config := spread (p_result payload)\<rparr> in
             if \<not> truthy (jsget (server_config w1) ''allow_remote'') then
               reject (Error ''Remote connections disabled'') w1
             else resolve (JArr [server_config w1]) w1))
       (\<lambda>error. reject error)"

text \<open>
  The chain of \<open>_connect\<close> in two named parts: the session (probe, login on failure) and
  the daemon (check, discovery on failure); the configuration fetch comes last.
\<close>

definition ensureSession_v1 :: "nat \<Rightarrow> bool \<Rightarrow> json promise" where
  "ensureSession_v1 n silent = catch_p (getSession_v1 n) (\<lambda>e. doLogin_v1 n silent)"

definition ensureDaemon_v1 :: "nat \<Rightarrow> bool \<Rightarrow> json promise" where
  "ensureDaemon_v1 n silent =
     catch_p
       (then_p (ensureSession_v1 n silent) (\<lambda>u. checkDaemonConnection_v1 n))
       (\<lambda>e. then_p (getDaemons_v1 n) (\<lambda>daemons. getConnectedDaemon_v1 n daemons))"

definition connect_v1 :: "nat \<Rightarrow> bool \<Rightarrow> json promise" where
  "connect_v1 n silent =
     then_p initState_v1 (\<lambda>u w.
       if \<not> nonempty (SERVER_URL w) then
         reject (Error ''Server URL not set after initialization'') w
       else then_p (ensureDaemon_v1 n silent) (\<lambda>u. getServerConfig_v1 n) w)"

section \<open>Second generation: transport and session\<close>

definition read_connections_v2 :: "world \<Rightarrow> connection list" where
  "read_connections_v2 w = (case storage_connections w of
       NoValue \<Rightarrow> []
     | Text s \<Rightarrow> (case JSON_parse w s of Some cs \<Rightarrow> cs | None \<Rightarrow> [])
     | Entries cs \<Rightarrow> cs
     | NotAList \<Rightarrow> [])"

definition initState_v2 :: "json promise" where
  "initState_v2 = (\<lambda>w.
     let info = read_connections_v2 w in
     resolve JNull
       (w\<lparr>CONNECTION_INFO := info,
          SERVER_URL := (case info of [] \<Rightarrow> None | c # cs \<Rightarrow> url c),
          SERVER_PASS := (case info of [] \<Rightarrow> None | c # cs \<Rightarrow> pass c)\<rparr>))"

text \<open>\<open>_isAuthError\<close>.\<close>

definition isAuthError :: "payload \<Rightarrow> bool" where
  "isAuthError payload = (case p_error payload of
       None \<Rightarrow> False
     | Some msg \<Rightarrow> str_includes msg ''Not authenticated'' \<or> str_includes msg ''Invalid session''
                 \<or> str_includes msg ''No session exists'')"

text \<open>
  The second \<open>_request\<close> re-authenticates through \<open>_getSession\<close>, which logs in when the
  probe does not answer \<open>true\<close>; \<open>_doLogin\<close> probes again after a login.
\<close>

fun request_v2 :: "nat \<Rightarrow> string \<Rightarrow> rpc \<Rightarrow> bool \<Rightarrow> payload promise"
and doLogin_v2 :: "nat \<Rightarrow> bool \<Rightarrow> json promise"
and getSession_v2 :: "nat \<Rightarrow> json promise"
where
  "request_v2 0 st params silent = out_of_fuel"
| "request_v2 (Suc n) st params silent = (\<lambda>w.
     if \<not> nonempty (SERVER_URL w) then
       then_p initState_v2 (\<lambda>u w1.
         if \<not> nonempty (SERVER_URL w1) then reject (Error ''Server URL not available'') w1
         else request_v2 n st params silent w1) w
     else if \<not> url_valid w (the (SERVER_URL w)) then reject (Error ''Invalid server URL'') w
     else
       catch_p
         (then_p
           (then_p (fetch params) (\<lambda>response w0.
              let w1 = store_tokens response w0 in
              if \<not> ok response then
                if status response = 403 \<and> \<not> str_includes (rpc_method params) ''torrent'' then
                  then_p (getSession_v2 n) (\<lambda>u. request_v2 n st params silent) w1
                else
                  reject (Error (''HTTP error! status: '' @ show_nat (status response))) w1
              else response_json response w1))
           (\<lambda>payload.
              case p_error payload of
                Some msg \<Rightarrow> reject (Error (if msg \<noteq> [] then msg else ''Unknown server error''))
              | None \<Rightarrow>
                  if p_status payload = JNum 403 then
                    reject (Error ''Access denied by remote server'')
                  else if isAuthError payload then
                    then_p (getSession_v2 n) (\<lambda>u. request_v2 n st params silent)
                  else resolve payload))
         (\<lambda>error.
            if err_name error = ''AbortError'' then
              reject (Error ''Request timed out after 20000ms'')
            else reject error) w)"
| "doLogin_v2 0 silent = out_of_fuel"
| "doLogin_v2 (Suc n) silent = (\<lambda>w.
     if \<not> nonempty (SERVER_PASS w) then reject (Error ''No password available'') w
     else
       then_p
         (request_v2 n ''auth.login''
            \<lparr>rpc_method = ''auth.login'', rpc_params = [JStr (the (SERVER_PASS w))]\<rparr> silent)
         (\<lambda>payload.
            if truthy (p_result payload) then
              then_p (getSession_v2 n) (\<lambda>u. resolve (p_result payload))
            else reject (Error ''Login failed - check your Deluge password'')) w)"
| "getSession_v2 0 = out_of_fuel"
| "getSession_v2 (Suc n) =
     then_p
       (request_v2 n ''auth.check_session''
          \<lparr>rpc_method = ''auth.check_session'', rpc_params = []\<rparr> True)
       (\<lambda>payload.
          if p_result payload = JBool True then resolve (JBool True)
          else doLogin_v2 n False)"

section \<open>Second generation: daemon discovery and configuration\<close>

definition checkDaemonConnection_v2 :: "nat \<Rightarrow> json promise" where
  "checkDaemonConnection_v2 n =
     then_p
       (request_v2 n ''web.connected'' \<lparr>rpc_method = ''web.connected'', rpc_params = []\<rparr> False)
       (\<lambda>response.
          if p_result response = JBool True then resolve (JBool True)
          else resolve (JBool False))"

definition getDaemons_v2 :: "nat \<Rightarrow> json promise" where
  "getDaemons_v2 n =
     catch_p
       (then_p
          (request_v2 n ''web.get_hosts'' \<lparr>rpc_method = ''web.get_hosts'', rpc_params = []\<rparr> False)
          (\<lambda>payload w.
             let hosts = (if truthy (p_result payload) then p_result payload else JArr []) in
             resolve hosts (w\<lparr>daemon_hosts := hosts\<rparr>)))
       (\<lambda>error. reject error)"

text \<open>
  \<open>this.daemon_hosts.find(h => h[0] === hostId)\<close>; \<open>None\<close> where reading \<open>h[0]\<close> throws.
\<close>

fun find_host :: "json list \<Rightarrow> json \<Rightarrow> json option" where
  "find_host [] hostId = Some JNull"
| "find_host (h # hs) hostId = (case elem h 0 of
       None \<Rightarrow> None
     | Some x \<Rightarrow> if x = hostId then Some h else find_host hs hostId)"

text \<open>
  \<open>const [status, info] = payload.result\<close> for a truthy result: the first two elements of
  an array or characters of a string; \<open>None\<close> where the value is not iterable.
\<close>

fun first_two :: "json \<Rightarrow> (json \<times> json) option" where
  "first_two (JArr xs) = Some (fst (shift xs), fst (shift (snd (shift xs))))"
| "first_two (JStr s) =
     Some (fst (shift (map (\<lambda>c. JStr [c]) s)), fst (shift (snd (shift (map (\<lambda>c. JStr [c]) s)))))"
| "first_two x = None"

definition getHostStatus_v2 :: "nat \<Rightarrow> json \<Rightarrow> json promise" where
  "getHostStatus_v2 n hostId =
     then_p
       (request_v2 n ''web.get_host_status''
          \<lparr>rpc_method = ''web.get_host_status'', rpc_params = [hostId]\<rparr> False)
       (\<lambda>payload w.
          if \<not> truthy (p_result payload) then reject (Error ''Failed to get host status'') w
          else (case first_two (p_result payload) of
              None \<Rightarrow> reject (TypeError ''payload.result is not iterable'') w
            | Some (st, info) \<Rightarrow>
                (case daemon_hosts w of
                   JArr hs \<Rightarrow>
                     (case find_host hs hostId of
                        None \<Rightarrow> reject (TypeError ''Cannot read properties of null'') w
                      | Some h \<Rightarrow>
                          resolve (JObj [(''status'', st), (''info'', info),
                                         (''hostId'', hostId), (''host'', h)]) w)
                 | other \<Rightarrow> reject (TypeError ''this.daemon_hosts.find is not a function'') w)))"

definition connectDaemon_v2 :: "nat \<Rightarrow> json \<Rightarrow> json promise" where
  "connectDaemon_v2 n daemon_info =
     catch_p
       (then_p
          (request_v2 n ''web.connect''
             \<lparr>rpc_method = ''web.connect'', rpc_params = [jsget daemon_info ''hostId'']\<rparr> False)
          (\<lambda>payload. resolve (JBool True)))
       (\<lambda>error. reject error)"

definition startDaemon_v2 :: "nat \<Rightarrow> json \<Rightarrow> json promise" where
  "startDaemon_v2 n daemon_info =
     catch_p
       (then_p
          (request_v2 n ''web.start_daemon''
             \<lparr>rpc_method = ''web.start_daemon'', rpc_params = [jsget daemon_info ''hostId'']\<rparr> False)
          (\<lambda>payload. connectDaemon_v2 n daemon_info))
       (\<lambda>error. reject error)"

definition tryDaemon_v2 :: "nat \<Rightarrow> json \<Rightarrow> json promise" where
  "tryDaemon_v2 n daemon_host =
     (case elem daemon_host 0 of
        Some hostId \<Rightarrow>
          then_p
            (then_p (getHostStatus_v2 n hostId) (\<lambda>daemon_info.
               if jsget daemon_info ''status'' = JStr ''Connected'' then resolve daemon_info
               else if jsget daemon_info ''status'' = JStr ''Online'' then
                 connectDaemon_v2 n daemon_info
               else if jsget daemon_info ''status'' = JStr ''Offline'' then
                 then_p (startDaemon_v2 n daemon_info) (\<lambda>info. connectDaemon_v2 n info)
               else
                 reject (Error (''Unknown daemon status: '' @ template (jsget daemon_info ''status'')))))
            (\<lambda>daemon_info w.
               resolve daemon_info (w\<lparr>DAEMON_INFO := daemon_info, CONNECT_ATTEMPTS := 1\<rparr>))
      | None \<Rightarrow> reject (TypeError ''Cannot read properties of null''))"

definition getConnectedDaemon_v2 :: "nat \<Rightarrow> json \<Rightarrow> json promise" where
  "getConnectedDaemon_v2 n hosts = (\<lambda>w.
     if truthy (jsget (DAEMON_INFO w) ''host_id'') then resolve (DAEMON_INFO w) w
     else (case hosts of
         JArr hs \<Rightarrow>
           if hs = [] then reject (Error ''No daemons available'') w
           else
             foldl (\<lambda>promise daemon_host. catch_p promise (\<lambda>e. tryDaemon_v2 n daemon_host))
               (reject (Error ''Starting daemon connection attempts'')) hs w
       | JStr s \<Rightarrow>
           if s = [] then reject (Error ''No daemons available'') w
           else reject (TypeError ''daemon_hosts.reduce is not a function'') w
       | other \<Rightarrow> reject (Error ''No daemons available'') w))"

definition getServerConfig_v2 :: "nat \<Rightarrow> json promise" where
  "getServerConfig_v2 n =
     catch_p
       (then_p
          (request_v2 n ''core.get_config'' \<lparr>rpc_method = ''core.get_config'', rpc_params = []\<rparr> False)
          (\<lambda>payload w.
             if \<not> truthy (p_result payload) then reject (Error ''No config result'') w
             else resolve (p_result payload) (w\<lparr>server_config := p_result payload\<rparr>)))
       (\<lambda>error.
          if message error = ''Access denied by remote server'' then
            reject (Error ''Remote connections are not enabled on your Deluge server'')
          else reject error)"

text \<open>
  The chain of \<open>_connect\<close> in two named parts: the session (probe, login on failure) and
  the daemon (check, discovery on failure); the configuration fetch comes last.
\<close>

definition ensureSession_v2 :: "nat \<Rightarrow> bool \<Rightarrow> json promise" where
  "ensureSession_v2 n silent = catch_p (getSession_v2 n) (\<lambda>e. doLogin_v2 n silent)"

definition ensureDaemon_v2 :: "nat \<Rightarrow> bool \<Rightarrow> json promise" where
  "ensureDaemon_v2 n silent =
     catch_p
       (then_p (ensureSession_v2 n silent) (\<lambda>u. checkDaemonConnection_v2 n))
       (\<lambda>e. then_p (getDaemons_v2 n) (\<lambda>daemons. getConnectedDaemon_v2 n daemons))"

definition connect_v2 :: "nat \<Rightarrow> bool \<Rightarrow> json promise" where
  "connect_v2 n silent =
     then_p initState_v2 (\<lambda>u w.
       if \<not> nonempty (SERVER_URL w) then
         reject (Error ''Server URL not set after initialization'') w
       else then_p (ensureDaemon_v2 n silent) (\<lambda>u. getServerConfig_v2 n) w)"

section \<open>Adding a torrent\<close>

text \<open>
  \<open>encodeURI\<close> on strings whose code units are below 256: the characters it leaves alone,
  and the UTF-8 bytes of the others as \<open>%XX\<close>.
\<close>

definition uri_unescaped :: "char \<Rightarrow> bool" where
  "uri_unescaped c =
     (let n = (of_char c :: nat) in
      (65 \<le> n \<and> n \<le> 90) \<or> (97 \<le> n \<and> n \<le> 122) \<or> (48 \<le> n \<and> n \<le> 57) \<or>
      n \<in> set [59, 44, 47, 63, 58, 64, 38, 61, 43, 36, 45, 95, 46, 33, 126, 42, 39, 40, 41, 35])"

definition hex_digit :: "nat \<Rightarrow> char" where
  "hex_digit k = (if k < 10 then char_of (48 + k) else char_of (55 + k))"

definition pct :: "nat \<Rightarrow> string" where
  "pct b = [CHR ''%'', hex_digit (b div 16), hex_digit (b mod 16)]"

definition encode_char :: "char \<Rightarrow> string" where
  "encode_char c =
     (let n = (of_char c :: nat) in
      if uri_unescaped c then [c]
      else if n < 128 then pct n
      else pct (192 + n div 64) @ pct (128 + n mod 64))"

definition encodeURI :: "string \<Rightarrow> string" where
  "encodeURI s = concat (map encode_char s)"

text \<open>\<open>obj[k] = v\<close> and \<open>delete obj[k]\<close> on the property list of an object.\<close>

fun jsset :: "(string \<times> 'a) list \<Rightarrow> string \<Rightarrow> 'a \<Rightarrow> (string \<times> 'a) list" where
  "jsset [] k v = [(k, v)]"
| "jsset ((k', v') # kvs) k v = (if k' = k then (k, v) # kvs else (k', v') # jsset kvs k v)"

definition jsdelete :: "(string \<times> json) list \<Rightarrow> string \<Rightarrow> (string \<times> json) list" where
  "jsdelete kvs k = filter (\<lambda>kv. fst kv \<noteq> k) kvs"

text \<open>
  The parameter object both generations of \<open>_addTorrentUrlToServer\<close> build from the
  caller's options (\<open>None\<close> when no options were passed).
\<close>

definition build_params :: "(string \<times> json) list option \<Rightarrow> (string \<times> json) list" where
  "build_params options = (case options of
       None \<Rightarrow> []
     | Some opts \<Rightarrow>
         (let p1 = (if map_of opts ''add_paused'' \<noteq> None
                    then jsset [] ''add_paused'' (JBool (truthy (jsget (JObj opts) ''add_paused'')))
                    else []);
              p2 = (if truthy (jsget (JObj opts) ''download_location'')
                    then jsset p1 ''download_location'' (jsget (JObj opts) ''download_location'')
                    else p1);
              p3 = (if truthy (jsget (JObj opts) ''move_completed'')
                    then jsset p2 ''move_completed'' (JBool (truthy (jsget (JObj opts) ''move_completed'')))
                    else p2);
              p4 = (if truthy (jsget (JObj opts) ''move_completed_path'')
                    then jsset p3 ''move_completed_path'' (jsget (JObj opts) ''move_completed_path'')
                    else p3)
          in foldl (\<lambda>params kv. if map_of params (fst kv) = None
                                  then jsset params (fst kv) (snd kv) else params) p4 opts))"

text \<open>The payload as the value a promise resolves with.\<close>

definition payload_json :: "payload \<Rightarrow> json" where
  "payload_json p =
     JObj [(''error'', (case p_error p of None \<Rightarrow> JNull | Some m \<Rightarrow> JObj [(''message'', JStr m)])),
           (''result'', p_result p), (''status'', p_status p)]"

text \<open>
  The \<open>then\<close> handler that both generations of \<open>_addTorrentViaUrl\<close> attach to their request;
  \<open>retry\<close> is the request with the alternate parameter shape.
\<close>

definition addTorrent_response :: "payload promise \<Rightarrow> payload \<Rightarrow> json promise" where
  "addTorrent_response retry payload = (case p_error payload of
       Some msg \<Rightarrow>
         if msg \<noteq> [] \<and> (str_includes msg ''takes exactly 3 arguments''
                         \<or> str_includes msg ''takes exactly three arguments'') then
           then_p retry (\<lambda>p. resolve (payload_json p))
         else if msg \<noteq> [] \<and> str_includes msg ''403 Forbidden'' then
           reject (JsError ''Error''
             ''Unable to access torrent - the site may require authentication or cookies'' (Some 403))
         else reject (Error (if msg \<noteq> [] then msg else ''Failed to add torrent''))
     | None \<Rightarrow>
         if p_result payload = JBool False then reject (Error ''Server refused torrent'')
         else resolve (p_result payload))"

definition addTorrentViaUrl_v1 :: "nat \<Rightarrow> string \<Rightarrow> (string \<times> json) list \<Rightarrow> json promise" where
  "addTorrentViaUrl_v1 n u params =
     then_p
       (request_v1 n ''addtorrent''
          \<lparr>rpc_method = ''core.add_torrent_url'', rpc_params = [JStr u, JObj params]\<rparr> False)
       (addTorrent_response
          (request_v1 n ''addtorrent-v1''
             \<lparr>rpc_method = ''core.add_torrent_url'',
              rpc_params = [JStr u, JObj params, JObj []]\<rparr> False))"

definition addTorrentViaUrl_v2 :: "nat \<Rightarrow> string \<Rightarrow> (string \<times> json) list \<Rightarrow> json promise" where
  "addTorrentViaUrl_v2 n u params =
     (let headers = (if truthy (jsget (JObj params) ''cookie'')
                     then [(''Cookie'', jsget (JObj params) ''cookie'')] else []);
          params' = (if truthy (jsget (JObj params) ''cookie'')
                     then jsdelete params ''cookie'' else params)
      in then_p
           (request_v2 n ''core.add_torrent_url''
              \<lparr>rpc_method = ''core.add_torrent_url'',
               rpc_params = [JStr u, JObj params', JObj headers]\<rparr> False)
           (addTorrent_response
              (request_v2 n ''core.add_torrent_url''
                 \<lparr>rpc_method = ''core.add_torrent_url'',
                  rpc_params = [JStr u, JObj params', JObj []]\<rparr> False)))"

text \<open>
  First generation. The fallback after a failure with code 403 calls \<open>_downloadTorrent\<close>,
  which no file of the repository defines: the attempt is recorded, the handler throws
  there, and the promise handed to the caller is never settled.
\<close>

definition addTorrentUrlToServer_v1 ::
  "nat \<Rightarrow> string \<Rightarrow> (string \<times> json) list option \<Rightarrow> string option \<Rightarrow> json promise" where
  "addTorrentUrlToServer_v1 n u options cookie_domain = (\<lambda>w.
     let cookieHeader = (case cookie_domain of
                           None \<Rightarrow> []
                         | Some d \<Rightarrow> (if d = [] then []
                                      else (case map_of (COOKIES w) d of None \<Rightarrow> [] | Some c \<Rightarrow> c)));
         params = build_params options;
         encodedUrl = (if startsWith u ''magnet:'' then u else encodeURI u)
     in
     if startsWith u ''magnet:'' then addTorrentViaUrl_v1 n encodedUrl params w
     else
       (let params' = (if storage_send_cookies w \<noteq> JBool False \<and> cookieHeader \<noteq> []
                       then jsset params ''cookie'' (JStr cookieHeader) else params)
        in catch_p (addTorrentViaUrl_v1 n encodedUrl params')
             (\<lambda>error w1.
                if code error = Some 403 \<and> cookieHeader \<noteq> [] then
                  pending (w1\<lparr>trace := trace w1 @ [Download encodedUrl]\<rparr>)
                else reject error w1) w))"

text \<open>
  Second generation. The cookies come from the caller (\<open>None\<close> when the argument is
  missing: \<open>Object.entries\<close> then throws inside the storage callback). When the stored
  \<open>send_cookies\<close> is \<open>false\<close> the callback returns without calling anything.
\<close>

fun join_cookies :: "(string \<times> string) list \<Rightarrow> string" where
  "join_cookies [] = []"
| "join_cookies [(k, v)] = k @ ''='' @ v"
| "join_cookies ((k, v) # kvs) = k @ ''='' @ v @ ''; '' @ join_cookies kvs"

definition addTorrentUrlToServer_v2 ::
  "nat \<Rightarrow> string \<Rightarrow> (string \<times> json) list option \<Rightarrow> (string \<times> string) list option \<Rightarrow> json promise" where
  "addTorrentUrlToServer_v2 n u options cookies = (\<lambda>w.
     let params = build_params options;
         encodedUrl = (if startsWith u ''magnet:'' then u else encodeURI u)
     in
     if startsWith u ''magnet:'' then addTorrentViaUrl_v2 n encodedUrl params w
     else if storage_send_cookies w \<noteq> JBool False then
       (case cookies of
          None \<Rightarrow> pending w
        | Some cs \<Rightarrow>
            (let cookieString = join_cookies cs;
                 params' = (if cookieString \<noteq> [] then jsset params ''cookie'' (JStr cookieString)
                            else params)
             in catch_p (addTorrentViaUrl_v2 n encodedUrl params') (\<lambda>error. reject error) w))
     else pending w)"

text \<open>
  \<open>_getDomainCookies\<close> (first generation) never rejects and calls no server. What it
  collects from \<open>chrome.cookies\<close> for the URL and the domain is the world's \<open>cookie_store\<close>
  (empty when the host does not match or no cookie is found).
\<close>

definition getDomainCookies_v1 :: "string \<Rightarrow> string option \<Rightarrow> json promise" where
  "getDomainCookies_v1 u cookie_domain = (\<lambda>w.
     if \<not> truthy (storage_send_cookies w) then resolve (JStr []) w
     else (case cookie_domain of
         None \<Rightarrow> resolve (JStr []) w
       | Some d \<Rightarrow>
           if cookie_store w u d = [] then resolve (JStr []) w
           else resolve (JStr (cookie_store w u d))
                  (w\<lparr>COOKIES := jsset (COOKIES w) d (cookie_store w u d)\<rparr>)))"

text \<open>\<open>_processPluginOptions\<close>: a label is set on a best-effort basis.\<close>

definition processPluginOptions_v1 ::
  "nat \<Rightarrow> string \<Rightarrow> (string \<times> json) list option \<Rightarrow> json \<Rightarrow> json promise" where
  "processPluginOptions_v1 n u plugins torrentId = (case plugins of
       None \<Rightarrow> resolve JNull
     | Some ps \<Rightarrow>
         if \<not> truthy torrentId then resolve JNull
         else if truthy (jsget (JObj ps) ''Label'') then
           catch_p
             (then_p
                (request_v1 n ''set-torrent-label''
                   \<lparr>rpc_method = ''label.set_torrent'',
                    rpc_params = [torrentId, jsget (JObj ps) ''Label'']\<rparr> False)
                (\<lambda>p. resolve (JArr [payload_json p])))
             (\<lambda>error. resolve (JArr [JNull]))
         else resolve (JArr []))"

definition processPluginOptions_v2 ::
  "nat \<Rightarrow> string \<Rightarrow> (string \<times> json) list option \<Rightarrow> json \<Rightarrow> json promise" where
  "processPluginOptions_v2 n u plugins torrentId = (case plugins of
       None \<Rightarrow> resolve JNull
     | Some ps \<Rightarrow>
         if \<not> truthy torrentId then resolve JNull
         else if truthy (jsget (JObj ps) ''Label'') then
           catch_p
             (then_p
                (request_v2 n ''label.set_torrent''
                   \<lparr>rpc_method = ''label.set_torrent'',
                    rpc_params = [torrentId, jsget (JObj ps) ''Label'']\<rparr> False)
                (\<lambda>p. resolve (JArr [payload_json p])))
             (\<lambda>error. resolve (JArr [JNull]))
         else resolve (JArr []))"

text \<open>\<open>addTorrent\<close>, the public operation (\<open>plugins\<close> is \<open>None\<close> when none were passed).\<close>

definition addTorrent_v1 ::
  "nat \<Rightarrow> string \<Rightarrow> string option \<Rightarrow> (string \<times> json) list option \<Rightarrow>
   (string \<times> json) list option \<Rightarrow> json promise" where
  "addTorrent_v1 n u cookie_domain plugins options = (\<lambda>w.
     if \<not> nonempty (SERVER_URL w) then
       reject (Error ''SERVER_URL is not set. Please configure it in the options.'') w
     else
       catch_p
         (then_p
            (then_p
               (then_p (connect_v1 n False) (\<lambda>u'. getDomainCookies_v1 u cookie_domain))
               (\<lambda>u'. addTorrentUrlToServer_v1 n u options cookie_domain))
            (\<lambda>torrentId.
               case plugins of
                 None \<Rightarrow> resolve torrentId
               | Some ps \<Rightarrow>
                   if ps \<noteq> [] then
                     then_p (processPluginOptions_v1 n u plugins torrentId) (\<lambda>u'. resolve torrentId)
                   else resolve torrentId))
         (\<lambda>error. reject error) w)"

definition addTorrent_v2 ::
  "nat \<Rightarrow> string \<Rightarrow> (string \<times> string) list option \<Rightarrow> (string \<times> json) list option \<Rightarrow>
   (string \<times> json) list option \<Rightarrow> json promise" where
  "addTorrent_v2 n u cookies plugins options = (\<lambda>w.
     if \<not> nonempty (SERVER_URL w) then
       reject (Error ''SERVER_URL is not set. Please configure it in the options.'') w
     else
       catch_p
         (then_p
            (then_p (connect_v2 n False)
               (\<lambda>u'. addTorrentUrlToServer_v2 n u options cookies))
            (\<lambda>torrentId.
               case plugins of
                 None \<Rightarrow> resolve torrentId
               | Some ps \<Rightarrow>
                   if ps \<noteq> [] then
                     then_p (processPluginOptions_v2 n u plugins torrentId) (\<lambda>u'. resolve torrentId)
                   else resolve torrentId))
         (\<lambda>error. reject error) w)"

section \<open>Label discovery\<close>















section \<open>A fresh client\<close>

text \<open>
  The state the constructor \<open>DelugeConnection()\<close> leaves, in an environment with the given
  stored connections, stored \<open>send_cookies\<close> and coming network replies; every server URL
  is well-formed, no stored text parses, and the browser holds no cookies.
\<close>

definition DelugeConnection :: "stored \<Rightarrow> json \<Rightarrow> reply list \<Rightarrow> world" where
  "DelugeConnection conns send_cookies replies =
     \<lparr>SERVER_URL = None, SERVER_PASS = None, CONNECTION_INFO = [],
      SESSION_COOKIE = None, CSRF_TOKEN = None,
      DAEMON_INFO = JObj [(''status'', JStr []), (''port'', JNull), (''ip'', JNull),
                          (''host_id'', JNull), (''version'', JNull)],
      CONNECT_ATTEMPTS = 0, daemon_hosts = JArr [], server_config = JObj [],
      COOKIES = [], storage_connections = conns, storage_send_cookies = send_cookies,
      JSON_parse = (\<lambda>s. None), url_valid = (\<lambda>s. True), cookie_store = (\<lambda>u d. []),
      network = replies, trace = []\<rparr>"

text \<open>
  A client whose fields were initialised from one stored connection, as \<open>connectToServer\<close>
  leaves them.
\<close>

definition configured :: "json \<Rightarrow> reply list \<Rightarrow> world" where
  "configured send_cookies replies =
     (DelugeConnection
        (Entries [\<lparr>url = Some ''http://localhost:8112'', pass = Some ''deluge''\<rparr>])
        send_cookies replies)
     \<lparr>CONNECTION_INFO := [\<lparr>url = Some ''http://localhost:8112'', pass = Some ''deluge''\<rparr>],
      SERVER_URL := Some ''http://localhost:8112'',
      SERVER_PASS := Some ''deluge''\<rparr>"

text \<open>
  Replies of the panel: a 200 answer with a result, a 200 answer with an error message,
  and a bare status without a JSON body.
\<close>

definition answer :: "json \<Rightarrow> reply" where
  "answer r = Answer \<lparr>status = 200, set_cookie = None, csrf_header = None,
                      body = Some \<lparr>p_error = None, p_result = r, p_status = JNull\<rparr>\<rparr>"

definition server_error :: "string \<Rightarrow> reply" where
  "server_error msg = Answer \<lparr>status = 200, set_cookie = None, csrf_header = None,
                              body = Some \<lparr>p_error = Some msg, p_result = JNull, p_status = JNull\<rparr>\<rparr>"


section \<open>Observations on runs\<close>

text \<open>The calls among a list of events, and the calls recorded between two worlds.\<close>

fun calls :: "event list \<Rightarrow> rpc list" where
  "calls [] = []"
| "calls (Fetch q c t # evs) = q # calls evs"
| "calls (Download u # evs) = calls evs"

definition issued :: "world \<Rightarrow> world \<Rightarrow> rpc list" where
  "issued w w' = calls (drop (length (trace w)) (trace w'))"

text \<open>The two calls of the session logic.\<close>

definition session_call :: "rpc \<Rightarrow> bool" where
  "session_call q = (rpc_method q = ''auth.login'' \<or> rpc_method q = ''auth.check_session'')"

definition own_or_session :: "rpc \<Rightarrow> rpc \<Rightarrow> bool" where
  "own_or_session p q = (q = p \<or> session_call q)"

text \<open>An event that is a fetch of a call in the class \<open>A\<close>.\<close>

fun fetch_of :: "(rpc \<Rightarrow> bool) \<Rightarrow> event \<Rightarrow> bool" where
  "fetch_of A (Fetch q c t) = A q"
| "fetch_of A (Download u) = False"

text \<open>
  \<open>same_env w w1\<close>: the step from \<open>w\<close> to \<open>w1\<close> touched only fields of the instance.
  \<open>grows A w w'\<close>: from \<open>w\<close> to \<open>w'\<close> the trace was extended by fetches of calls in \<open>A\<close>,
  network replies were only consumed, and storage was left alone.
\<close>

definition same_env :: "world \<Rightarrow> world \<Rightarrow> bool" where
  "same_env w w1 =
     (trace w1 = trace w \<and> network w1 = network w
      \<and> storage_send_cookies w1 = storage_send_cookies w
      \<and> storage_connections w1 = storage_connections w)"

definition grows :: "(rpc \<Rightarrow> bool) \<Rightarrow> world \<Rightarrow> world \<Rightarrow> bool" where
  "grows A w w' =
     ((\<exists>evs. trace w' = trace w @ evs \<and> list_all (fetch_of A) evs)
      \<and> length (network w') \<le> length (network w)
      \<and> storage_send_cookies w' = storage_send_cookies w
      \<and> storage_connections w' = storage_connections w)"

text \<open>
  A promise is \<open>sound\<close> for a class of calls when every run of it that settles has only
  fetched calls of the class, has settled (is not pending), and has not rejected with an
  error that carries a \<open>code\<close>. A payload promise is \<open>clean\<close> when it only resolves with
  payloads that carry no error.
\<close>

definition sound :: "(rpc \<Rightarrow> bool) \<Rightarrow> 'a promise \<Rightarrow> bool" where
  "sound A p = (\<forall>w r w'. p w = Some (r, w') \<longrightarrow>
      grows A w w' \<and> r \<noteq> Pending \<and> (\<forall>e. r = Rejected e \<longrightarrow> code e = None))"

definition clean :: "payload promise \<Rightarrow> bool" where
  "clean p = (\<forall>w pl w'. p w = Some (Resolved pl, w') \<longrightarrow> p_error pl = None)"

text \<open>The world right after a fetch of \<open>p\<close> was answered by \<open>r\<close>, with \<open>rest\<close> still to come.\<close>

definition after_fetch :: "rpc \<Rightarrow> http_response \<Rightarrow> reply list \<Rightarrow> world \<Rightarrow> world" where
  "after_fetch p r rest w =
     store_tokens r
       (w\<lparr>trace := trace w @ [Fetch p (SESSION_COOKIE w) (CSRF_TOKEN w)], network := rest\<rparr>)"

text \<open>
  \<open>fail_through t hs w\<close>: the world reached when the attempt \<open>t\<close> is run on each host of
  \<open>hs\<close> in turn and every one of them rejects (\<open>None\<close> otherwise).
\<close>

fun fail_through :: "(json \<Rightarrow> json promise) \<Rightarrow> json list \<Rightarrow> world \<Rightarrow> world option" where
  "fail_through t [] w = Some w"
| "fail_through t (h # hs) w = (case t h w of
       Some (Rejected e, w') \<Rightarrow> fail_through t hs w'
     | other \<Rightarrow> None)"

text \<open>
  The two \<open>then\<close> handlers of \<open>_request\<close>, named: what it does with the response of the
  fetch and what it does with the parsed payload.
\<close>

definition on_response_v1 :: "nat \<Rightarrow> string \<Rightarrow> rpc \<Rightarrow> bool \<Rightarrow> http_response \<Rightarrow> payload promise" where
  "on_response_v1 n st params silent response = (\<lambda>w0.
     let w1 = store_tokens response w0 in
     if \<not> ok response then
       if status response = 403 \<and> \<not> str_includes (rpc_method params) ''add_torrent'' then
         then_p (doLogin_v1 n silent) (\<lambda>u. request_v1 n st params silent)
           (w1\<lparr>SESSION_COOKIE := None, CSRF_TOKEN := None\<rparr>)
       else
         reject (Error (''HTTP error! status: '' @ show_nat (status response))) w1
     else response_json response w1)"

definition on_payload_v1 :: "nat \<Rightarrow> string \<Rightarrow> rpc \<Rightarrow> bool \<Rightarrow> payload \<Rightarrow> payload promise" where
  "on_payload_v1 n st params silent payload = (\<lambda>w1.
     case p_error payload of
       Some msg \<Rightarrow>
         if str_includes msg ''403 Forbidden'' \<and> str_includes (rpc_method params) ''add_torrent'' then
           reject (Error ''Remote server denied access - the site may require authentication'') w1
         else if str_includes msg ''Not authenticated'' then
           then_p (doLogin_v1 n silent) (\<lambda>u. request_v1 n st params silent)
             (w1\<lparr>SESSION_COOKIE := None, CSRF_TOKEN := None\<rparr>)
         else reject (Error (if msg \<noteq> [] then msg else ''Server error'')) w1
     | None \<Rightarrow> resolve payload w1)"

definition on_response_v2 :: "nat \<Rightarrow> string \<Rightarrow> rpc \<Rightarrow> bool \<Rightarrow> http_response \<Rightarrow> payload promise" where
  "on_response_v2 n st params silent response = (\<lambda>w0.
     let w1 = store_tokens response w0 in
     if \<not> ok response then
       if status response = 403 \<and> \<not> str_includes (rpc_method params) ''torrent'' then
         then_p (getSession_v2 n) (\<lambda>u. request_v2 n st params silent) w1
       else
         reject (Error (''HTTP error! status: '' @ show_nat (status response))) w1
     else response_json response w1)"

definition on_payload_v2 :: "nat \<Rightarrow> string \<Rightarrow> rpc \<Rightarrow> bool \<Rightarrow> payload \<Rightarrow> payload promise" where
  "on_payload_v2 n st params silent payload =
     (case p_error payload of
        Some msg \<Rightarrow> reject (Error (if msg \<noteq> [] then msg else ''Unknown server error''))
      | None \<Rightarrow>
          if p_status payload = JNum 403 then
            reject (Error ''Access denied by remote server'')
          else if isAuthError payload then
            then_p (getSession_v2 n) (\<lambda>u. request_v2 n st params silent)
          else resolve payload)"

definition on_error_v2 :: "js_error \<Rightarrow> payload promise" where
  "on_error_v2 error =
     (if err_name error = ''AbortError'' then
        reject (Error ''Request timed out after 20000ms'')
      else reject error)"

text \<open>
  \<open>calm\<close>: never rejects with an \<open>AbortError\<close>. \<open>clean2\<close>: only resolves with payloads whose
  \<open>status\<close> field is not 403.
\<close>

definition calm :: "'a promise \<Rightarrow> bool" where
  "calm p = (\<forall>w e w'. p w = Some (Rejected e, w') \<longrightarrow> err_name e \<noteq> ''AbortError'')"

definition clean2 :: "payload promise \<Rightarrow> bool" where
  "clean2 p = (\<forall>w pl w'. p w = Some (Resolved pl, w') \<longrightarrow> p_status pl \<noteq> JNum 403)"

text \<open>The calls that \<open>_connect\<close> and the functions below it can issue.\<close>

definition connect_call :: "rpc \<Rightarrow> bool" where
  "connect_call q = (rpc_method q \<in> set
     [''auth.login'', ''auth.check_session'', ''web.connected'', ''web.get_hosts'',
      ''web.get_host_status'', ''web.connect'', ''web.start_daemon'',
      ''core.get_config_values'', ''core.get_config''])"

text \<open>A call that, if it is an add-torrent call, carries the URL \<open>u\<close> as its first parameter.\<close>

definition carries_url :: "string \<Rightarrow> rpc \<Rightarrow> bool" where
  "carries_url u q =
     (if rpc_method q = ''core.add_torrent_url''
      then (case rpc_params q of JStr v # rest \<Rightarrow> v = u | other \<Rightarrow> False)
      else True)"

text \<open>The calls of the session logic as they are sent.\<close>

definition probe_call :: rpc where
  "probe_call = \<lparr>rpc_method = ''auth.check_session'', rpc_params = []\<rparr>"

definition login_call :: "world \<Rightarrow> rpc" where
  "login_call w = \<lparr>rpc_method = ''auth.login'', rpc_params = [JStr (the (SERVER_PASS w))]\<rparr>"

text \<open>A reply that is a 2xx answer with a parsed payload that carries no error.\<close>

definition plain :: "http_response \<Rightarrow> payload \<Rightarrow> bool" where
  "plain r pl = (ok r \<and> body r = Some pl \<and> p_error pl = None \<and> p_status pl \<noteq> JNum 403)"

text \<open>The configuration calls of the two generations as they are sent.\<close>

definition config_call_v1 :: rpc where
  "config_call_v1 =
     \<lparr>rpc_method = ''core.get_config_values'',
      rpc_params = [JArr [JStr ''allow_remote'', JStr ''download_location'',
                          JStr ''move_completed'', JStr ''move_completed_path'',
                          JStr ''add_paused'']]\<rparr>"

definition config_call_v2 :: rpc where
  "config_call_v2 = \<lparr>rpc_method = ''core.get_config'', rpc_params = []\<rparr>"





text \<open>The calls of the daemon locator as they are sent.\<close>

definition status_rpc :: "json \<Rightarrow> rpc" where
  "status_rpc hostId = \<lparr>rpc_method = ''web.get_host_status'', rpc_params = [hostId]\<rparr>"

definition start_rpc_v1 :: "json \<Rightarrow> rpc" where
  "start_rpc_v1 daemon_info =
     \<lparr>rpc_method = ''web.start_daemon'', rpc_params = [jsget daemon_info ''port'']\<rparr>"

definition connect_rpc_v1 :: "json \<Rightarrow> rpc" where
  "connect_rpc_v1 daemon_info =
     \<lparr>rpc_method = ''web.connect'', rpc_params = [jsget daemon_info ''host_id'']\<rparr>"

text \<open>
  The panel as it answers a client whose logins do not take effect: \<open>k\<close> times a session
  probe answered \<open>false\<close> and a login answered \<open>true\<close>, then \<open>rest\<close>.
\<close>

fun unconfirmed :: "nat \<Rightarrow> reply list \<Rightarrow> reply list" where
  "unconfirmed 0 rest = rest"
| "unconfirmed (Suc k) rest = answer (JBool False) # answer (JBool True) # unconfirmed k rest"

text \<open>
  The panel as it answers the status polls of \<open>_connectDaemon\<close> (first generation): one
  answer per poll, then \<open>rest\<close>; and the host ids those polls ask for, each taken from
  the info the previous answer gave.
\<close>

fun polls_v1 :: "json list list \<Rightarrow> reply list \<Rightarrow> reply list" where
  "polls_v1 [] rest = rest"
| "polls_v1 (xs # xss) rest = answer (JArr xs) # polls_v1 xss rest"

fun poll_ids :: "json \<Rightarrow> json list list \<Rightarrow> json list" where
  "poll_ids info [] = []"
| "poll_ids info (xs # xss) = jsget info ''host_id'' # poll_ids (daemon_info_v1 xs JNull JNull) xss"

section \<open>General facts\<close>

subsection \<open>Promise combinators\<close>

lemma catch_rethrow: "catch_p p (\<lambda>e. reject e) = p"
  by (rule ext) (simp add: catch_p_def reject_def split: option.splits prod.splits settled.splits)

lemma then_resolved: "p w = Some (Resolved v, w1) \<Longrightarrow> then_p p f w = f v w1"
  by (simp add: then_p_def)

lemma then_rejected: "p w = Some (Rejected e, w1) \<Longrightarrow> then_p p f w = Some (Rejected e, w1)"
  by (simp add: then_p_def)

lemma then_pending: "p w = Some (Pending, w1) \<Longrightarrow> then_p p f w = Some (Pending, w1)"
  by (simp add: then_p_def)

lemma catch_resolved: "p w = Some (Resolved v, w1) \<Longrightarrow> catch_p p f w = Some (Resolved v, w1)"
  by (simp add: catch_p_def)

lemma catch_rejected: "p w = Some (Rejected e, w1) \<Longrightarrow> catch_p p f w = f e w1"
  by (simp add: catch_p_def)

lemma catch_pending: "p w = Some (Pending, w1) \<Longrightarrow> catch_p p f w = Some (Pending, w1)"
  by (simp add: catch_p_def)

subsection \<open>Growth of the trace\<close>

lemma grows_refl: "grows A w w"
  by (simp add: grows_def)

lemma grows_trans: "grows A w w1 \<Longrightarrow> grows A w1 w2 \<Longrightarrow> grows A w w2"
  by (auto simp: grows_def)

lemma grows_pre: "same_env w w1 \<Longrightarrow> grows A w1 w2 \<Longrightarrow> grows A w w2"
  by (simp add: grows_def same_env_def)

lemma grows_same: "same_env w w1 \<Longrightarrow> grows A w w1"
  by (simp add: grows_def same_env_def)

lemma fetch_of_mono: "(\<And>q. A q \<Longrightarrow> B q) \<Longrightarrow> fetch_of A e \<Longrightarrow> fetch_of B e"
  by (cases e) auto

lemma grows_mono:
  assumes "grows A w w'" and "\<And>q. A q \<Longrightarrow> B q"
  shows "grows B w w'"
proof -
  have "list_all (fetch_of A) evs \<Longrightarrow> list_all (fetch_of B) evs" for evs
    by (simp add: list_all_iff fetch_of_mono[of A B, OF assms(2)])
  with assms(1) show ?thesis unfolding grows_def by blast
qed

lemma same_env_store_tokens: "same_env w (store_tokens r w)"
  by (simp add: same_env_def store_tokens_def Let_def)

lemma same_env_clear:
  "same_env w w1 \<Longrightarrow> same_env w (w1\<lparr>SESSION_COOKIE := a, CSRF_TOKEN := b\<rparr>)"
  by (simp add: same_env_def)

lemma calls_append: "calls (xs @ ys) = calls xs @ calls ys"
  by (induction xs rule: calls.induct) simp_all

lemma calls_fetch_of: "list_all (fetch_of A) evs \<Longrightarrow> list_all A (calls evs)"
  by (induction evs rule: calls.induct) simp_all

lemma grows_issued: "grows A w w' \<Longrightarrow> list_all A (issued w w')"
  by (auto simp: grows_def issued_def calls_fetch_of)

lemma grows_no_download: "grows A w w' \<Longrightarrow> Download u \<notin> set (drop (length (trace w)) (trace w'))"
proof
  assume g: "grows A w w'" and d: "Download u \<in> set (drop (length (trace w)) (trace w'))"
  from g obtain evs where "trace w' = trace w @ evs" and a: "list_all (fetch_of A) evs"
    unfolding grows_def by blast
  with d have "Download u \<in> set evs" by simp
  with a have "fetch_of A (Download u)" unfolding list_all_iff by blast
  then show False by simp
qed

lemma issued_trans:
  "grows A w w1 \<Longrightarrow> grows B w1 w2 \<Longrightarrow> issued w w2 = issued w w1 @ issued w1 w2"
  by (auto simp: grows_def issued_def calls_append)

subsection \<open>Sound promises\<close>

lemma soundD:
  "sound A p \<Longrightarrow> p w = Some (r, w') \<Longrightarrow>
     grows A w w' \<and> r \<noteq> Pending \<and> (\<forall>e. r = Rejected e \<longrightarrow> code e = None)"
  by (simp add: sound_def)

lemma sound_then:
  assumes "sound A p" and "\<And>v. sound A (f v)"
  shows "sound A (then_p p f)"
  unfolding sound_def
proof (intro allI impI)
  fix w r w'
  assume h: "then_p p f w = Some (r, w')"
  show "grows A w w' \<and> r \<noteq> Pending \<and> (\<forall>e. r = Rejected e \<longrightarrow> code e = None)"
  proof (cases "p w")
    case None
    with h show ?thesis by (simp add: then_p_def)
  next
    case (Some a)
    obtain r1 w1 where a: "a = (r1, w1)" by (cases a)
    have p1: "grows A w w1 \<and> r1 \<noteq> Pending \<and> (\<forall>e. r1 = Rejected e \<longrightarrow> code e = None)"
      using assms(1) Some a by (simp add: sound_def)
    show ?thesis
    proof (cases r1)
      case (Resolved v)
      with h Some a have "f v w1 = Some (r, w')" by (simp add: then_p_def)
      with assms(2)[of v]
      have "grows A w1 w' \<and> r \<noteq> Pending \<and> (\<forall>e. r = Rejected e \<longrightarrow> code e = None)"
        by (simp add: sound_def)
      with p1 show ?thesis by (blast intro: grows_trans)
    next
      case (Rejected e)
      with h Some a p1 show ?thesis by (auto simp: then_p_def)
    next
      case Pending
      with p1 show ?thesis by simp
    qed
  qed
qed

lemma sound_catch:
  assumes "sound A p" and "\<And>e. code e = None \<Longrightarrow> sound A (f e)"
  shows "sound A (catch_p p f)"
  unfolding sound_def
proof (intro allI impI)
  fix w r w'
  assume h: "catch_p p f w = Some (r, w')"
  show "grows A w w' \<and> r \<noteq> Pending \<and> (\<forall>e. r = Rejected e \<longrightarrow> code e = None)"
  proof (cases "p w")
    case None
    with h show ?thesis by (simp add: catch_p_def)
  next
    case (Some a)
    obtain r1 w1 where a: "a = (r1, w1)" by (cases a)
    have p1: "grows A w w1 \<and> r1 \<noteq> Pending \<and> (\<forall>e. r1 = Rejected e \<longrightarrow> code e = None)"
      using assms(1) Some a by (simp add: sound_def)
    show ?thesis
    proof (cases r1)
      case (Resolved v)
      with h Some a p1 show ?thesis by (auto simp: catch_p_def)
    next
      case (Rejected e)
      with h Some a have "f e w1 = Some (r, w')" by (simp add: catch_p_def)
      moreover have "code e = None" using p1 Rejected by simp
      ultimately
      have "grows A w1 w' \<and> r \<noteq> Pending \<and> (\<forall>e. r = Rejected e \<longrightarrow> code e = None)"
        using assms(2)[of e] by (simp add: sound_def)
      with p1 show ?thesis by (blast intro: grows_trans)
    next
      case Pending
      with p1 show ?thesis by simp
    qed
  qed
qed

lemma sound_resolve: "sound A (resolve v)"
  by (simp add: sound_def resolve_def grows_refl)

lemma sound_reject: "code e = None \<Longrightarrow> sound A (reject e)"
  by (simp add: sound_def reject_def grows_refl)

lemma sound_Error: "sound A (reject (Error m))"
  by (simp add: sound_reject Error_def)

lemma sound_TypeError: "sound A (reject (TypeError m))"
  by (simp add: sound_reject TypeError_def)

lemma sound_fetch: "A p \<Longrightarrow> sound A (fetch p)"
  by (auto simp: sound_def fetch_def Let_def grows_def TypeError_def
           split: list.splits reply.splits)

lemma sound_if: "(c \<Longrightarrow> sound A p) \<Longrightarrow> (\<not> c \<Longrightarrow> sound A q) \<Longrightarrow> sound A (if c then p else q)"
  by simp

lemma sound_ifw: "sound A p \<Longrightarrow> sound A q \<Longrightarrow> sound A (\<lambda>w. if c w then p w else q w)"
  by (simp add: sound_def)

lemma sound_world: "(\<And>w0. sound A (f w0)) \<Longrightarrow> sound A (\<lambda>w. f w w)"
  by (simp add: sound_def)

lemma sound_pre:
  assumes "sound A p" and "\<And>w. same_env w (g w)"
  shows "sound A (\<lambda>w. p (g w))"
  unfolding sound_def
proof (intro allI impI)
  fix w r w'
  assume "p (g w) = Some (r, w')"
  from soundD[OF assms(1) this] assms(2)[of w]
  show "grows A w w' \<and> r \<noteq> Pending \<and> (\<forall>e. r = Rejected e \<longrightarrow> code e = None)"
    by (blast intro: grows_pre)
qed

lemma sound_mono:
  assumes "sound A p" and "\<And>q. A q \<Longrightarrow> B q"
  shows "sound B p"
  unfolding sound_def
proof (intro allI impI)
  fix w r w'
  assume "p w = Some (r, w')"
  from soundD[OF assms(1) this] grows_mono[of A w w' B, OF _ assms(2)]
  show "grows B w w' \<and> r \<noteq> Pending \<and> (\<forall>e. r = Rejected e \<longrightarrow> code e = None)"
    by blast
qed

lemma sound_response_json: "sound A (response_json r)"
  by (simp add: response_json_def sound_reject sound_resolve split: option.splits)

lemma sound_initState_v1: "sound A initState_v1"
  by (simp add: sound_def initState_v1_def resolve_def Let_def grows_def)

lemma sound_initState_v2: "sound A initState_v2"
  by (simp add: sound_def initState_v2_def resolve_def Let_def grows_def)

lemma clean_then: "(\<And>v. clean (f v)) \<Longrightarrow> clean (then_p p f)"
  unfolding clean_def then_p_def
  by (auto split: option.splits prod.splits settled.splits)

lemma clean_catch: "clean p \<Longrightarrow> (\<And>e. clean (f e)) \<Longrightarrow> clean (catch_p p f)"
  unfolding clean_def catch_p_def
  by (auto split: option.splits prod.splits settled.splits)

lemma clean_reject: "clean (reject e)"
  by (simp add: clean_def reject_def)

lemma clean_ifw: "clean p \<Longrightarrow> clean q \<Longrightarrow> clean (\<lambda>w. if c w then p w else q w)"
  by (simp add: clean_def)

lemma clean_pre: "clean p \<Longrightarrow> clean (\<lambda>w. p (g w))"
  by (simp add: clean_def)

lemma session_own: "session_call p \<Longrightarrow> own_or_session p q \<Longrightarrow> session_call q"
  by (auto simp: own_or_session_def)

subsection \<open>The transport and session functions are sound\<close>

lemma trio_v1:
  "(\<forall>st p silent. sound (own_or_session p) (request_v1 n st p silent)
                  \<and> clean (request_v1 n st p silent))
   \<and> (\<forall>silent. sound session_call (doLogin_v1 n silent))
   \<and> sound session_call (getSession_v1 n)"
proof (induction n)
  case 0
  show ?case by (simp add: sound_def clean_def out_of_fuel_def)
next
  case (Suc n)
  have sD: "\<And>silent. sound session_call (doLogin_v1 n silent)" using Suc by blast
  have sG: "sound session_call (getSession_v1 n)" using Suc by blast
  have sR: "\<And>st p silent. sound (own_or_session p) (request_v1 n st p silent)" using Suc by blast
  have cR: "\<And>st p silent. clean (request_v1 n st p silent)" using Suc by blast
  have sS: "\<And>st p silent. session_call p \<Longrightarrow> sound session_call (request_v1 n st p silent)"
    by (rule sound_mono[OF sR]) (rule session_own)
  have req: "sound (own_or_session p) (request_v1 (Suc n) st p silent)
             \<and> clean (request_v1 (Suc n) st p silent)" for st p silent
  proof -
    let ?A = "own_or_session p"
    have relogin: "sound ?A (then_p (doLogin_v1 n silent) (\<lambda>u. request_v1 n st p silent))"
      by (intro sound_then sR sound_mono[OF sD]) (simp add: own_or_session_def)
    have crelogin: "clean (then_p (doLogin_v1 n silent) (\<lambda>u. request_v1 n st p silent))"
      by (intro clean_then cR)
    have init: "sound ?A (then_p initState_v1 (\<lambda>u w1.
         if \<not> nonempty (SERVER_URL w1) then reject (Error ''Server URL not available'') w1
         else request_v1 n st p silent w1))"
      by (intro sound_then sound_initState_v1 sound_ifw sound_Error sR)
    have cinit: "clean (then_p initState_v1 (\<lambda>u w1.
         if \<not> nonempty (SERVER_URL w1) then reject (Error ''Server URL not available'') w1
         else request_v1 n st p silent w1))"
      by (intro clean_then clean_ifw clean_reject cR)
    have h1: "sound ?A (\<lambda>w0.
              let w1 = store_tokens response w0 in
              if \<not> ok response then
                if status response = 403 \<and> \<not> str_includes (rpc_method p) ''add_torrent'' then
                  then_p (doLogin_v1 n silent) (\<lambda>u. request_v1 n st p silent)
                    (w1\<lparr>SESSION_COOKIE := None, CSRF_TOKEN := None\<rparr>)
                else
                  reject (Error (''HTTP error! status: '' @ show_nat (status response))) w1
              else response_json response w1)" for response
      unfolding sound_def
    proof (intro allI impI)
      fix w r w'
      assume h: "(let w1 = store_tokens response w in
              if \<not> ok response then
                if status response = 403 \<and> \<not> str_includes (rpc_method p) ''add_torrent'' then
                  then_p (doLogin_v1 n silent) (\<lambda>u. request_v1 n st p silent)
                    (w1\<lparr>SESSION_COOKIE := None, CSRF_TOKEN := None\<rparr>)
                else
                  reject (Error (''HTTP error! status: '' @ show_nat (status response))) w1
              else response_json response w1) = Some (r, w')"
      let ?w1 = "store_tokens response w"
      have e1: "same_env w ?w1" by (rule same_env_store_tokens)
      have e2: "same_env w (?w1\<lparr>SESSION_COOKIE := None, CSRF_TOKEN := None\<rparr>)"
        by (rule same_env_clear[OF e1])
      show "grows ?A w w' \<and> r \<noteq> Pending \<and> (\<forall>e. r = Rejected e \<longrightarrow> code e = None)"
      proof (cases "ok response")
        case True
        with h have "response_json response ?w1 = Some (r, w')" by (simp add: Let_def)
        from soundD[OF sound_response_json this] e1 show ?thesis by (blast intro: grows_pre)
      next
        case False
        show ?thesis
        proof (cases "status response = 403 \<and> \<not> str_includes (rpc_method p) ''add_torrent''")
          case True
          with h False have "then_p (doLogin_v1 n silent) (\<lambda>u. request_v1 n st p silent)
                    (?w1\<lparr>SESSION_COOKIE := None, CSRF_TOKEN := None\<rparr>) = Some (r, w')"
            by (simp add: Let_def)
          from soundD[OF relogin this] e2 show ?thesis by (blast intro: grows_pre)
        next
          case F2: False
          with h False have "reject (Error (''HTTP error! status: '' @ show_nat (status response))) ?w1
               = Some (r, w')"
            by (simp add: Let_def split: if_splits)
          from soundD[OF sound_Error this] e1 show ?thesis by (blast intro: grows_pre)
        qed
      qed
    qed
    have h2: "sound ?A (\<lambda>w1.
              case p_error payload of
                Some msg \<Rightarrow>
                  if str_includes msg ''403 Forbidden'' \<and> str_includes (rpc_method p) ''add_torrent'' then
                    reject (Error ''Remote server denied access - the site may require authentication'') w1
                  else if str_includes msg ''Not authenticated'' then
                    then_p (doLogin_v1 n silent) (\<lambda>u. request_v1 n st p silent)
                      (w1\<lparr>SESSION_COOKIE := None, CSRF_TOKEN := None\<rparr>)
                  else reject (Error (if msg \<noteq> [] then msg else ''Server error'')) w1
              | None \<Rightarrow> resolve payload w1)" for payload
      unfolding sound_def
    proof (intro allI impI)
      fix w r w'
      assume h: "(case p_error payload of
                Some msg \<Rightarrow>
                  if str_includes msg ''403 Forbidden'' \<and> str_includes (rpc_method p) ''add_torrent'' then
                    reject (Error ''Remote server denied access - the site may require authentication'') w
                  else if str_includes msg ''Not authenticated'' then
                    then_p (doLogin_v1 n silent) (\<lambda>u. request_v1 n st p silent)
                      (w\<lparr>SESSION_COOKIE := None, CSRF_TOKEN := None\<rparr>)
                  else reject (Error (if msg \<noteq> [] then msg else ''Server error'')) w
              | None \<Rightarrow> resolve payload w) = Some (r, w')"
      have e2: "same_env w (w\<lparr>SESSION_COOKIE := None, CSRF_TOKEN := None\<rparr>)"
        by (simp add: same_env_def)
      show "grows ?A w w' \<and> r \<noteq> Pending \<and> (\<forall>e. r = Rejected e \<longrightarrow> code e = None)"
      proof (cases "p_error payload")
        case None
        with h show ?thesis by (auto simp: resolve_def grows_refl)
      next
        case (Some msg)
        show ?thesis
        proof (cases "\<not> (str_includes msg ''403 Forbidden'' \<and> str_includes (rpc_method p) ''add_torrent'')
                      \<and> str_includes msg ''Not authenticated''")
          case True
          with h Some have "then_p (doLogin_v1 n silent) (\<lambda>u. request_v1 n st p silent)
                      (w\<lparr>SESSION_COOKIE := None, CSRF_TOKEN := None\<rparr>) = Some (r, w')"
            by (simp split: if_splits)
          from soundD[OF relogin this] e2 show ?thesis by (blast intro: grows_pre)
        next
          case False
          with h Some show ?thesis
            by (auto simp: reject_def Error_def grows_refl split: if_splits)
        qed
      qed
    qed
    have c2: "clean (\<lambda>w1.
              case p_error payload of
                Some msg \<Rightarrow>
                  if str_includes msg ''403 Forbidden'' \<and> str_includes (rpc_method p) ''add_torrent'' then
                    reject (Error ''Remote server denied access - the site may require authentication'') w1
                  else if str_includes msg ''Not authenticated'' then
                    then_p (doLogin_v1 n silent) (\<lambda>u. request_v1 n st p silent)
                      (w1\<lparr>SESSION_COOKIE := None, CSRF_TOKEN := None\<rparr>)
                  else reject (Error (if msg \<noteq> [] then msg else ''Server error'')) w1
              | None \<Rightarrow> resolve payload w1)" for payload
      using crelogin unfolding clean_def
      by (auto simp: reject_def resolve_def split: option.splits if_splits)
    have fo: "sound ?A (fetch p)" by (rule sound_fetch) (simp add: own_or_session_def)
    show ?thesis
      apply (simp only: request_v1.simps catch_rethrow)
      apply (rule conjI)
       apply (intro sound_ifw init sound_Error sound_then fo h1 h2)
      apply (intro clean_ifw cinit clean_reject clean_then c2)
      done
  qed
  have login: "sound session_call (doLogin_v1 (Suc n) silent)" for silent
    unfolding sound_def
  proof (intro allI impI)
    fix w r w'
    assume h: "doLogin_v1 (Suc n) silent w = Some (r, w')"
    let ?q = "\<lparr>rpc_method = ''auth.login'', rpc_params = [JStr (the (SERVER_PASS w))]\<rparr>"
    have "sound session_call (then_p (request_v1 n ''dologin'' ?q silent)
         (\<lambda>payload.
            if truthy (p_result payload) then
              then_p (getSession_v1 n) (\<lambda>u. resolve (p_result payload))
            else reject (Error ''Login failed - check your Deluge password'')))"
      by (intro sound_then sS sound_if sG sound_resolve sound_Error)
         (simp add: session_call_def)
    from soundD[OF this] h
    show "grows session_call w w' \<and> r \<noteq> Pending \<and> (\<forall>e. r = Rejected e \<longrightarrow> code e = None)"
      by (auto simp: reject_def Error_def grows_refl split: if_splits)
  qed
  have sess: "sound session_call (getSession_v1 (Suc n))"
    apply (simp only: getSession_v1.simps)
    apply (intro sound_then sS sound_if sound_resolve sound_Error)
    apply (simp add: session_call_def)
    done
  show ?case using req login sess by blast
qed

lemma sound_request_v1: "sound (own_or_session p) (request_v1 n st p silent)"
  using trio_v1 by blast

lemma clean_request_v1: "clean (request_v1 n st p silent)"
  using trio_v1 by blast

lemma sound_doLogin_v1: "sound session_call (doLogin_v1 n silent)"
  using trio_v1 by blast

lemma sound_getSession_v1: "sound session_call (getSession_v1 n)"
  using trio_v1 by blast

lemma trio_v2:
  "(\<forall>st p silent. sound (own_or_session p) (request_v2 n st p silent)
                  \<and> clean (request_v2 n st p silent))
   \<and> (\<forall>silent. sound session_call (doLogin_v2 n silent))
   \<and> sound session_call (getSession_v2 n)"
proof (induction n)
  case 0
  show ?case by (simp add: sound_def clean_def out_of_fuel_def)
next
  case (Suc n)
  have sD: "\<And>silent. sound session_call (doLogin_v2 n silent)" using Suc by blast
  have sG: "sound session_call (getSession_v2 n)" using Suc by blast
  have sR: "\<And>st p silent. sound (own_or_session p) (request_v2 n st p silent)" using Suc by blast
  have cR: "\<And>st p silent. clean (request_v2 n st p silent)" using Suc by blast
  have sS: "\<And>st p silent. session_call p \<Longrightarrow> sound session_call (request_v2 n st p silent)"
    by (rule sound_mono[OF sR]) (rule session_own)
  have req: "sound (own_or_session p) (request_v2 (Suc n) st p silent)
             \<and> clean (request_v2 (Suc n) st p silent)" for st p silent
  proof -
    let ?A = "own_or_session p"
    have relogin: "sound ?A (then_p (getSession_v2 n) (\<lambda>u. request_v2 n st p silent))"
      by (intro sound_then sR sound_mono[OF sG]) (simp add: own_or_session_def)
    have crelogin: "clean (then_p (getSession_v2 n) (\<lambda>u. request_v2 n st p silent))"
      by (intro clean_then cR)
    have init: "sound ?A (then_p initState_v2 (\<lambda>u w1.
         if \<not> nonempty (SERVER_URL w1) then reject (Error ''Server URL not available'') w1
         else request_v2 n st p silent w1))"
      by (intro sound_then sound_initState_v2 sound_ifw sound_Error sR)
    have cinit: "clean (then_p initState_v2 (\<lambda>u w1.
         if \<not> nonempty (SERVER_URL w1) then reject (Error ''Server URL not available'') w1
         else request_v2 n st p silent w1))"
      by (intro clean_then clean_ifw clean_reject cR)
    have h1: "sound ?A (\<lambda>w0.
              let w1 = store_tokens response w0 in
              if \<not> ok response then
                if status response = 403 \<and> \<not> str_includes (rpc_method p) ''torrent'' then
                  then_p (getSession_v2 n) (\<lambda>u. request_v2 n st p silent) w1
                else
                  reject (Error (''HTTP error! status: '' @ show_nat (status response))) w1
              else response_json response w1)" for response
      unfolding sound_def
    proof (intro allI impI)
      fix w r w'
      assume h: "(let w1 = store_tokens response w in
              if \<not> ok response then
                if status response = 403 \<and> \<not> str_includes (rpc_method p) ''torrent'' then
                  then_p (getSession_v2 n) (\<lambda>u. request_v2 n st p silent) w1
                else
                  reject (Error (''HTTP error! status: '' @ show_nat (status response))) w1
              else response_json response w1) = Some (r, w')"
      let ?w1 = "store_tokens response w"
      have e1: "same_env w ?w1" by (rule same_env_store_tokens)
      show "grows ?A w w' \<and> r \<noteq> Pending \<and> (\<forall>e. r = Rejected e \<longrightarrow> code e = None)"
      proof (cases "ok response")
        case True
        with h have "response_json response ?w1 = Some (r, w')" by (simp add: Let_def)
        from soundD[OF sound_response_json this] e1 show ?thesis by (blast intro: grows_pre)
      next
        case False
        show ?thesis
        proof (cases "status response = 403 \<and> \<not> str_includes (rpc_method p) ''torrent''")
          case True
          with h False have "then_p (getSession_v2 n) (\<lambda>u. request_v2 n st p silent) ?w1
                 = Some (r, w')"
            by (simp add: Let_def)
          from soundD[OF relogin this] e1 show ?thesis by (blast intro: grows_pre)
        next
          case F2: False
          with h False have "reject (Error (''HTTP error! status: '' @ show_nat (status response))) ?w1
               = Some (r, w')"
            by (simp add: Let_def split: if_splits)
          from soundD[OF sound_Error this] e1 show ?thesis by (blast intro: grows_pre)
        qed
      qed
    qed
    have h2: "sound ?A (case p_error payload of
                Some msg \<Rightarrow> reject (Error (if msg \<noteq> [] then msg else ''Unknown server error''))
              | None \<Rightarrow>
                  if p_status payload = JNum 403 then
                    reject (Error ''Access denied by remote server'')
                  else if isAuthError payload then
                    then_p (getSession_v2 n) (\<lambda>u. request_v2 n st p silent)
                  else resolve payload)" for payload
      by (auto split: option.splits intro: sound_Error relogin sound_resolve)
    have c2: "clean (case p_error payload of
                Some msg \<Rightarrow> reject (Error (if msg \<noteq> [] then msg else ''Unknown server error''))
              | None \<Rightarrow>
                  if p_status payload = JNum 403 then
                    reject (Error ''Access denied by remote server'')
                  else if isAuthError payload then
                    then_p (getSession_v2 n) (\<lambda>u. request_v2 n st p silent)
                  else resolve payload)" for payload
      using crelogin unfolding clean_def
      by (auto simp: reject_def resolve_def split: option.splits if_splits)
    have h3: "sound ?A (if err_name error = ''AbortError'' then
              reject (Error ''Request timed out after 20000ms'')
            else reject error)" if "code error = None" for error
      using that by (simp add: sound_Error sound_reject)
    have c3: "clean (if err_name error = ''AbortError'' then
              reject (Error ''Request timed out after 20000ms'')
            else reject error)" for error
      by (simp add: clean_reject)
    have fo: "sound ?A (fetch p)" by (rule sound_fetch) (simp add: own_or_session_def)
    show ?thesis
      apply (simp only: request_v2.simps)
      apply (rule conjI)
       apply (intro sound_ifw init sound_Error sound_catch sound_then fo h1 h2 h3, assumption)
      apply (intro clean_ifw cinit clean_reject clean_catch clean_then c2 c3)
      done
  qed
  have login: "sound session_call (doLogin_v2 (Suc n) silent)" for silent
    unfolding sound_def
  proof (intro allI impI)
    fix w r w'
    assume h: "doLogin_v2 (Suc n) silent w = Some (r, w')"
    let ?q = "\<lparr>rpc_method = ''auth.login'', rpc_params = [JStr (the (SERVER_PASS w))]\<rparr>"
    have "sound session_call (then_p (request_v2 n ''auth.login'' ?q silent)
         (\<lambda>payload.
            if truthy (p_result payload) then
              then_p (getSession_v2 n) (\<lambda>u. resolve (p_result payload))
            else reject (Error ''Login failed - check your Deluge password'')))"
      by (intro sound_then sS sound_if sG sound_resolve sound_Error)
         (simp add: session_call_def)
    from soundD[OF this] h
    show "grows session_call w w' \<and> r \<noteq> Pending \<and> (\<forall>e. r = Rejected e \<longrightarrow> code e = None)"
      by (auto simp: reject_def Error_def grows_refl split: if_splits)
  qed
  have sess: "sound session_call (getSession_v2 (Suc n))"
    apply (simp only: getSession_v2.simps)
    apply (intro sound_then sS sound_if sound_resolve sD)
    apply (simp add: session_call_def)
    done
  show ?case using req login sess by blast
qed

lemma sound_request_v2: "sound (own_or_session p) (request_v2 n st p silent)"
  using trio_v2 by blast

lemma clean_request_v2: "clean (request_v2 n st p silent)"
  using trio_v2 by blast

lemma sound_doLogin_v2: "sound session_call (doLogin_v2 n silent)"
  using trio_v2 by blast

lemma sound_getSession_v2: "sound session_call (getSession_v2 n)"
  using trio_v2 by blast

subsection \<open>One request against the next reply\<close>

declare request_v1.simps [simp del] doLogin_v1.simps [simp del] getSession_v1.simps [simp del]
declare request_v2.simps [simp del] doLogin_v2.simps [simp del] getSession_v2.simps [simp del]
declare connectDaemon_v1.simps [simp del]

lemma after_fetch_fields [simp]:
  "trace (after_fetch p r rest w) = trace w @ [Fetch p (SESSION_COOKIE w) (CSRF_TOKEN w)]"
  "network (after_fetch p r rest w) = rest"
  "SERVER_URL (after_fetch p r rest w) = SERVER_URL w"
  "SERVER_PASS (after_fetch p r rest w) = SERVER_PASS w"
  "url_valid (after_fetch p r rest w) = url_valid w"
  "DAEMON_INFO (after_fetch p r rest w) = DAEMON_INFO w"
  "CONNECT_ATTEMPTS (after_fetch p r rest w) = CONNECT_ATTEMPTS w"
  "daemon_hosts (after_fetch p r rest w) = daemon_hosts w"
  "server_config (after_fetch p r rest w) = server_config w"
  "COOKIES (after_fetch p r rest w) = COOKIES w"
  "cookie_store (after_fetch p r rest w) = cookie_store w"
  "storage_send_cookies (after_fetch p r rest w) = storage_send_cookies w"
  "storage_connections (after_fetch p r rest w) = storage_connections w"
  by (simp_all add: after_fetch_def store_tokens_def Let_def)

lemma fetch_answer:
  "network w = Answer r # rest \<Longrightarrow>
   fetch p w =
     Some (Resolved r,
           w\<lparr>trace := trace w @ [Fetch p (SESSION_COOKIE w) (CSRF_TOKEN w)], network := rest\<rparr>)"
  by (simp add: fetch_def Let_def)

lemma fetch_exhausted:
  "network w = [] \<Longrightarrow>
   fetch p w = Some (Rejected (TypeError ''Failed to fetch''),
                     w\<lparr>trace := trace w @ [Fetch p (SESSION_COOKIE w) (CSRF_TOKEN w)]\<rparr>)"
  by (simp add: fetch_def Let_def)

lemma request_v1_unfold:
  assumes "nonempty (SERVER_URL w)" and "url_valid w (the (SERVER_URL w))"
  shows "request_v1 (Suc n) st p silent w =
           then_p (then_p (fetch p) (on_response_v1 n st p silent)) (on_payload_v1 n st p silent) w"
proof -
  have "on_response_v1 n st p silent = (\<lambda>response w0.
              let w1 = store_tokens response w0 in
              if \<not> ok response then
                if status response = 403 \<and> \<not> str_includes (rpc_method p) ''add_torrent'' then
                  then_p (doLogin_v1 n silent) (\<lambda>u. request_v1 n st p silent)
                    (w1\<lparr>SESSION_COOKIE := None, CSRF_TOKEN := None\<rparr>)
                else
                  reject (Error (''HTTP error! status: '' @ show_nat (status response))) w1
              else response_json response w1)"
    by (intro ext) (simp only: on_response_v1_def)
  moreover have "on_payload_v1 n st p silent = (\<lambda>payload w1.
              case p_error payload of
                Some msg \<Rightarrow>
                  if str_includes msg ''403 Forbidden'' \<and> str_includes (rpc_method p) ''add_torrent'' then
                    reject (Error ''Remote server denied access - the site may require authentication'') w1
                  else if str_includes msg ''Not authenticated'' then
                    then_p (doLogin_v1 n silent) (\<lambda>u. request_v1 n st p silent)
                      (w1\<lparr>SESSION_COOKIE := None, CSRF_TOKEN := None\<rparr>)
                  else reject (Error (if msg \<noteq> [] then msg else ''Server error'')) w1
              | None \<Rightarrow> resolve payload w1)"
    by (intro ext) (simp only: on_payload_v1_def)
  ultimately show ?thesis
    using assms by (simp only: request_v1.simps catch_rethrow) simp
qed

lemma request_v2_unfold:
  assumes "nonempty (SERVER_URL w)" and "url_valid w (the (SERVER_URL w))"
  shows "request_v2 (Suc n) st p silent w =
           catch_p
             (then_p (then_p (fetch p) (on_response_v2 n st p silent)) (on_payload_v2 n st p silent))
             on_error_v2 w"
proof -
  have "on_response_v2 n st p silent = (\<lambda>response w0.
              let w1 = store_tokens response w0 in
              if \<not> ok response then
                if status response = 403 \<and> \<not> str_includes (rpc_method p) ''torrent'' then
                  then_p (getSession_v2 n) (\<lambda>u. request_v2 n st p silent) w1
                else
                  reject (Error (''HTTP error! status: '' @ show_nat (status response))) w1
              else response_json response w1)"
    by (intro ext) (simp only: on_response_v2_def)
  moreover have "on_payload_v2 n st p silent = (\<lambda>payload.
              case p_error payload of
                Some msg \<Rightarrow> reject (Error (if msg \<noteq> [] then msg else ''Unknown server error''))
              | None \<Rightarrow>
                  if p_status payload = JNum 403 then
                    reject (Error ''Access denied by remote server'')
                  else if isAuthError payload then
                    then_p (getSession_v2 n) (\<lambda>u. request_v2 n st p silent)
                  else resolve payload)"
    by (intro ext) (simp only: on_payload_v2_def)
  moreover have "on_error_v2 = (\<lambda>error.
            if err_name error = ''AbortError'' then
              reject (Error ''Request timed out after 20000ms'')
            else reject error)"
    by (intro ext) (simp only: on_error_v2_def)
  ultimately show ?thesis
    using assms by (simp only: request_v2.simps) simp
qed

lemma response_ok:
  assumes "network w = Answer r # rest" and "ok r" and "body r = Some pl"
  shows "then_p (fetch p) (on_response_v1 n st p silent) w = Some (Resolved pl, after_fetch p r rest w)"
    and "then_p (fetch p) (on_response_v2 n st p silent) w = Some (Resolved pl, after_fetch p r rest w)"
  using assms
  by (simp_all add: then_p_def fetch_answer on_response_v1_def on_response_v2_def Let_def
        response_json_def resolve_def after_fetch_def)

lemma response_http_error_v1:
  assumes "network w = Answer r # rest" and "\<not> ok r"
    and "\<not> (status r = 403 \<and> \<not> str_includes (rpc_method p) ''add_torrent'')"
  shows "then_p (fetch p) (on_response_v1 n st p silent) w =
           Some (Rejected (Error (''HTTP error! status: '' @ show_nat (status r))),
                 after_fetch p r rest w)"
  using assms
  by (auto simp add: then_p_def fetch_answer on_response_v1_def Let_def reject_def after_fetch_def)

lemma response_http_error_v2:
  assumes "network w = Answer r # rest" and "\<not> ok r"
    and "\<not> (status r = 403 \<and> \<not> str_includes (rpc_method p) ''torrent'')"
  shows "then_p (fetch p) (on_response_v2 n st p silent) w =
           Some (Rejected (Error (''HTTP error! status: '' @ show_nat (status r))),
                 after_fetch p r rest w)"
  using assms
  by (auto simp add: then_p_def fetch_answer on_response_v2_def Let_def reject_def after_fetch_def)



lemma request_v1_ok:
  assumes "nonempty (SERVER_URL w)" and "url_valid w (the (SERVER_URL w))"
    and "network w = Answer r # rest" and "ok r" and "body r = Some pl" and "p_error pl = None"
  shows "request_v1 (Suc n) st p silent w = Some (Resolved pl, after_fetch p r rest w)"
  using assms
  by (simp add: request_v1_unfold then_resolved[OF response_ok(1)] on_payload_v1_def resolve_def)

lemma request_v1_error:
  assumes "nonempty (SERVER_URL w)" and "url_valid w (the (SERVER_URL w))"
    and "network w = Answer r # rest" and "ok r" and "body r = Some pl"
    and "p_error pl = Some msg"
    and "\<not> (str_includes msg ''403 Forbidden'' \<and> str_includes (rpc_method p) ''add_torrent'')"
    and "\<not> str_includes msg ''Not authenticated''"
  shows "request_v1 (Suc n) st p silent w =
           Some (Rejected (Error (if msg \<noteq> [] then msg else ''Server error'')),
                 after_fetch p r rest w)"
  using assms
  by (auto simp add: request_v1_unfold then_resolved[OF response_ok(1)] on_payload_v1_def reject_def)

lemma request_v1_denied:
  assumes "nonempty (SERVER_URL w)" and "url_valid w (the (SERVER_URL w))"
    and "network w = Answer r # rest" and "ok r" and "body r = Some pl"
    and "p_error pl = Some msg"
    and "str_includes msg ''403 Forbidden''" and "str_includes (rpc_method p) ''add_torrent''"
  shows "request_v1 (Suc n) st p silent w =
           Some (Rejected (Error ''Remote server denied access - the site may require authentication''),
                 after_fetch p r rest w)"
  using assms
  by (simp add: request_v1_unfold then_resolved[OF response_ok(1)] on_payload_v1_def reject_def)


lemma request_v1_http_error:
  assumes "nonempty (SERVER_URL w)" and "url_valid w (the (SERVER_URL w))"
    and "network w = Answer r # rest" and "\<not> ok r"
    and "\<not> (status r = 403 \<and> \<not> str_includes (rpc_method p) ''add_torrent'')"
  shows "request_v1 (Suc n) st p silent w =
           Some (Rejected (Error (''HTTP error! status: '' @ show_nat (status r))),
                 after_fetch p r rest w)"
  using assms
  by (simp add: request_v1_unfold then_rejected[OF response_http_error_v1])



lemma request_network_down:
  assumes "nonempty (SERVER_URL w)" and "url_valid w (the (SERVER_URL w))"
    and "network w = []"
  shows "request_v1 (Suc n) st p silent w =
           Some (Rejected (TypeError ''Failed to fetch''),
                 w\<lparr>trace := trace w @ [Fetch p (SESSION_COOKIE w) (CSRF_TOKEN w)]\<rparr>)"
    and "request_v2 (Suc n) st p silent w =
           Some (Rejected (TypeError ''Failed to fetch''),
                 w\<lparr>trace := trace w @ [Fetch p (SESSION_COOKIE w) (CSRF_TOKEN w)]\<rparr>)"
  using assms
  by (simp_all add: request_v1_unfold request_v2_unfold fetch_exhausted then_p_def catch_p_def
        on_error_v2_def TypeError_def reject_def)

lemma request_v2_ok:
  assumes "nonempty (SERVER_URL w)" and "url_valid w (the (SERVER_URL w))"
    and "network w = Answer r # rest" and "ok r" and "body r = Some pl" and "p_error pl = None"
    and "p_status pl \<noteq> JNum 403"
  shows "request_v2 (Suc n) st p silent w = Some (Resolved pl, after_fetch p r rest w)"
  using assms
  by (simp add: request_v2_unfold catch_p_def then_resolved[OF response_ok(2)] on_payload_v2_def
        resolve_def isAuthError_def)

lemma request_v2_error:
  assumes "nonempty (SERVER_URL w)" and "url_valid w (the (SERVER_URL w))"
    and "network w = Answer r # rest" and "ok r" and "body r = Some pl"
    and "p_error pl = Some msg"
  shows "request_v2 (Suc n) st p silent w =
           Some (Rejected (Error (if msg \<noteq> [] then msg else ''Unknown server error'')),
                 after_fetch p r rest w)"
  using assms
  by (simp add: request_v2_unfold catch_p_def then_resolved[OF response_ok(2)] on_payload_v2_def
        reject_def on_error_v2_def Error_def)

lemma request_v2_access_denied:
  assumes "nonempty (SERVER_URL w)" and "url_valid w (the (SERVER_URL w))"
    and "network w = Answer r # rest" and "ok r" and "body r = Some pl"
    and "p_error pl = None" and "p_status pl = JNum 403"
  shows "request_v2 (Suc n) st p silent w =
           Some (Rejected (Error ''Access denied by remote server''), after_fetch p r rest w)"
  using assms
  by (simp add: request_v2_unfold catch_p_def then_resolved[OF response_ok(2)] on_payload_v2_def
        reject_def on_error_v2_def Error_def)

lemma request_v2_http_error:
  assumes "nonempty (SERVER_URL w)" and "url_valid w (the (SERVER_URL w))"
    and "network w = Answer r # rest" and "\<not> ok r"
    and "\<not> (status r = 403 \<and> \<not> str_includes (rpc_method p) ''torrent'')"
  shows "request_v2 (Suc n) st p silent w =
           Some (Rejected (Error (''HTTP error! status: '' @ show_nat (status r))),
                 after_fetch p r rest w)"
  using assms
  by (simp add: request_v2_unfold catch_p_def then_rejected[OF response_http_error_v2]
        reject_def on_error_v2_def Error_def)

subsection \<open>Second generation: what a request can settle with\<close>

lemma calm_then: "calm p \<Longrightarrow> (\<And>v. calm (f v)) \<Longrightarrow> calm (then_p p f)"
  unfolding calm_def then_p_def
  by (auto split: option.splits prod.splits settled.splits)

lemma calm_catch: "(\<And>e. calm (f e)) \<Longrightarrow> calm (catch_p p f)"
  unfolding calm_def catch_p_def
  by (auto split: option.splits prod.splits settled.splits)

lemma calm_resolve: "calm (resolve v)"
  by (simp add: calm_def resolve_def)

lemma calm_Error: "calm (reject (Error m))"
  by (simp add: calm_def reject_def Error_def)

lemma calm_ifw: "calm p \<Longrightarrow> calm q \<Longrightarrow> calm (\<lambda>w. if c w then p w else q w)"
  by (simp add: calm_def)

lemma calm_if: "(c \<Longrightarrow> calm p) \<Longrightarrow> (\<not> c \<Longrightarrow> calm q) \<Longrightarrow> calm (if c then p else q)"
  by simp

lemma calm_initState_v2: "calm initState_v2"
  by (simp add: calm_def initState_v2_def resolve_def Let_def)

lemma calm_on_error_v2: "calm (on_error_v2 e)"
  by (simp add: calm_def on_error_v2_def reject_def Error_def)

lemma clean2_then: "(\<And>v. clean2 (f v)) \<Longrightarrow> clean2 (then_p p f)"
  unfolding clean2_def then_p_def
  by (auto split: option.splits prod.splits settled.splits)

lemma clean2_catch: "clean2 p \<Longrightarrow> (\<And>e. clean2 (f e)) \<Longrightarrow> clean2 (catch_p p f)"
  unfolding clean2_def catch_p_def
  by (auto split: option.splits prod.splits settled.splits)

lemma clean2_reject: "clean2 (reject e)"
  by (simp add: clean2_def reject_def)

lemma clean2_ifw: "clean2 p \<Longrightarrow> clean2 q \<Longrightarrow> clean2 (\<lambda>w. if c w then p w else q w)"
  by (simp add: clean2_def)

lemma clean2_on_error_v2: "clean2 (on_error_v2 e)"
  by (simp add: clean2_def on_error_v2_def reject_def)

lemma request_v2_unfold_all:
  "request_v2 (Suc n) st p silent = (\<lambda>w.
     if \<not> nonempty (SERVER_URL w) then
       then_p initState_v2 (\<lambda>u w1.
         if \<not> nonempty (SERVER_URL w1) then reject (Error ''Server URL not available'') w1
         else request_v2 n st p silent w1) w
     else if \<not> url_valid w (the (SERVER_URL w)) then reject (Error ''Invalid server URL'') w
     else
       catch_p
         (then_p (then_p (fetch p) (on_response_v2 n st p silent)) (on_payload_v2 n st p silent))
         on_error_v2 w)"
  by (rule ext) (simp add: request_v2_unfold, simp add: request_v2.simps)

lemma trio_v2_calm:
  "(\<forall>st p silent. calm (request_v2 n st p silent) \<and> clean2 (request_v2 n st p silent))
   \<and> (\<forall>silent. calm (doLogin_v2 n silent))
   \<and> calm (getSession_v2 n)"
proof (induction n)
  case 0
  show ?case
    by (simp add: calm_def clean2_def out_of_fuel_def request_v2.simps doLogin_v2.simps
          getSession_v2.simps)
next
  case (Suc n)
  have kD: "\<And>silent. calm (doLogin_v2 n silent)" using Suc by blast
  have kG: "calm (getSession_v2 n)" using Suc by blast
  have kR: "\<And>st p silent. calm (request_v2 n st p silent)" using Suc by blast
  have cR: "\<And>st p silent. clean2 (request_v2 n st p silent)" using Suc by blast
  have req: "calm (request_v2 (Suc n) st p silent) \<and> clean2 (request_v2 (Suc n) st p silent)"
    for st p silent
  proof -
    have c2: "clean2 (on_payload_v2 n st p silent payload)" for payload
      using clean2_then[of "\<lambda>u. request_v2 n st p silent" "getSession_v2 n", OF cR]
      unfolding clean2_def on_payload_v2_def
      by (auto simp: reject_def resolve_def split: option.splits if_splits)
    show ?thesis
      unfolding request_v2_unfold_all
      apply (rule conjI)
       apply (intro calm_ifw calm_then calm_initState_v2 calm_Error kR calm_catch calm_on_error_v2)
      apply (intro clean2_ifw clean2_then clean2_reject cR clean2_catch c2 clean2_on_error_v2)
      done
  qed
  have login: "calm (doLogin_v2 (Suc n) silent)" for silent
    unfolding calm_def
  proof (intro allI impI)
    fix w e w'
    assume h: "doLogin_v2 (Suc n) silent w = Some (Rejected e, w')"
    let ?q = "\<lparr>rpc_method = ''auth.login'', rpc_params = [JStr (the (SERVER_PASS w))]\<rparr>"
    have "calm (then_p (request_v2 n ''auth.login'' ?q silent)
         (\<lambda>payload.
            if truthy (p_result payload) then
              then_p (getSession_v2 n) (\<lambda>u. resolve (p_result payload))
            else reject (Error ''Login failed - check your Deluge password'')))"
      by (intro calm_then kR calm_if kG calm_resolve calm_Error)
    with h show "err_name e \<noteq> ''AbortError''"
      unfolding calm_def
      by (auto simp: doLogin_v2.simps reject_def Error_def split: if_splits)
  qed
  have sess: "calm (getSession_v2 (Suc n))"
    unfolding getSession_v2.simps
    by (intro calm_then kR calm_if calm_resolve kD)
  show ?case using req login sess by blast
qed




lemma calm_doLogin_v2: "calm (doLogin_v2 n silent)"
  using trio_v2_calm by blast



subsection \<open>Everything below \<open>_connect\<close> is sound\<close>

lemma connect_call_own:
  "connect_call p \<Longrightarrow> own_or_session p q \<Longrightarrow> connect_call q"
  by (auto simp: own_or_session_def session_call_def connect_call_def)

lemma connect_call_session: "session_call q \<Longrightarrow> connect_call q"
  by (auto simp: session_call_def connect_call_def)

lemma sound_connect_request_v1:
  "connect_call p \<Longrightarrow> sound connect_call (request_v1 n st p silent)"
  by (rule sound_mono[OF sound_request_v1]) (rule connect_call_own)

lemma sound_connect_request_v2:
  "connect_call p \<Longrightarrow> sound connect_call (request_v2 n st p silent)"
  by (rule sound_mono[OF sound_request_v2]) (rule connect_call_own)

lemma sound_update:
  assumes "\<And>w. same_env w (g w)"
  shows "sound A (\<lambda>w. resolve v (g w))" and "sound A (\<lambda>w. reject (Error m) (g w))"
  using assms by (simp_all add: sound_def resolve_def reject_def Error_def grows_same)

lemma sound_foldl_catch:
  assumes "\<And>h. sound A (t h)"
  shows "sound A p0 \<Longrightarrow> sound A (foldl (\<lambda>promise h. catch_p promise (\<lambda>e. t h)) p0 hs)"
proof (induction hs arbitrary: p0)
  case Nil
  then show ?case by simp
next
  case (Cons h hs)
  have "sound A (catch_p p0 (\<lambda>e. t h))"
    by (intro sound_catch Cons.prems assms)
  from Cons.IH[OF this] show ?case by simp
qed

lemma sound_ensureSession_v1: "sound connect_call (ensureSession_v1 n silent)"
  unfolding ensureSession_v1_def
  by (intro sound_catch sound_mono[OF sound_getSession_v1] sound_mono[OF sound_doLogin_v1]
        connect_call_session)

lemma sound_ensureSession_v2: "sound connect_call (ensureSession_v2 n silent)"
  unfolding ensureSession_v2_def
  by (intro sound_catch sound_mono[OF sound_getSession_v2] sound_mono[OF sound_doLogin_v2]
        connect_call_session)

lemma sound_checkDaemonConnection_v1: "sound connect_call (checkDaemonConnection_v1 n)"
  unfolding checkDaemonConnection_v1_def
  by (intro sound_then sound_connect_request_v1 sound_if sound_resolve)
     (simp add: connect_call_def)

lemma sound_checkDaemonConnection_v2: "sound connect_call (checkDaemonConnection_v2 n)"
  unfolding checkDaemonConnection_v2_def
  by (intro sound_then sound_connect_request_v2 sound_if sound_resolve)
     (simp add: connect_call_def)

lemma sound_getDaemons_v1: "sound connect_call (getDaemons_v1 n)"
  unfolding getDaemons_v1_def
  apply (intro sound_then sound_connect_request_v1 sound_ifw sound_update)
    apply (simp_all add: connect_call_def same_env_def)
  done

lemma sound_getDaemons_v2: "sound connect_call (getDaemons_v2 n)"
  unfolding getDaemons_v2_def catch_rethrow Let_def
  apply (intro sound_then sound_connect_request_v2 sound_update)
   apply (simp_all add: connect_call_def same_env_def)
  done

lemma sound_getHostStatus_v1: "sound connect_call (getHostStatus_v1 n hostId ip port)"
  unfolding getHostStatus_v1_def
  apply (intro sound_then sound_connect_request_v1)
   apply (simp add: connect_call_def)
  apply (auto split: json.splits intro: sound_Error sound_TypeError sound_resolve)
  done

lemma sound_getHostStatus_v2: "sound connect_call (getHostStatus_v2 n hostId)"
  unfolding getHostStatus_v2_def
  apply (intro sound_then sound_connect_request_v2)
   apply (simp add: connect_call_def)
  apply (simp add: sound_def)
  apply (auto simp: reject_def resolve_def Error_def TypeError_def grows_refl
              split: option.splits json.splits prod.splits)
  done

lemma sound_startDaemon_v1: "sound connect_call (startDaemon_v1 n d)"
  unfolding startDaemon_v1_def
  by (intro sound_then sound_connect_request_v1 sound_if sound_resolve sound_Error)
     (simp add: connect_call_def)

lemma sound_connectDaemon_v1: "sound connect_call (connectDaemon_v1 n d)"
proof (induction n arbitrary: d)
  case 0
  show ?case by (simp add: sound_def connectDaemon_v1.simps out_of_fuel_def)
next
  case (Suc n)
  have a: "sound connect_call (then_p
         (request_v1 n ''connectdaemon''
            \<lparr>rpc_method = ''web.connect'', rpc_params = [jsget d ''host_id'']\<rparr> False)
         (\<lambda>payload.
            if p_error payload = None then resolve d
            else reject (Error ''Failed to connect to daemon'')))"
    by (intro sound_then sound_connect_request_v1 sound_if sound_resolve sound_Error)
       (simp add: connect_call_def)
  have b: "sound connect_call (\<lambda>w. then_p (getHostStatus_v1 n (jsget d ''host_id'') JNull JNull)
         (\<lambda>info. connectDaemon_v1 n info)
         (w\<lparr>CONNECT_ATTEMPTS := CONNECT_ATTEMPTS w + 1\<rparr>))"
    by (rule sound_pre[of _ _ "\<lambda>w. w\<lparr>CONNECT_ATTEMPTS := CONNECT_ATTEMPTS w + 1\<rparr>"])
       (intro sound_then sound_getHostStatus_v1 Suc.IH, simp add: same_env_def)
  show ?case
    unfolding connectDaemon_v1.simps
    by (intro sound_ifw a b sound_Error)
qed

lemma sound_connectDaemon_v2: "sound connect_call (connectDaemon_v2 n d)"
  unfolding connectDaemon_v2_def catch_rethrow
  by (intro sound_then sound_connect_request_v2 sound_resolve) (simp add: connect_call_def)

lemma sound_startDaemon_v2: "sound connect_call (startDaemon_v2 n d)"
  unfolding startDaemon_v2_def catch_rethrow
  by (intro sound_then sound_connect_request_v2 sound_connectDaemon_v2)
     (simp add: connect_call_def)

lemma sound_tryDaemon_v1: "sound connect_call (tryDaemon_v1 n h)"
  unfolding tryDaemon_v1_def
  apply (simp split: option.splits prod.splits add: sound_TypeError)
  apply (intro allI impI sound_then sound_getHostStatus_v1 sound_if sound_resolve
      sound_connectDaemon_v1 sound_startDaemon_v1 sound_Error sound_update)
  apply (simp add: same_env_def)
  done

lemma sound_tryDaemon_v2: "sound connect_call (tryDaemon_v2 n h)"
  unfolding tryDaemon_v2_def
  apply (simp split: option.splits add: sound_TypeError)
  apply (intro allI impI sound_then sound_getHostStatus_v2 sound_if sound_resolve
      sound_connectDaemon_v2 sound_startDaemon_v2 sound_Error sound_update)
  apply (simp add: same_env_def)
  done

lemma sound_getConnectedDaemon_v1: "sound connect_call (getConnectedDaemon_v1 n hosts)"
proof -
  have f: "sound connect_call
     (foldl (\<lambda>promise daemon_host. catch_p promise (\<lambda>e. tryDaemon_v1 n daemon_host))
        (reject (Error ''Starting daemon connection attempts'')) hs)" for hs
    by (intro sound_foldl_catch sound_tryDaemon_v1 sound_Error)
  show ?thesis
    unfolding sound_def
  proof (intro allI impI)
    fix w r w'
    assume h: "getConnectedDaemon_v1 n hosts w = Some (r, w')"
    show "grows connect_call w w' \<and> r \<noteq> Pending \<and> (\<forall>e. r = Rejected e \<longrightarrow> code e = None)"
    proof (cases "truthy (jsget (DAEMON_INFO w) ''host_id'')")
      case True
      with h show ?thesis by (auto simp: getConnectedDaemon_v1_def resolve_def grows_refl)
    next
      case False
      show ?thesis
      proof (cases "\<exists>hs. hosts = JArr hs \<and> hs \<noteq> []")
        case True
        then obtain hs where "hosts = JArr hs" "hs \<noteq> []" by blast
        with h False soundD[OF f[of hs]] show ?thesis
          by (simp add: getConnectedDaemon_v1_def)
      next
        case F2: False
        with h False show ?thesis
          by (auto simp: getConnectedDaemon_v1_def reject_def Error_def TypeError_def grows_refl
                   split: json.splits if_splits)
      qed
    qed
  qed
qed

lemma sound_getConnectedDaemon_v2: "sound connect_call (getConnectedDaemon_v2 n hosts)"
proof -
  have f: "sound connect_call
     (foldl (\<lambda>promise daemon_host. catch_p promise (\<lambda>e. tryDaemon_v2 n daemon_host))
        (reject (Error ''Starting daemon connection attempts'')) hs)" for hs
    by (intro sound_foldl_catch sound_tryDaemon_v2 sound_Error)
  show ?thesis
    unfolding sound_def
  proof (intro allI impI)
    fix w r w'
    assume h: "getConnectedDaemon_v2 n hosts w = Some (r, w')"
    show "grows connect_call w w' \<and> r \<noteq> Pending \<and> (\<forall>e. r = Rejected e \<longrightarrow> code e = None)"
    proof (cases "truthy (jsget (DAEMON_INFO w) ''host_id'')")
      case True
      with h show ?thesis by (auto simp: getConnectedDaemon_v2_def resolve_def grows_refl)
    next
      case False
      show ?thesis
      proof (cases "\<exists>hs. hosts = JArr hs \<and> hs \<noteq> []")
        case True
        then obtain hs where "hosts = JArr hs" "hs \<noteq> []" by blast
        with h False soundD[OF f[of hs]] show ?thesis
          by (simp add: getConnectedDaemon_v2_def)
      next
        case F2: False
        with h False show ?thesis
          by (auto simp: getConnectedDaemon_v2_def reject_def Error_def TypeError_def grows_refl
                   split: json.splits if_splits)
      qed
    qed
  qed
qed

lemma sound_getServerConfig_v1: "sound connect_call (getServerConfig_v1 n)"
  unfolding getServerConfig_v1_def catch_rethrow Let_def
  apply (intro sound_then sound_connect_request_v1 sound_ifw sound_update)
    apply (simp_all add: connect_call_def same_env_def)
  apply (rule sound_update)
  apply (simp add: same_env_def)
  done

lemma sound_getServerConfig_v2: "sound connect_call (getServerConfig_v2 n)"
  unfolding getServerConfig_v2_def
  apply (intro sound_catch sound_then sound_connect_request_v2 sound_ifw sound_update sound_if
      sound_Error sound_reject)
    apply (simp_all add: connect_call_def same_env_def)
  done

lemma sound_ensureDaemon_v1: "sound connect_call (ensureDaemon_v1 n silent)"
  unfolding ensureDaemon_v1_def
  by (intro sound_catch sound_then sound_ensureSession_v1 sound_checkDaemonConnection_v1
        sound_getDaemons_v1 sound_getConnectedDaemon_v1)

lemma sound_ensureDaemon_v2: "sound connect_call (ensureDaemon_v2 n silent)"
  unfolding ensureDaemon_v2_def
  by (intro sound_catch sound_then sound_ensureSession_v2 sound_checkDaemonConnection_v2
        sound_getDaemons_v2 sound_getConnectedDaemon_v2)

lemma sound_connect_v1: "sound connect_call (connect_v1 n silent)"
  unfolding connect_v1_def
  by (intro sound_then sound_initState_v1 sound_ifw sound_Error sound_ensureDaemon_v1
        sound_getServerConfig_v1)

lemma sound_connect_v2: "sound connect_call (connect_v2 n silent)"
  unfolding connect_v2_def
  by (intro sound_then sound_initState_v2 sound_ifw sound_Error sound_ensureDaemon_v2
        sound_getServerConfig_v2)

subsection \<open>Handlers that only see payloads without an error\<close>

lemma sound_then_clean:
  assumes "sound A p" and "clean p" and "\<And>v. p_error v = None \<Longrightarrow> sound A (f v)"
  shows "sound A (then_p p f)"
  unfolding sound_def
proof (intro allI impI)
  fix w r w'
  assume h: "then_p p f w = Some (r, w')"
  show "grows A w w' \<and> r \<noteq> Pending \<and> (\<forall>e. r = Rejected e \<longrightarrow> code e = None)"
  proof (cases "p w")
    case None
    with h show ?thesis by (simp add: then_p_def)
  next
    case (Some a)
    obtain r1 w1 where a: "a = (r1, w1)" by (cases a)
    have p1: "grows A w w1 \<and> r1 \<noteq> Pending \<and> (\<forall>e. r1 = Rejected e \<longrightarrow> code e = None)"
      using assms(1) Some a by (simp add: sound_def)
    show ?thesis
    proof (cases r1)
      case (Resolved v)
      with assms(2) Some a have "p_error v = None" unfolding clean_def by blast
      moreover from h Some a Resolved have "f v w1 = Some (r, w')" by (simp add: then_p_def)
      ultimately
      have "grows A w1 w' \<and> r \<noteq> Pending \<and> (\<forall>e. r = Rejected e \<longrightarrow> code e = None)"
        using assms(3)[of v] by (simp add: sound_def)
      with p1 show ?thesis by (blast intro: grows_trans)
    next
      case (Rejected e)
      with h Some a p1 show ?thesis by (auto simp: then_p_def)
    next
      case Pending
      with p1 show ?thesis by simp
    qed
  qed
qed

lemma then_clean_cong:
  assumes "clean p" and "\<And>v. p_error v = None \<Longrightarrow> f v = g v"
  shows "then_p p f w = then_p p g w"
proof (cases "p w")
  case None
  then show ?thesis by (simp add: then_p_def)
next
  case (Some a)
  obtain r1 w1 where a: "a = (r1, w1)" by (cases a)
  show ?thesis
  proof (cases r1)
    case (Resolved v)
    with assms(1) Some a have "p_error v = None" unfolding clean_def by blast
    from assms(2)[OF this] Some a Resolved show ?thesis by (simp add: then_p_def)
  qed (use Some a in \<open>simp_all add: then_p_def\<close>)
qed

lemma case_rejectedE:
  assumes "case x of Some (Rejected e, w) \<Rightarrow> P e w | other \<Rightarrow> False"
  obtains e w where "x = Some (Rejected e, w)" and "P e w"
  using assms by (auto split: option.splits prod.splits settled.splits)

lemma case_resolvedE:
  assumes "case x of Some (Resolved v, w) \<Rightarrow> P v w | other \<Rightarrow> False"
  obtains v w where "x = Some (Resolved v, w)" and "P v w"
  using assms by (auto split: option.splits prod.splits settled.splits)

lemma case_settledE:
  assumes "case x of Some (r, w) \<Rightarrow> P r w | None \<Rightarrow> False"
  obtains r w where "x = Some (r, w)" and "P r w"
  using assms by (auto split: option.splits prod.splits)

lemma then_ResolvedD:
  "then_p p f w = Some (Resolved v, w') \<Longrightarrow>
   \<exists>x w1. p w = Some (Resolved x, w1) \<and> f x w1 = Some (Resolved v, w')"
  by (auto simp: then_p_def split: option.splits prod.splits settled.splits)

lemma plain_answer:
  "answer v = Answer \<lparr>status = 200, set_cookie = None, csrf_header = None,
                      body = Some \<lparr>p_error = None, p_result = v, p_status = JNull\<rparr>\<rparr>"
  "plain \<lparr>status = 200, set_cookie = None, csrf_header = None,
          body = Some \<lparr>p_error = None, p_result = v, p_status = JNull\<rparr>\<rparr>
     \<lparr>p_error = None, p_result = v, p_status = JNull\<rparr>"
  by (simp_all add: answer_def plain_def ok_def)

subsection \<open>The session functions against the next reply\<close>

lemma getSession_v1_valid:
  assumes "nonempty (SERVER_URL w)" and "url_valid w (the (SERVER_URL w))"
    and "network w = Answer r # rest" and "plain r pl" and "truthy (p_result pl)"
  shows "getSession_v1 (Suc (Suc n)) w =
           Some (Resolved (p_result pl), after_fetch probe_call r rest w)"
  using assms
  by (simp add: getSession_v1.simps probe_call_def plain_def resolve_def
        then_resolved[OF request_v1_ok])

lemma getSession_v1_invalid:
  assumes "nonempty (SERVER_URL w)" and "url_valid w (the (SERVER_URL w))"
    and "network w = Answer r # rest" and "plain r pl" and "\<not> truthy (p_result pl)"
  shows "getSession_v1 (Suc (Suc n)) w =
           Some (Rejected (Error ''Invalid session''), after_fetch probe_call r rest w)"
  using assms
  by (simp add: getSession_v1.simps probe_call_def plain_def reject_def
        then_resolved[OF request_v1_ok])

lemma doLogin_v1_accepted:
  assumes "nonempty (SERVER_URL w)" and "url_valid w (the (SERVER_URL w))"
    and "nonempty (SERVER_PASS w)"
    and "network w = Answer r # rest" and "plain r pl" and "truthy (p_result pl)"
  shows "doLogin_v1 (Suc (Suc n)) silent w =
           then_p (getSession_v1 (Suc n)) (\<lambda>u. resolve (p_result pl))
             (after_fetch (login_call w) r rest w)"
  using assms
  by (simp add: doLogin_v1.simps login_call_def plain_def then_resolved[OF request_v1_ok])

lemma getSession_v2_valid:
  assumes "nonempty (SERVER_URL w)" and "url_valid w (the (SERVER_URL w))"
    and "network w = Answer r # rest" and "plain r pl" and "p_result pl = JBool True"
  shows "getSession_v2 (Suc (Suc n)) w =
           Some (Resolved (JBool True), after_fetch probe_call r rest w)"
  using assms
  by (simp add: getSession_v2.simps probe_call_def plain_def resolve_def
        then_resolved[OF request_v2_ok])

lemma getSession_v2_invalid:
  assumes "nonempty (SERVER_URL w)" and "url_valid w (the (SERVER_URL w))"
    and "network w = Answer r # rest" and "plain r pl" and "p_result pl \<noteq> JBool True"
  shows "getSession_v2 (Suc (Suc n)) w =
           doLogin_v2 (Suc n) False (after_fetch probe_call r rest w)"
  using assms
  by (simp add: getSession_v2.simps probe_call_def plain_def then_resolved[OF request_v2_ok])

lemma doLogin_v2_accepted:
  assumes "nonempty (SERVER_URL w)" and "url_valid w (the (SERVER_URL w))"
    and "nonempty (SERVER_PASS w)"
    and "network w = Answer r # rest" and "plain r pl" and "truthy (p_result pl)"
  shows "doLogin_v2 (Suc (Suc n)) silent w =
           then_p (getSession_v2 (Suc n)) (\<lambda>u. resolve (p_result pl))
             (after_fetch (login_call w) r rest w)"
  using assms
  by (simp add: doLogin_v2.simps login_call_def plain_def then_resolved[OF request_v2_ok])

lemma issued_after_fetch [simp]:
  "issued w (after_fetch p r rest w) = [p]"
  by (simp add: issued_def)

lemma issued_step:
  "\<exists>evs. trace w1 = trace w @ evs \<Longrightarrow>
   issued w (after_fetch p r rest w1) = issued w w1 @ [p]"
  by (auto simp: issued_def calls_append)

lemma trace_after_fetch_ex [simp]: "\<exists>evs. trace (after_fetch p r rest w) = trace w @ evs"
  by simp

lemma issued_self [simp]: "issued w w = []"
  by (simp add: issued_def)

subsection \<open>Re-authentication and replay in \<open>_request\<close>\<close>










subsection \<open>The daemon locator\<close>

lemma foldl_catch_resolved:
  "p w = Some (Resolved d, w2) \<Longrightarrow>
   foldl (\<lambda>promise h. catch_p promise (\<lambda>e. t h)) p hs w = Some (Resolved d, w2)"
proof (induction hs arbitrary: p)
  case Nil
  then show ?case by simp
next
  case (Cons h hs)
  from Cons.prems have "catch_p p (\<lambda>e. t h) w = Some (Resolved d, w2)"
    by (simp add: catch_p_def)
  from Cons.IH[where p = "catch_p p (\<lambda>e. t h)", OF this] show ?case by simp
qed

lemma foldl_catch_rejected:
  "p w = Some (Rejected e, w0) \<Longrightarrow> fail_through t hs w0 = Some w1 \<Longrightarrow>
   \<exists>e'. foldl (\<lambda>promise h. catch_p promise (\<lambda>e. t h)) p hs w = Some (Rejected e', w1)"
proof (induction hs arbitrary: p e w0)
  case Nil
  then show ?case by simp
next
  case (Cons h hs)
  from Cons.prems(2) obtain e1 w0' where
    t: "t h w0 = Some (Rejected e1, w0')" and f: "fail_through t hs w0' = Some w1"
    by (auto split: option.splits prod.splits settled.splits)
  from Cons.prems(1) t have "catch_p p (\<lambda>e. t h) w = Some (Rejected e1, w0')"
    by (simp add: catch_p_def)
  from Cons.IH[where p = "catch_p p (\<lambda>e. t h)", OF this f] show ?case by simp
qed

lemma foldl_catch_first:
  assumes "fail_through t pre w = Some w1" and "t h w1 = Some (Resolved d, w2)"
  shows "foldl (\<lambda>promise h. catch_p promise (\<lambda>e. t h)) (reject e0) (pre @ h # post) w
           = Some (Resolved d, w2)"
proof -
  have "reject e0 w = Some (Rejected e0, w)" by (simp add: reject_def)
  from foldl_catch_rejected[where p = "reject e0", OF this assms(1)] obtain e' where
    "foldl (\<lambda>promise h. catch_p promise (\<lambda>e. t h)) (reject e0) pre w = Some (Rejected e', w1)"
    by blast
  with assms(2) have
    "catch_p (foldl (\<lambda>promise h. catch_p promise (\<lambda>e. t h)) (reject e0) pre) (\<lambda>e. t h) w
       = Some (Resolved d, w2)"
    by (simp add: catch_p_def)
  from foldl_catch_resolved[where hs = post
      and p = "catch_p (foldl (\<lambda>promise h. catch_p promise (\<lambda>e. t h)) (reject e0) pre) (\<lambda>e. t h)",
      OF this]
  show ?thesis by simp
qed

lemma getConnectedDaemon_first:
  assumes "\<not> truthy (jsget (DAEMON_INFO w) ''host_id'')"
  shows "fail_through (tryDaemon_v1 n) pre w = Some w1 \<Longrightarrow>
         tryDaemon_v1 n h w1 = Some (Resolved d, w2) \<Longrightarrow>
         getConnectedDaemon_v1 n (JArr (pre @ h # post)) w = Some (Resolved d, w2)"
    and "fail_through (tryDaemon_v2 n) pre w = Some w1 \<Longrightarrow>
         tryDaemon_v2 n h w1 = Some (Resolved d, w2) \<Longrightarrow>
         getConnectedDaemon_v2 n (JArr (pre @ h # post)) w = Some (Resolved d, w2)"
  using assms
  by (simp_all add: getConnectedDaemon_v1_def getConnectedDaemon_v2_def foldl_catch_first
        del: foldl_append)

lemma getHostStatus_v1_ok:
  assumes "nonempty (SERVER_URL w)" and "url_valid w (the (SERVER_URL w))"
    and "network w = Answer r # rest" and "plain r pl" and "p_result pl = JArr xs"
  shows "getHostStatus_v1 (Suc n) hostId ip port w =
           Some (Resolved (daemon_info_v1 xs ip port), after_fetch (status_rpc hostId) r rest w)"
proof -
  from assms have "request_v1 (Suc n) ''gethoststatus'' (status_rpc hostId) False w
      = Some (Resolved pl, after_fetch (status_rpc hostId) r rest w)"
    by (intro request_v1_ok) (simp_all add: plain_def)
  note t = then_resolved[where p = "request_v1 (Suc n) ''gethoststatus'' (status_rpc hostId) False",
      OF this]
  from assms(5) show ?thesis
    unfolding getHostStatus_v1_def status_rpc_def[symmetric]
    by (simp add: t resolve_def)
qed

lemma startDaemon_v1_ok:
  assumes "nonempty (SERVER_URL w)" and "url_valid w (the (SERVER_URL w))"
    and "network w = Answer r # rest" and "plain r pl"
  shows "startDaemon_v1 (Suc n) info w =
           Some (Resolved info, after_fetch (start_rpc_v1 info) r rest w)"
proof -
  from assms have "request_v1 (Suc n) ''startdaemon'' (start_rpc_v1 info) False w
      = Some (Resolved pl, after_fetch (start_rpc_v1 info) r rest w)"
    by (intro request_v1_ok) (simp_all add: plain_def)
  note t = then_resolved[where p = "request_v1 (Suc n) ''startdaemon'' (start_rpc_v1 info) False",
      OF this]
  from assms(4) show ?thesis
    unfolding startDaemon_v1_def start_rpc_v1_def[symmetric]
    by (simp add: t resolve_def plain_def)
qed

lemma connectDaemon_v1_online:
  assumes "nonempty (SERVER_URL w)" and "url_valid w (the (SERVER_URL w))"
    and "network w = Answer r # rest" and "plain r pl"
    and "jsget info ''status'' = JStr ''Online''"
  shows "connectDaemon_v1 (Suc (Suc n)) info w =
           Some (Resolved info, after_fetch (connect_rpc_v1 info) r rest w)"
proof -
  from assms have "request_v1 (Suc n) ''connectdaemon'' (connect_rpc_v1 info) False w
      = Some (Resolved pl, after_fetch (connect_rpc_v1 info) r rest w)"
    by (intro request_v1_ok) (simp_all add: plain_def)
  note t = then_resolved[where p = "request_v1 (Suc n) ''connectdaemon'' (connect_rpc_v1 info) False",
      OF this]
  from assms(4,5) show ?thesis
    unfolding connectDaemon_v1.simps connect_rpc_v1_def[symmetric]
    by (simp add: t resolve_def plain_def)
qed

lemma connectDaemon_v1_poll:
  assumes "jsget info ''status'' \<noteq> JStr ''Online''" and "CONNECT_ATTEMPTS w < 5"
  shows "connectDaemon_v1 (Suc n) info w =
           then_p (getHostStatus_v1 n (jsget info ''host_id'') JNull JNull)
             (\<lambda>info'. connectDaemon_v1 n info')
             (w\<lparr>CONNECT_ATTEMPTS := CONNECT_ATTEMPTS w + 1\<rparr>)"
  using assms by (simp add: connectDaemon_v1.simps)

lemma then_then_resolved:
  "p w = Some (Resolved v, w1) \<Longrightarrow> then_p (then_p p f) k w = then_p (f v) k w1"
  by (simp add: then_p_def)

lemma then_resolve:
  "then_p (resolve v) k w = k v w"
  "then_p (\<lambda>w. Some (Resolved v, w)) k w = k v w"
  by (simp_all add: then_p_def resolve_def)

lemma tryDaemon_adopts:
  "tryDaemon_v1 n h w = Some (Resolved d, w2) \<Longrightarrow> DAEMON_INFO w2 = d"
  "tryDaemon_v2 n h w = Some (Resolved d, w2) \<Longrightarrow> DAEMON_INFO w2 = d"
  unfolding tryDaemon_v1_def tryDaemon_v2_def
  by (auto simp: reject_def resolve_def TypeError_def dest!: then_ResolvedD
        split: option.splits prod.splits)

lemma tryDaemon_v1_connected:
  assumes "nonempty (SERVER_URL w)" and "url_valid w (the (SERVER_URL w))"
    and "elem h 0 = Some hostId" and "elem h 1 = Some ip" and "elem h 2 = Some port"
    and "network w = Answer r # rest" and "plain r pl" and "p_result pl = JArr xs"
    and "jsget (daemon_info_v1 xs ip port) ''status'' = JStr ''Connected''"
  shows "tryDaemon_v1 (Suc n) h w =
           Some (Resolved (daemon_info_v1 xs ip port),
                 (after_fetch (status_rpc hostId) r rest w)
                   \<lparr>DAEMON_INFO := daemon_info_v1 xs ip port, CONNECT_ATTEMPTS := 1\<rparr>)"
proof -
  note g = getHostStatus_v1_ok[OF assms(1,2,6,7,8), of n hostId ip port]
  show ?thesis
    unfolding tryDaemon_v1_def
    using assms(3,4,5)
    by (simp add: assms(9)
          then_then_resolved[where p = "getHostStatus_v1 (Suc n) hostId ip port", OF g]
          then_resolve resolve_def)
qed

lemma tryDaemon_v1_online:
  assumes "nonempty (SERVER_URL w)" and "url_valid w (the (SERVER_URL w))"
    and "elem h 0 = Some hostId" and "elem h 1 = Some ip" and "elem h 2 = Some port"
    and "network w = Answer r # Answer r2 # rest" and "plain r pl" and "p_result pl = JArr xs"
    and "jsget (daemon_info_v1 xs ip port) ''status'' = JStr ''Online''"
    and "plain r2 pl2"
  shows "tryDaemon_v1 (Suc (Suc n)) h w =
           Some (Resolved (daemon_info_v1 xs ip port),
                 (after_fetch (connect_rpc_v1 (daemon_info_v1 xs ip port)) r2 rest
                    (after_fetch (status_rpc hostId) r (Answer r2 # rest) w))
                   \<lparr>DAEMON_INFO := daemon_info_v1 xs ip port, CONNECT_ATTEMPTS := 1\<rparr>)"
proof -
  let ?info = "daemon_info_v1 xs ip port"
  let ?w1 = "after_fetch (status_rpc hostId) r (Answer r2 # rest) w"
  note g = getHostStatus_v1_ok[OF assms(1,2,6,7,8), of "Suc n" hostId ip port]
  have c: "connectDaemon_v1 (Suc (Suc n)) ?info ?w1 =
      Some (Resolved ?info, after_fetch (connect_rpc_v1 ?info) r2 rest ?w1)"
    using assms(1,2) by (intro connectDaemon_v1_online[where pl = pl2] assms(9,10)) simp_all
  show ?thesis
    unfolding tryDaemon_v1_def
    using assms(3,4,5)
    by (simp add: assms(9)
          then_then_resolved[where p = "getHostStatus_v1 (Suc (Suc n)) hostId ip port", OF g]
          then_resolved[where p = "connectDaemon_v1 (Suc (Suc n)) ?info", OF c]
          resolve_def)
qed

lemma connectDaemon_v1_polls_connect:
  assumes "nonempty (SERVER_URL w)" and "url_valid w (the (SERVER_URL w))"
    and "jsget info ''status'' \<noteq> JStr ''Online''"
    and "list_all (\<lambda>xs. jsget (daemon_info_v1 xs JNull JNull) ''status'' \<noteq> JStr ''Online'') xss"
    and "jsget (daemon_info_v1 ys JNull JNull) ''status'' = JStr ''Online''"
    and "CONNECT_ATTEMPTS w + length xss < 5"
    and "network w = polls_v1 (xss @ [ys]) (Answer r # rest)" and "plain r pl"
  shows "\<exists>w' evs. connectDaemon_v1 (Suc (length xss + Suc (Suc n))) info w
                     = Some (Resolved (daemon_info_v1 ys JNull JNull), w')
           \<and> trace w' = trace w @ evs
           \<and> calls evs = map status_rpc (poll_ids info (xss @ [ys]))
                          @ [connect_rpc_v1 (daemon_info_v1 ys JNull JNull)]
           \<and> network w' = rest"
  using assms
proof (induction xss arbitrary: info w)
  case Nil
  let ?info' = "daemon_info_v1 ys JNull JNull"
  let ?py = "\<lparr>p_error = None, p_result = JArr ys, p_status = JNull\<rparr>"
  let ?ry = "\<lparr>status = 200, set_cookie = None, csrf_header = None, body = Some ?py\<rparr>"
  let ?w1 = "w\<lparr>CONNECT_ATTEMPTS := CONNECT_ATTEMPTS w + 1\<rparr>"
  let ?w2 = "after_fetch (status_rpc (jsget info ''host_id'')) ?ry (Answer r # rest) ?w1"
  let ?w3 = "after_fetch (connect_rpc_v1 ?info') r rest ?w2"
  from Nil.prems(7) have net: "network ?w1 = Answer ?ry # Answer r # rest"
    by (simp add: plain_answer(1))
  from Nil.prems(6) have att: "CONNECT_ATTEMPTS w < 5" by simp
  have g: "getHostStatus_v1 (Suc (Suc n)) (jsget info ''host_id'') JNull JNull ?w1
      = Some (Resolved ?info', ?w2)"
    using Nil.prems(1,2) net
    by (intro getHostStatus_v1_ok[where pl = ?py] plain_answer(2)) simp_all
  have c: "connectDaemon_v1 (Suc (Suc n)) ?info' ?w2 = Some (Resolved ?info', ?w3)"
    using Nil.prems(1,2)
    by (intro connectDaemon_v1_online[where pl = pl] Nil.prems(5,8)) simp_all
  have "connectDaemon_v1 (Suc (Suc (Suc n))) info w =
      then_p (getHostStatus_v1 (Suc (Suc n)) (jsget info ''host_id'') JNull JNull)
        (\<lambda>info'. connectDaemon_v1 (Suc (Suc n)) info') ?w1"
    by (rule connectDaemon_v1_poll[OF Nil.prems(3) att])
  also have "\<dots> = connectDaemon_v1 (Suc (Suc n)) ?info' ?w2"
    by (rule then_resolved[where p = "getHostStatus_v1 (Suc (Suc n)) (jsget info ''host_id'') JNull JNull",
          OF g])
  also have "\<dots> = Some (Resolved ?info', ?w3)" by (rule c)
  finally have r: "connectDaemon_v1 (Suc (length ([]::json list list) + Suc (Suc n))) info w
      = Some (Resolved ?info', ?w3)"
    by simp
  have t: "trace ?w3 = trace w @
      [Fetch (status_rpc (jsget info ''host_id'')) (SESSION_COOKIE w) (CSRF_TOKEN w),
       Fetch (connect_rpc_v1 ?info') (SESSION_COOKIE ?w2) (CSRF_TOKEN ?w2)]"
    by simp
  have k: "calls [Fetch (status_rpc (jsget info ''host_id'')) (SESSION_COOKIE w) (CSRF_TOKEN w),
       Fetch (connect_rpc_v1 ?info') (SESSION_COOKIE ?w2) (CSRF_TOKEN ?w2)]
      = map status_rpc (poll_ids info ([] @ [ys])) @ [connect_rpc_v1 ?info']"
    by simp
  have n: "network ?w3 = rest" by simp
  from r t k n show ?case by blast
next
  case (Cons xs xss)
  let ?info1 = "daemon_info_v1 xs JNull JNull"
  let ?info' = "daemon_info_v1 ys JNull JNull"
  let ?px = "\<lparr>p_error = None, p_result = JArr xs, p_status = JNull\<rparr>"
  let ?rx = "\<lparr>status = 200, set_cookie = None, csrf_header = None, body = Some ?px\<rparr>"
  let ?tail = "polls_v1 (xss @ [ys]) (Answer r # rest)"
  let ?w1 = "w\<lparr>CONNECT_ATTEMPTS := CONNECT_ATTEMPTS w + 1\<rparr>"
  let ?w2 = "after_fetch (status_rpc (jsget info ''host_id'')) ?rx ?tail ?w1"
  let ?F = "Suc (length xss + Suc (Suc n))"
  from Cons.prems(7) have net: "network ?w1 = Answer ?rx # ?tail"
    by (simp add: plain_answer(1))
  from Cons.prems(6) have att: "CONNECT_ATTEMPTS w < 5" by simp
  from Cons.prems(4) have off1: "jsget ?info1 ''status'' \<noteq> JStr ''Online''"
    and offs: "list_all (\<lambda>xs. jsget (daemon_info_v1 xs JNull JNull) ''status'' \<noteq> JStr ''Online'') xss"
    by simp_all
  have g: "getHostStatus_v1 ?F (jsget info ''host_id'') JNull JNull ?w1 = Some (Resolved ?info1, ?w2)"
    using Cons.prems(1,2) net
    by (intro getHostStatus_v1_ok[where pl = ?px] plain_answer(2)) simp_all
  have p2: "nonempty (SERVER_URL ?w2)" "url_valid ?w2 (the (SERVER_URL ?w2))"
    "CONNECT_ATTEMPTS ?w2 + length xss < 5" "network ?w2 = ?tail"
    using Cons.prems(1,2,6) by simp_all
  from Cons.IH[OF p2(1,2) off1 offs Cons.prems(5) p2(3,4) Cons.prems(8)] obtain w' evs where
    i: "connectDaemon_v1 ?F ?info1 ?w2 = Some (Resolved ?info', w')"
    and t: "trace w' = trace ?w2 @ evs"
    and k: "calls evs = map status_rpc (poll_ids ?info1 (xss @ [ys])) @ [connect_rpc_v1 ?info']"
    and n: "network w' = rest"
    by blast
  have "connectDaemon_v1 (Suc ?F) info w =
      then_p (getHostStatus_v1 ?F (jsget info ''host_id'') JNull JNull)
        (\<lambda>info'. connectDaemon_v1 ?F info') ?w1"
    by (rule connectDaemon_v1_poll[OF Cons.prems(3) att])
  also have "\<dots> = connectDaemon_v1 ?F ?info1 ?w2"
    by (rule then_resolved[where p = "getHostStatus_v1 ?F (jsget info ''host_id'') JNull JNull", OF g])
  also have "\<dots> = Some (Resolved ?info', w')" by (rule i)
  finally have r: "connectDaemon_v1 (Suc (length (xs # xss) + Suc (Suc n))) info w
      = Some (Resolved ?info', w')"
    by simp
  from t have t': "trace w' = trace w @
      (Fetch (status_rpc (jsget info ''host_id'')) (SESSION_COOKIE w) (CSRF_TOKEN w) # evs)"
    by simp
  from k have k': "calls (Fetch (status_rpc (jsget info ''host_id'')) (SESSION_COOKIE w) (CSRF_TOKEN w) # evs)
      = map status_rpc (poll_ids info ((xs # xss) @ [ys])) @ [connect_rpc_v1 ?info']"
    by simp
  from r t' k' n show ?case by blast
qed

lemma connectDaemon_v1_polls_give_up:
  assumes "nonempty (SERVER_URL w)" and "url_valid w (the (SERVER_URL w))"
    and "jsget info ''status'' \<noteq> JStr ''Online''"
    and "list_all (\<lambda>xs. jsget (daemon_info_v1 xs JNull JNull) ''status'' \<noteq> JStr ''Online'') xss"
    and "length xss = 5 - CONNECT_ATTEMPTS w"
    and "network w = polls_v1 xss rest"
  shows "\<exists>w' evs. connectDaemon_v1 (Suc (length xss + n)) info w
                     = Some (Rejected (Error ''Max connection attempts reached''), w')
           \<and> trace w' = trace w @ evs
           \<and> calls evs = map status_rpc (poll_ids info xss)
           \<and> network w' = rest"
  using assms
proof (induction xss arbitrary: info w)
  case Nil
  then have "CONNECT_ATTEMPTS w \<ge> 5" by simp
  with Nil.prems(3) have "connectDaemon_v1 (Suc n) info w
      = Some (Rejected (Error ''Max connection attempts reached''), w)"
    by (simp add: connectDaemon_v1.simps reject_def)
  with Nil.prems(6) show ?case
    by (intro exI[where x = w] exI[where x = "[]"]) simp
next
  case (Cons xs xss)
  let ?info1 = "daemon_info_v1 xs JNull JNull"
  let ?px = "\<lparr>p_error = None, p_result = JArr xs, p_status = JNull\<rparr>"
  let ?rx = "\<lparr>status = 200, set_cookie = None, csrf_header = None, body = Some ?px\<rparr>"
  let ?tail = "polls_v1 xss rest"
  let ?w1 = "w\<lparr>CONNECT_ATTEMPTS := CONNECT_ATTEMPTS w + 1\<rparr>"
  let ?w2 = "after_fetch (status_rpc (jsget info ''host_id'')) ?rx ?tail ?w1"
  let ?F = "Suc (length xss + n)"
  from Cons.prems(6) have net: "network ?w1 = Answer ?rx # ?tail"
    by (simp add: plain_answer(1))
  from Cons.prems(5) have att: "CONNECT_ATTEMPTS w < 5" by simp
  from Cons.prems(4) have off1: "jsget ?info1 ''status'' \<noteq> JStr ''Online''"
    and offs: "list_all (\<lambda>xs. jsget (daemon_info_v1 xs JNull JNull) ''status'' \<noteq> JStr ''Online'') xss"
    by simp_all
  have g: "getHostStatus_v1 ?F (jsget info ''host_id'') JNull JNull ?w1 = Some (Resolved ?info1, ?w2)"
    using Cons.prems(1,2) net
    by (intro getHostStatus_v1_ok[where pl = ?px] plain_answer(2)) simp_all
  have p2: "nonempty (SERVER_URL ?w2)" "url_valid ?w2 (the (SERVER_URL ?w2))"
    "length xss = 5 - CONNECT_ATTEMPTS ?w2" "network ?w2 = ?tail"
    using Cons.prems(1,2,5) by simp_all
  from Cons.IH[OF p2(1,2) off1 offs p2(3,4)] obtain w' evs where
    i: "connectDaemon_v1 ?F ?info1 ?w2
          = Some (Rejected (Error ''Max connection attempts reached''), w')"
    and t: "trace w' = trace ?w2 @ evs"
    and k: "calls evs = map status_rpc (poll_ids ?info1 xss)"
    and n: "network w' = rest"
    by blast
  have "connectDaemon_v1 (Suc ?F) info w =
      then_p (getHostStatus_v1 ?F (jsget info ''host_id'') JNull JNull)
        (\<lambda>info'. connectDaemon_v1 ?F info') ?w1"
    by (rule connectDaemon_v1_poll[OF Cons.prems(3) att])
  also have "\<dots> = connectDaemon_v1 ?F ?info1 ?w2"
    by (rule then_resolved[where p = "getHostStatus_v1 ?F (jsget info ''host_id'') JNull JNull", OF g])
  also have "\<dots> = Some (Rejected (Error ''Max connection attempts reached''), w')" by (rule i)
  finally have r: "connectDaemon_v1 (Suc (length (xs # xss) + n)) info w
      = Some (Rejected (Error ''Max connection attempts reached''), w')"
    by simp
  from t have t': "trace w' = trace w @
      (Fetch (status_rpc (jsget info ''host_id'')) (SESSION_COOKIE w) (CSRF_TOKEN w) # evs)"
    by simp
  from k have k': "calls (Fetch (status_rpc (jsget info ''host_id'')) (SESSION_COOKIE w) (CSRF_TOKEN w) # evs)
      = map status_rpc (poll_ids info (xs # xss))"
    by simp
  from r t' k' n show ?case by blast
qed

lemma tryDaemon_v1_offline_connect:
  assumes "nonempty (SERVER_URL w)" and "url_valid w (the (SERVER_URL w))"
    and "elem h 0 = Some hostId" and "elem h 1 = Some ip" and "elem h 2 = Some port"
    and "network w = Answer r # Answer r2 # polls_v1 (xss @ [ys]) (Answer r4 # rest)"
    and "plain r pl" and "p_result pl = JArr xs"
    and "jsget (daemon_info_v1 xs ip port) ''status'' = JStr ''Offline''"
    and "plain r2 pl2"
    and "list_all (\<lambda>xs. jsget (daemon_info_v1 xs JNull JNull) ''status'' \<noteq> JStr ''Online'') xss"
    and "jsget (daemon_info_v1 ys JNull JNull) ''status'' = JStr ''Online''"
    and "CONNECT_ATTEMPTS w + length xss < 5"
    and "plain r4 pl4"
  shows "\<exists>w'. tryDaemon_v1 (Suc (length xss + Suc (Suc n))) h w =
                 Some (Resolved (daemon_info_v1 ys JNull JNull), w')
           \<and> issued w w' =
               status_rpc hostId # start_rpc_v1 (daemon_info_v1 xs ip port)
               # map status_rpc (poll_ids (daemon_info_v1 xs ip port) (xss @ [ys]))
               @ [connect_rpc_v1 (daemon_info_v1 ys JNull JNull)]
           \<and> network w' = rest \<and> DAEMON_INFO w' = daemon_info_v1 ys JNull JNull"
proof -
  let ?info = "daemon_info_v1 xs ip port"
  let ?info' = "daemon_info_v1 ys JNull JNull"
  let ?tail = "polls_v1 (xss @ [ys]) (Answer r4 # rest)"
  let ?w1 = "after_fetch (status_rpc hostId) r (Answer r2 # ?tail) w"
  let ?w2 = "after_fetch (start_rpc_v1 ?info) r2 ?tail ?w1"
  define N where "N = Suc (length xss + Suc (Suc n))"
  have g: "getHostStatus_v1 N hostId ip port w = Some (Resolved ?info, ?w1)"
    unfolding N_def by (rule getHostStatus_v1_ok[OF assms(1,2,6,7,8)])
  have s: "startDaemon_v1 N ?info ?w1 = Some (Resolved ?info, ?w2)"
    unfolding N_def using assms(1,2)
    by (intro startDaemon_v1_ok[where pl = pl2] assms(10)) simp_all
  have off: "jsget ?info ''status'' \<noteq> JStr ''Online''" using assms(9) by simp
  have p2: "nonempty (SERVER_URL ?w2)" "url_valid ?w2 (the (SERVER_URL ?w2))"
    "CONNECT_ATTEMPTS ?w2 + length xss < 5" "network ?w2 = ?tail"
    using assms(1,2,13) by simp_all
  from connectDaemon_v1_polls_connect[OF p2(1,2) off assms(11,12) p2(3,4) assms(14), of n]
  obtain w4 evs where
    c: "connectDaemon_v1 N ?info ?w2 = Some (Resolved ?info', w4)"
    and t: "trace w4 = trace ?w2 @ evs"
    and k: "calls evs = map status_rpc (poll_ids ?info (xss @ [ys])) @ [connect_rpc_v1 ?info']"
    and n4: "network w4 = rest"
    unfolding N_def by blast
  let ?w5 = "w4\<lparr>DAEMON_INFO := ?info', CONNECT_ATTEMPTS := 1\<rparr>"
  have "tryDaemon_v1 N h w = Some (Resolved ?info', ?w5)"
    unfolding tryDaemon_v1_def
    using assms(3,4,5)
    by (simp add: assms(9)
          then_then_resolved[where p = "getHostStatus_v1 N hostId ip port", OF g]
          then_then_resolved[where p = "startDaemon_v1 N ?info", OF s]
          then_resolved[where p = "connectDaemon_v1 N ?info", OF c]
          resolve_def)
  moreover from t k have "issued w ?w5 =
      status_rpc hostId # start_rpc_v1 ?info
      # map status_rpc (poll_ids ?info (xss @ [ys])) @ [connect_rpc_v1 ?info']"
    by (simp add: issued_def calls_append)
  moreover from n4 have "network ?w5 = rest" "DAEMON_INFO ?w5 = ?info'" by simp_all
  ultimately show ?thesis unfolding N_def by blast
qed

lemma tryDaemon_v1_offline_give_up:
  assumes "nonempty (SERVER_URL w)" and "url_valid w (the (SERVER_URL w))"
    and "elem h 0 = Some hostId" and "elem h 1 = Some ip" and "elem h 2 = Some port"
    and "network w = Answer r # Answer r2 # polls_v1 xss rest"
    and "plain r pl" and "p_result pl = JArr xs"
    and "jsget (daemon_info_v1 xs ip port) ''status'' = JStr ''Offline''"
    and "plain r2 pl2"
    and "list_all (\<lambda>xs. jsget (daemon_info_v1 xs JNull JNull) ''status'' \<noteq> JStr ''Online'') xss"
    and "length xss = 5 - CONNECT_ATTEMPTS w"
  shows "\<exists>w'. tryDaemon_v1 (Suc (length xss + n)) h w =
                 Some (Rejected (Error ''Max connection attempts reached''), w')
           \<and> issued w w' =
               status_rpc hostId # start_rpc_v1 (daemon_info_v1 xs ip port)
               # map status_rpc (poll_ids (daemon_info_v1 xs ip port) xss)
           \<and> network w' = rest"
proof -
  let ?info = "daemon_info_v1 xs ip port"
  let ?tail = "polls_v1 xss rest"
  let ?w1 = "after_fetch (status_rpc hostId) r (Answer r2 # ?tail) w"
  let ?w2 = "after_fetch (start_rpc_v1 ?info) r2 ?tail ?w1"
  define N where "N = Suc (length xss + n)"
  have g: "getHostStatus_v1 N hostId ip port w = Some (Resolved ?info, ?w1)"
    unfolding N_def by (rule getHostStatus_v1_ok[OF assms(1,2,6,7,8)])
  have s: "startDaemon_v1 N ?info ?w1 = Some (Resolved ?info, ?w2)"
    unfolding N_def using assms(1,2)
    by (intro startDaemon_v1_ok[where pl = pl2] assms(10)) simp_all
  have off: "jsget ?info ''status'' \<noteq> JStr ''Online''" using assms(9) by simp
  have p2: "nonempty (SERVER_URL ?w2)" "url_valid ?w2 (the (SERVER_URL ?w2))"
    "length xss = 5 - CONNECT_ATTEMPTS ?w2" "network ?w2 = ?tail"
    using assms(1,2,12) by simp_all
  from connectDaemon_v1_polls_give_up[OF p2(1,2) off assms(11) p2(3,4), of n]
  obtain w4 evs where
    c: "connectDaemon_v1 N ?info ?w2 = Some (Rejected (Error ''Max connection attempts reached''), w4)"
    and t: "trace w4 = trace ?w2 @ evs"
    and k: "calls evs = map status_rpc (poll_ids ?info xss)"
    and n4: "network w4 = rest"
    unfolding N_def by blast
  have "tryDaemon_v1 N h w = Some (Rejected (Error ''Max connection attempts reached''), w4)"
    unfolding tryDaemon_v1_def
    using assms(3,4,5)
    by (simp add: assms(9)
          then_then_resolved[where p = "getHostStatus_v1 N hostId ip port", OF g]
          then_then_resolved[where p = "startDaemon_v1 N ?info", OF s]
          then_rejected[where p = "connectDaemon_v1 N ?info", OF c])
  moreover from t k have "issued w w4 =
      status_rpc hostId # start_rpc_v1 ?info # map status_rpc (poll_ids ?info xss)"
    by (simp add: issued_def calls_append)
  ultimately show ?thesis using n4 unfolding N_def by blast
qed

lemma getConnectedDaemon_cached:
  assumes "truthy (jsget (DAEMON_INFO w) ''host_id'')"
  shows "getConnectedDaemon_v1 n hosts w = Some (Resolved (DAEMON_INFO w), w)"
    and "getConnectedDaemon_v2 n hosts w = Some (Resolved (DAEMON_INFO w), w)"
  using assms by (simp_all add: getConnectedDaemon_v1_def getConnectedDaemon_v2_def resolve_def)

lemma getConnectedDaemon_all_fail:
  assumes "\<not> truthy (jsget (DAEMON_INFO w) ''host_id'')" and "hs \<noteq> []"
  shows "fail_through (tryDaemon_v1 n) hs w = Some w1 \<Longrightarrow>
         \<exists>e. getConnectedDaemon_v1 n (JArr hs) w = Some (Rejected e, w1)"
    and "fail_through (tryDaemon_v2 n) hs w = Some w1 \<Longrightarrow>
         \<exists>e. getConnectedDaemon_v2 n (JArr hs) w = Some (Rejected e, w1)"
proof -
  have r: "reject (Error ''Starting daemon connection attempts'') w
      = Some (Rejected (Error ''Starting daemon connection attempts''), w)"
    by (simp add: reject_def)
  {
    assume "fail_through (tryDaemon_v1 n) hs w = Some w1"
    from foldl_catch_rejected[where p = "reject (Error ''Starting daemon connection attempts'')",
        OF r this] assms
    show "\<exists>e. getConnectedDaemon_v1 n (JArr hs) w = Some (Rejected e, w1)"
      by (simp add: getConnectedDaemon_v1_def)
  }
  {
    assume "fail_through (tryDaemon_v2 n) hs w = Some w1"
    from foldl_catch_rejected[where p = "reject (Error ''Starting daemon connection attempts'')",
        OF r this] assms
    show "\<exists>e. getConnectedDaemon_v2 n (JArr hs) w = Some (Rejected e, w1)"
      by (simp add: getConnectedDaemon_v2_def)
  }
qed

text \<open>
  The claim (C3) fails for an \<open>Offline\<close> host in the first generation: after the start
  call \<open>_connectDaemon\<close> receives the info that still says \<open>Offline\<close>, so it does not
  connect but asks for the host's status again, and it sends the connect call only because
  that poll reports \<open>Online\<close>. A host that is still \<open>Offline\<close> in every poll is given up
  after five polls without any connect call. In the second generation a host that the
  panel reports as \<open>Connected\<close> in the reply \<open>[host_id, status, version]\<close> is not adopted:
  \<open>_getHostStatus\<close> takes the first element of the reply for the status.
\<close>

theorem offline_host_counterexample:
  "(case getConnectedDaemon_v1 8 (JArr [JArr [JStr ''h1'', JStr ''127.0.0.1'', JNum 58846]])
           (configured JNull
              [answer (JArr [JStr ''h1'', JStr ''Offline'', JStr '''']),
               answer JNull,
               answer (JArr [JStr ''h1'', JStr ''Online'', JStr ''2.1.1'']),
               answer JNull]) of
      Some (Resolved d, w') \<Rightarrow>
        calls (trace w') =
          [\<lparr>rpc_method = ''web.get_host_status'', rpc_params = [JStr ''h1'']\<rparr>,
           \<lparr>rpc_method = ''web.start_daemon'', rpc_params = [JNum 58846]\<rparr>,
           \<lparr>rpc_method = ''web.get_host_status'', rpc_params = [JStr ''h1'']\<rparr>,
           \<lparr>rpc_method = ''web.connect'', rpc_params = [JStr ''h1'']\<rparr>]
    | other \<Rightarrow> False)
   \<and> (case getConnectedDaemon_v1 12 (JArr [JArr [JStr ''h1'', JStr ''127.0.0.1'', JNum 58846]])
           (configured JNull
              [answer (JArr [JStr ''h1'', JStr ''Offline'', JStr '''']),
               answer JNull,
               answer (JArr [JStr ''h1'', JStr ''Offline'', JStr '''']),
               answer (JArr [JStr ''h1'', JStr ''Offline'', JStr '''']),
               answer (JArr [JStr ''h1'', JStr ''Offline'', JStr '''']),
               answer (JArr [JStr ''h1'', JStr ''Offline'', JStr '''']),
               answer (JArr [JStr ''h1'', JStr ''Offline'', JStr '''']),
               answer JNull]) of
      Some (Rejected e, w') \<Rightarrow>
        e = Error ''Max connection attempts reached''
        \<and> map rpc_method (calls (trace w')) =
            [''web.get_host_status'', ''web.start_daemon'',
             ''web.get_host_status'', ''web.get_host_status'', ''web.get_host_status'',
             ''web.get_host_status'', ''web.get_host_status'']
    | other \<Rightarrow> False)
   \<and> (case getConnectedDaemon_v2 8 (JArr [JArr [JStr ''h1'', JStr ''127.0.0.1'', JNum 58846]])
           (configured JNull [answer (JArr [JStr ''h1'', JStr ''Connected'', JStr ''2.1.1''])]) of
      Some (Rejected e, w') \<Rightarrow> e = Error ''Unknown daemon status: h1''
    | other \<Rightarrow> False)"
  by code_simp

text \<open>
  Claim C3, amended. In both generations the locator resolves at once, without a call,
  with a cached daemon (a \<open>DAEMON_INFO\<close> that has a \<open>host_id\<close>). Without one it tries the
  hosts in list order, one after the other: when the attempts for the hosts before \<open>h\<close>
  have all rejected and the attempt for \<open>h\<close> resolves, the locator resolves with the
  result of that attempt, stores it as \<open>DAEMON_INFO\<close>, and ends in the world that attempt
  left, whatever hosts follow in the list (no call is issued for them); when the attempts
  for all hosts have rejected, the locator rejects. In the first generation an attempt
  resolves for a \<open>Connected\<close> host after the status call alone and for an \<open>Online\<close> host
  after the status call and one connect call. For an \<open>Offline\<close> host the first generation
  sends the start call and then polls the host's status, counting the polls in
  \<open>CONNECT_ATTEMPTS\<close>: when a poll reports \<open>Online\<close> and fewer than five attempts were
  counted before it, the connect call is sent and the polled info adopted; when the count
  has reached five and no poll has reported \<open>Online\<close>, the attempt is rejected with \<open>Max
  connection attempts reached\<close> and no connect call has been sent.
\<close>

theorem locator_first_success:
  "(\<not> truthy (jsget (DAEMON_INFO w) ''host_id'')
      \<and> fail_through (tryDaemon_v1 n) pre w = Some w1
      \<and> tryDaemon_v1 n h w1 = Some (Resolved d, w2) \<longrightarrow>
      getConnectedDaemon_v1 n (JArr (pre @ h # post)) w = Some (Resolved d, w2)
      \<and> DAEMON_INFO w2 = d)
   \<and> (\<not> truthy (jsget (DAEMON_INFO w) ''host_id'')
      \<and> fail_through (tryDaemon_v2 n) pre w = Some w1
      \<and> tryDaemon_v2 n h w1 = Some (Resolved d, w2) \<longrightarrow>
      getConnectedDaemon_v2 n (JArr (pre @ h # post)) w = Some (Resolved d, w2)
      \<and> DAEMON_INFO w2 = d)
   \<and> (truthy (jsget (DAEMON_INFO w) ''host_id'') \<longrightarrow>
      getConnectedDaemon_v1 n hosts w = Some (Resolved (DAEMON_INFO w), w)
      \<and> getConnectedDaemon_v2 n hosts w = Some (Resolved (DAEMON_INFO w), w))
   \<and> (\<not> truthy (jsget (DAEMON_INFO w) ''host_id'') \<and> hs \<noteq> []
      \<and> fail_through (tryDaemon_v1 n) hs w = Some w1 \<longrightarrow>
      (\<exists>e. getConnectedDaemon_v1 n (JArr hs) w = Some (Rejected e, w1)))
   \<and> (\<not> truthy (jsget (DAEMON_INFO w) ''host_id'') \<and> hs \<noteq> []
      \<and> fail_through (tryDaemon_v2 n) hs w = Some w1 \<longrightarrow>
      (\<exists>e. getConnectedDaemon_v2 n (JArr hs) w = Some (Rejected e, w1)))
   \<and> (nonempty (SERVER_URL w) \<and> url_valid w (the (SERVER_URL w))
      \<and> elem h 0 = Some hostId \<and> elem h 1 = Some ip \<and> elem h 2 = Some port
      \<and> network w = Answer r # rest \<and> plain r pl \<and> p_result pl = JArr xs
      \<and> jsget (daemon_info_v1 xs ip port) ''status'' = JStr ''Connected'' \<longrightarrow>
      (\<exists>w'. tryDaemon_v1 (Suc (Suc (Suc n))) h w = Some (Resolved (daemon_info_v1 xs ip port), w')
         \<and> issued w w' = [status_rpc hostId] \<and> network w' = rest))
   \<and> (nonempty (SERVER_URL w) \<and> url_valid w (the (SERVER_URL w))
      \<and> elem h 0 = Some hostId \<and> elem h 1 = Some ip \<and> elem h 2 = Some port
      \<and> network w = Answer r # Answer r2 # rest \<and> plain r pl \<and> p_result pl = JArr xs
      \<and> jsget (daemon_info_v1 xs ip port) ''status'' = JStr ''Online''
      \<and> plain r2 pl2 \<longrightarrow>
      (\<exists>w'. tryDaemon_v1 (Suc (Suc (Suc n))) h w = Some (Resolved (daemon_info_v1 xs ip port), w')
         \<and> issued w w' = [status_rpc hostId, connect_rpc_v1 (daemon_info_v1 xs ip port)]
         \<and> network w' = rest))
   \<and> (nonempty (SERVER_URL w) \<and> url_valid w (the (SERVER_URL w))
      \<and> elem h 0 = Some hostId \<and> elem h 1 = Some ip \<and> elem h 2 = Some port
      \<and> network w = Answer r # Answer r2 # polls_v1 (xss @ [ys]) (Answer r4 # rest)
      \<and> plain r pl \<and> p_result pl = JArr xs
      \<and> jsget (daemon_info_v1 xs ip port) ''status'' = JStr ''Offline''
      \<and> plain r2 pl2
      \<and> list_all (\<lambda>xs. jsget (daemon_info_v1 xs JNull JNull) ''status'' \<noteq> JStr ''Online'') xss
      \<and> jsget (daemon_info_v1 ys JNull JNull) ''status'' = JStr ''Online''
      \<and> CONNECT_ATTEMPTS w + length xss < 5
      \<and> plain r4 pl4 \<longrightarrow>
      (\<exists>w'. tryDaemon_v1 (Suc (length xss + Suc (Suc n))) h w =
                Some (Resolved (daemon_info_v1 ys JNull JNull), w')
         \<and> issued w w' =
             status_rpc hostId # start_rpc_v1 (daemon_info_v1 xs ip port)
             # map status_rpc (poll_ids (daemon_info_v1 xs ip port) (xss @ [ys]))
             @ [connect_rpc_v1 (daemon_info_v1 ys JNull JNull)]
         \<and> network w' = rest \<and> DAEMON_INFO w' = daemon_info_v1 ys JNull JNull))
   \<and> (nonempty (SERVER_URL w) \<and> url_valid w (the (SERVER_URL w))
      \<and> elem h 0 = Some hostId \<and> elem h 1 = Some ip \<and> elem h 2 = Some port
      \<and> network w = Answer r # Answer r2 # polls_v1 xss rest
      \<and> plain r pl \<and> p_result pl = JArr xs
      \<and> jsget (daemon_info_v1 xs ip port) ''status'' = JStr ''Offline''
      \<and> plain r2 pl2
      \<and> list_all (\<lambda>xs. jsget (daemon_info_v1 xs JNull JNull) ''status'' \<noteq> JStr ''Online'') xss
      \<and> length xss = 5 - CONNECT_ATTEMPTS w \<longrightarrow>
      (\<exists>w'. tryDaemon_v1 (Suc (length xss + n)) h w =
                Some (Rejected (Error ''Max connection attempts reached''), w')
         \<and> issued w w' =
             status_rpc hostId # start_rpc_v1 (daemon_info_v1 xs ip port)
             # map status_rpc (poll_ids (daemon_info_v1 xs ip port) xss)
         \<and> network w' = rest))"
proof -
  have a1: "getConnectedDaemon_v1 n (JArr (pre @ h # post)) w = Some (Resolved d, w2)
      \<and> DAEMON_INFO w2 = d"
    if "\<not> truthy (jsget (DAEMON_INFO w) ''host_id'')
      \<and> fail_through (tryDaemon_v1 n) pre w = Some w1
      \<and> tryDaemon_v1 n h w1 = Some (Resolved d, w2)"
    using that getConnectedDaemon_first(1)[of w n pre w1 h d w2 post] tryDaemon_adopts(1)[of n h w1 d w2]
    by blast
  have a2: "getConnectedDaemon_v2 n (JArr (pre @ h # post)) w = Some (Resolved d, w2)
      \<and> DAEMON_INFO w2 = d"
    if "\<not> truthy (jsget (DAEMON_INFO w) ''host_id'')
      \<and> fail_through (tryDaemon_v2 n) pre w = Some w1
      \<and> tryDaemon_v2 n h w1 = Some (Resolved d, w2)"
    using that getConnectedDaemon_first(2)[of w n pre w1 h d w2 post] tryDaemon_adopts(2)[of n h w1 d w2]
    by blast
  have k: "getConnectedDaemon_v1 n hosts w = Some (Resolved (DAEMON_INFO w), w)
      \<and> getConnectedDaemon_v2 n hosts w = Some (Resolved (DAEMON_INFO w), w)"
    if "truthy (jsget (DAEMON_INFO w) ''host_id'')"
    using getConnectedDaemon_cached[OF that] by blast
  have f1: "\<exists>e. getConnectedDaemon_v1 n (JArr hs) w = Some (Rejected e, w1)"
    if "\<not> truthy (jsget (DAEMON_INFO w) ''host_id'') \<and> hs \<noteq> []
      \<and> fail_through (tryDaemon_v1 n) hs w = Some w1"
    using that getConnectedDaemon_all_fail(1)[of w hs n w1] by blast
  have f2: "\<exists>e. getConnectedDaemon_v2 n (JArr hs) w = Some (Rejected e, w1)"
    if "\<not> truthy (jsget (DAEMON_INFO w) ''host_id'') \<and> hs \<noteq> []
      \<and> fail_through (tryDaemon_v2 n) hs w = Some w1"
    using that getConnectedDaemon_all_fail(2)[of w hs n w1] by blast
  have b1: "\<exists>w'. tryDaemon_v1 (Suc (Suc (Suc n))) h w = Some (Resolved (daemon_info_v1 xs ip port), w')
         \<and> issued w w' = [status_rpc hostId] \<and> network w' = rest"
    if "nonempty (SERVER_URL w) \<and> url_valid w (the (SERVER_URL w))
      \<and> elem h 0 = Some hostId \<and> elem h 1 = Some ip \<and> elem h 2 = Some port
      \<and> network w = Answer r # rest \<and> plain r pl \<and> p_result pl = JArr xs
      \<and> jsget (daemon_info_v1 xs ip port) ''status'' = JStr ''Connected''"
  proof -
    from that have "tryDaemon_v1 (Suc (Suc (Suc n))) h w =
           Some (Resolved (daemon_info_v1 xs ip port),
                 (after_fetch (status_rpc hostId) r rest w)
                   \<lparr>DAEMON_INFO := daemon_info_v1 xs ip port, CONNECT_ATTEMPTS := 1\<rparr>)"
      by (intro tryDaemon_v1_connected[where pl = pl]) simp_all
    moreover have "issued w ((after_fetch (status_rpc hostId) r rest w)
                   \<lparr>DAEMON_INFO := daemon_info_v1 xs ip port, CONNECT_ATTEMPTS := 1\<rparr>)
        = [status_rpc hostId]"
      by (simp add: issued_def)
    ultimately show ?thesis by simp
  qed
  have b2: "\<exists>w'. tryDaemon_v1 (Suc (Suc (Suc n))) h w = Some (Resolved (daemon_info_v1 xs ip port), w')
         \<and> issued w w' = [status_rpc hostId, connect_rpc_v1 (daemon_info_v1 xs ip port)]
         \<and> network w' = rest"
    if "nonempty (SERVER_URL w) \<and> url_valid w (the (SERVER_URL w))
      \<and> elem h 0 = Some hostId \<and> elem h 1 = Some ip \<and> elem h 2 = Some port
      \<and> network w = Answer r # Answer r2 # rest \<and> plain r pl \<and> p_result pl = JArr xs
      \<and> jsget (daemon_info_v1 xs ip port) ''status'' = JStr ''Online''
      \<and> plain r2 pl2"
  proof -
    from that have "tryDaemon_v1 (Suc (Suc (Suc n))) h w =
           Some (Resolved (daemon_info_v1 xs ip port),
                 (after_fetch (connect_rpc_v1 (daemon_info_v1 xs ip port)) r2 rest
                    (after_fetch (status_rpc hostId) r (Answer r2 # rest) w))
                   \<lparr>DAEMON_INFO := daemon_info_v1 xs ip port, CONNECT_ATTEMPTS := 1\<rparr>)"
      by (intro tryDaemon_v1_online[where pl = pl and ?pl2.0 = pl2]) simp_all
    moreover have "issued w ((after_fetch (connect_rpc_v1 (daemon_info_v1 xs ip port)) r2 rest
                    (after_fetch (status_rpc hostId) r (Answer r2 # rest) w))
                   \<lparr>DAEMON_INFO := daemon_info_v1 xs ip port, CONNECT_ATTEMPTS := 1\<rparr>)
        = [status_rpc hostId, connect_rpc_v1 (daemon_info_v1 xs ip port)]"
      by (simp add: issued_def)
    ultimately show ?thesis by simp
  qed
  have b3: "\<exists>w'. tryDaemon_v1 (Suc (length xss + Suc (Suc n))) h w =
                Some (Resolved (daemon_info_v1 ys JNull JNull), w')
         \<and> issued w w' =
             status_rpc hostId # start_rpc_v1 (daemon_info_v1 xs ip port)
             # map status_rpc (poll_ids (daemon_info_v1 xs ip port) (xss @ [ys]))
             @ [connect_rpc_v1 (daemon_info_v1 ys JNull JNull)]
         \<and> network w' = rest \<and> DAEMON_INFO w' = daemon_info_v1 ys JNull JNull"
    if "nonempty (SERVER_URL w) \<and> url_valid w (the (SERVER_URL w))
      \<and> elem h 0 = Some hostId \<and> elem h 1 = Some ip \<and> elem h 2 = Some port
      \<and> network w = Answer r # Answer r2 # polls_v1 (xss @ [ys]) (Answer r4 # rest)
      \<and> plain r pl \<and> p_result pl = JArr xs
      \<and> jsget (daemon_info_v1 xs ip port) ''status'' = JStr ''Offline''
      \<and> plain r2 pl2
      \<and> list_all (\<lambda>xs. jsget (daemon_info_v1 xs JNull JNull) ''status'' \<noteq> JStr ''Online'') xss
      \<and> jsget (daemon_info_v1 ys JNull JNull) ''status'' = JStr ''Online''
      \<and> CONNECT_ATTEMPTS w + length xss < 5
      \<and> plain r4 pl4"
    using that
      tryDaemon_v1_offline_connect[where w = w and h = h and hostId = hostId and ip = ip
        and port = port and r = r and ?r2.0 = r2 and xss = xss and ys = ys and ?r4.0 = r4
        and rest = rest and pl = pl and xs = xs and ?pl2.0 = pl2 and ?pl4.0 = pl4 and n = n]
    by blast
  have b4: "\<exists>w'. tryDaemon_v1 (Suc (length xss + n)) h w =
                Some (Rejected (Error ''Max connection attempts reached''), w')
         \<and> issued w w' =
             status_rpc hostId # start_rpc_v1 (daemon_info_v1 xs ip port)
             # map status_rpc (poll_ids (daemon_info_v1 xs ip port) xss)
         \<and> network w' = rest"
    if "nonempty (SERVER_URL w) \<and> url_valid w (the (SERVER_URL w))
      \<and> elem h 0 = Some hostId \<and> elem h 1 = Some ip \<and> elem h 2 = Some port
      \<and> network w = Answer r # Answer r2 # polls_v1 xss rest
      \<and> plain r pl \<and> p_result pl = JArr xs
      \<and> jsget (daemon_info_v1 xs ip port) ''status'' = JStr ''Offline''
      \<and> plain r2 pl2
      \<and> list_all (\<lambda>xs. jsget (daemon_info_v1 xs JNull JNull) ''status'' \<noteq> JStr ''Online'') xss
      \<and> length xss = 5 - CONNECT_ATTEMPTS w"
    using that
      tryDaemon_v1_offline_give_up[where w = w and h = h and hostId = hostId and ip = ip
        and port = port and r = r and ?r2.0 = r2 and xss = xss and rest = rest and pl = pl
        and xs = xs and ?pl2.0 = pl2 and n = n]
    by blast
  have i: "(A \<Longrightarrow> B) \<Longrightarrow> A \<longrightarrow> B" for A B by blast
  show ?thesis
    apply (rule conjI, rule i, erule a1)
    apply (rule conjI, rule i, erule a2)
    apply (rule conjI, rule i, erule k)
    apply (rule conjI, rule i, erule f1)
    apply (rule conjI, rule i, erule f2)
    apply (rule conjI, rule i, erule b1)
    apply (rule conjI, rule i, erule b2)
    apply (rule conjI, rule i, erule b3)
    apply (rule i, erule b4)
    done
qed

theorem locator_first_success_witness:
  "(\<exists>w2. getConnectedDaemon_v1 5
            (JArr [JArr [JStr ''a'', JStr ''10.0.0.1'', JNum 58846],
                   JArr [JStr ''b'', JStr ''10.0.0.2'', JNum 58846],
                   JArr [JStr ''c'', JStr ''10.0.0.3'', JNum 58846]])
            (configured JNull
               [server_error ''Unknown host'',
                answer (JArr [JStr ''b'', JStr ''Online'', JStr ''2.1.1'']),
                answer JNull])
          = Some (Resolved (JObj [(''host_id'', JStr ''b''), (''ip'', JStr ''10.0.0.2''),
                                  (''port'', JNum 58846), (''status'', JStr ''Online''),
                                  (''version'', JStr ''2.1.1'')]), w2)
        \<and> DAEMON_INFO w2 = JObj [(''host_id'', JStr ''b''), (''ip'', JStr ''10.0.0.2''),
                                  (''port'', JNum 58846), (''status'', JStr ''Online''),
                                  (''version'', JStr ''2.1.1'')])
   \<and> (\<exists>w2. getConnectedDaemon_v2 5
            (JArr [JArr [JStr ''a'', JStr ''10.0.0.1'', JNum 58846],
                   JArr [JStr ''b'', JStr ''10.0.0.2'', JNum 58846],
                   JArr [JStr ''c'', JStr ''10.0.0.3'', JNum 58846]])
            (configured JNull
               [server_error ''Unknown host'',
                answer (JArr [JStr ''Connected'', JStr ''2.1.1''])])
          = Some (Resolved (JObj [(''status'', JStr ''Connected''), (''info'', JStr ''2.1.1''),
                                  (''hostId'', JStr ''b''), (''host'', JNull)]), w2)
        \<and> DAEMON_INFO w2 = JObj [(''status'', JStr ''Connected''), (''info'', JStr ''2.1.1''),
                                  (''hostId'', JStr ''b''), (''host'', JNull)])
   \<and> getConnectedDaemon_v1 3 (JArr [JArr [JStr ''a'', JStr ''10.0.0.1'', JNum 58846]])
        ((configured JNull [])\<lparr>DAEMON_INFO := JObj [(''host_id'', JStr ''z'')]\<rparr>)
      = Some (Resolved (JObj [(''host_id'', JStr ''z'')]),
              (configured JNull [])\<lparr>DAEMON_INFO := JObj [(''host_id'', JStr ''z'')]\<rparr>)
   \<and> getConnectedDaemon_v2 3 (JArr [JArr [JStr ''a'', JStr ''10.0.0.1'', JNum 58846]])
        ((configured JNull [])\<lparr>DAEMON_INFO := JObj [(''host_id'', JStr ''z'')]\<rparr>)
      = Some (Resolved (JObj [(''host_id'', JStr ''z'')]),
              (configured JNull [])\<lparr>DAEMON_INFO := JObj [(''host_id'', JStr ''z'')]\<rparr>)
   \<and> (\<exists>e w1. getConnectedDaemon_v1 5 (JArr [JArr [JStr ''a'', JStr ''10.0.0.1'', JNum 58846]])
            (configured JNull [server_error ''Unknown host''])
          = Some (Rejected e, w1))
   \<and> (\<exists>e w1. getConnectedDaemon_v2 5 (JArr [JArr [JStr ''a'', JStr ''10.0.0.1'', JNum 58846]])
            (configured JNull [server_error ''Unknown host''])
          = Some (Rejected e, w1))
   \<and> (\<exists>w'. tryDaemon_v1 (Suc (Suc (Suc 0))) (JArr [JStr ''a'', JStr ''10.0.0.1'', JNum 58846])
            (configured JNull [answer (JArr [JStr ''a'', JStr ''Connected'', JStr ''2.1.1''])])
          = Some (Resolved (daemon_info_v1 [JStr ''a'', JStr ''Connected'', JStr ''2.1.1'']
                              (JStr ''10.0.0.1'') (JNum 58846)), w')
        \<and> issued (configured JNull [answer (JArr [JStr ''a'', JStr ''Connected'', JStr ''2.1.1''])]) w'
          = [\<lparr>rpc_method = ''web.get_host_status'', rpc_params = [JStr ''a'']\<rparr>])
   \<and> (\<exists>w'. tryDaemon_v1 (Suc (Suc (Suc 0))) (JArr [JStr ''a'', JStr ''10.0.0.1'', JNum 58846])
            (configured JNull [answer (JArr [JStr ''a'', JStr ''Online'', JStr ''2.1.1'']),
                               answer JNull])
          = Some (Resolved (daemon_info_v1 [JStr ''a'', JStr ''Online'', JStr ''2.1.1'']
                              (JStr ''10.0.0.1'') (JNum 58846)), w')
        \<and> issued (configured JNull [answer (JArr [JStr ''a'', JStr ''Online'', JStr ''2.1.1'']),
                                     answer JNull]) w'
          = [\<lparr>rpc_method = ''web.get_host_status'', rpc_params = [JStr ''a'']\<rparr>,
             \<lparr>rpc_method = ''web.connect'', rpc_params = [JStr ''a'']\<rparr>])
   \<and> (\<exists>w'. tryDaemon_v1 (Suc (Suc (Suc (Suc 0)))) (JArr [JStr ''a'', JStr ''10.0.0.1'', JNum 58846])
            (configured JNull [answer (JArr [JStr ''a'', JStr ''Offline'', JStr '''']),
                               answer JNull,
                               answer (JArr [JStr ''a'', JStr ''Offline'', JStr '''']),
                               answer (JArr [JStr ''a'', JStr ''Online'', JStr ''2.1.1'']),
                               answer JNull])
          = Some (Resolved (daemon_info_v1 [JStr ''a'', JStr ''Online'', JStr ''2.1.1'']
                              JNull JNull), w')
        \<and> issued (configured JNull [answer (JArr [JStr ''a'', JStr ''Offline'', JStr '''']),
                                     answer JNull,
                                     answer (JArr [JStr ''a'', JStr ''Offline'', JStr '''']),
                                     answer (JArr [JStr ''a'', JStr ''Online'', JStr ''2.1.1'']),
                                     answer JNull]) w'
          = [\<lparr>rpc_method = ''web.get_host_status'', rpc_params = [JStr ''a'']\<rparr>,
             \<lparr>rpc_method = ''web.start_daemon'', rpc_params = [JNum 58846]\<rparr>,
             \<lparr>rpc_method = ''web.get_host_status'', rpc_params = [JStr ''a'']\<rparr>,
             \<lparr>rpc_method = ''web.get_host_status'', rpc_params = [JStr ''a'']\<rparr>,
             \<lparr>rpc_method = ''web.connect'', rpc_params = [JStr ''a'']\<rparr>])
   \<and> (\<exists>w'. tryDaemon_v1 (Suc (Suc (Suc (Suc (Suc (Suc 0))))))
            (JArr [JStr ''a'', JStr ''10.0.0.1'', JNum 58846])
            (configured JNull [answer (JArr [JStr ''a'', JStr ''Offline'', JStr '''']),
                               answer JNull,
                               answer (JArr [JStr ''a'', JStr ''Offline'', JStr '''']),
                               answer (JArr [JStr ''a'', JStr ''Offline'', JStr '''']),
                               answer (JArr [JStr ''a'', JStr ''Offline'', JStr '''']),
                               answer (JArr [JStr ''a'', JStr ''Offline'', JStr '''']),
                               answer (JArr [JStr ''a'', JStr ''Offline'', JStr ''''])])
          = Some (Rejected (Error ''Max connection attempts reached''), w')
        \<and> issued (configured JNull [answer (JArr [JStr ''a'', JStr ''Offline'', JStr '''']),
                                     answer JNull,
                                     answer (JArr [JStr ''a'', JStr ''Offline'', JStr '''']),
                                     answer (JArr [JStr ''a'', JStr ''Offline'', JStr '''']),
                                     answer (JArr [JStr ''a'', JStr ''Offline'', JStr '''']),
                                     answer (JArr [JStr ''a'', JStr ''Offline'', JStr '''']),
                                     answer (JArr [JStr ''a'', JStr ''Offline'', JStr ''''])]) w'
          = [\<lparr>rpc_method = ''web.get_host_status'', rpc_params = [JStr ''a'']\<rparr>,
             \<lparr>rpc_method = ''web.start_daemon'', rpc_params = [JNum 58846]\<rparr>,
             \<lparr>rpc_method = ''web.get_host_status'', rpc_params = [JStr ''a'']\<rparr>,
             \<lparr>rpc_method = ''web.get_host_status'', rpc_params = [JStr ''a'']\<rparr>,
             \<lparr>rpc_method = ''web.get_host_status'', rpc_params = [JStr ''a'']\<rparr>,
             \<lparr>rpc_method = ''web.get_host_status'', rpc_params = [JStr ''a'']\<rparr>,
             \<lparr>rpc_method = ''web.get_host_status'', rpc_params = [JStr ''a'']\<rparr>])"
proof -
  let ?hA = "JArr [JStr ''a'', JStr ''10.0.0.1'', JNum 58846]"
  let ?hB = "JArr [JStr ''b'', JStr ''10.0.0.2'', JNum 58846]"
  let ?hC = "JArr [JStr ''c'', JStr ''10.0.0.3'', JNum 58846]"
  let ?pl = "\<lambda>v. \<lparr>p_error = None, p_result = v, p_status = JNull\<rparr>"
  let ?r = "\<lambda>v. \<lparr>status = 200, set_cookie = None, csrf_header = None, body = Some (?pl v)\<rparr>"
  let ?D1 = "JObj [(''host_id'', JStr ''b''), (''ip'', JStr ''10.0.0.2''),
                   (''port'', JNum 58846), (''status'', JStr ''Online''),
                   (''version'', JStr ''2.1.1'')]"
  let ?D2 = "JObj [(''status'', JStr ''Connected''), (''info'', JStr ''2.1.1''),
                   (''hostId'', JStr ''b''), (''host'', JNull)]"
  let ?W1 = "configured JNull
               [server_error ''Unknown host'',
                answer (JArr [JStr ''b'', JStr ''Online'', JStr ''2.1.1'']),
                answer JNull]"
  let ?W2 = "configured JNull
               [server_error ''Unknown host'',
                answer (JArr [JStr ''Connected'', JStr ''2.1.1''])]"
  have pl: "plain (?r v) (?pl v)" for v by (simp add: plain_def ok_def)
  have el: "elem ?hA 0 = Some (JStr ''a'')" "elem ?hA 1 = Some (JStr ''10.0.0.1'')"
    "elem ?hA 2 = Some (JNum 58846)"
    by simp_all
  have env: "nonempty (SERVER_URL (configured c rs))"
    "url_valid (configured c rs) (the (SERVER_URL (configured c rs)))"
    "CONNECT_ATTEMPTS (configured c rs) = 0"
    "\<not> truthy (jsget (DAEMON_INFO (configured c rs)) ''host_id'')"
    "network (configured c rs) = rs" for c rs
    by (simp_all add: configured_def DelugeConnection_def nonempty_def)
  have "case tryDaemon_v1 5 ?hA ?W1 of
          Some (Rejected e, w1) \<Rightarrow>
            (case tryDaemon_v1 5 ?hB w1 of Some (Resolved d, w2) \<Rightarrow> d = ?D1 | other \<Rightarrow> False)
        | other \<Rightarrow> False"
    by code_simp
  then obtain e w1 w2 where
    "tryDaemon_v1 5 ?hA ?W1 = Some (Rejected e, w1)"
    "tryDaemon_v1 5 ?hB w1 = Some (Resolved ?D1, w2)"
    by (elim case_rejectedE case_resolvedE) simp
  then have "fail_through (tryDaemon_v1 5) [?hA] ?W1 = Some w1"
    "tryDaemon_v1 5 ?hB w1 = Some (Resolved ?D1, w2)"
    by simp_all
  with env(4)[of JNull] locator_first_success[where w = ?W1 and n = 5 and pre = "[?hA]"
      and ?w1.0 = w1 and h = ?hB and d = ?D1 and ?w2.0 = w2 and post = "[?hC]",
      THEN conjunct1]
  have A: "\<exists>w2. getConnectedDaemon_v1 5 (JArr [?hA, ?hB, ?hC]) ?W1 = Some (Resolved ?D1, w2)
      \<and> DAEMON_INFO w2 = ?D1"
    by auto
  have "case tryDaemon_v2 5 ?hA ?W2 of
          Some (Rejected e, w1) \<Rightarrow>
            (case tryDaemon_v2 5 ?hB w1 of Some (Resolved d, w2) \<Rightarrow> d = ?D2 | other \<Rightarrow> False)
        | other \<Rightarrow> False"
    by code_simp
  then obtain e' w1' w2' where
    "tryDaemon_v2 5 ?hA ?W2 = Some (Rejected e', w1')"
    "tryDaemon_v2 5 ?hB w1' = Some (Resolved ?D2, w2')"
    by (elim case_rejectedE case_resolvedE) simp
  then have "fail_through (tryDaemon_v2 5) [?hA] ?W2 = Some w1'"
    "tryDaemon_v2 5 ?hB w1' = Some (Resolved ?D2, w2')"
    by simp_all
  with env(4)[of JNull] locator_first_success[where w = ?W2 and n = 5 and pre = "[?hA]"
      and ?w1.0 = w1' and h = ?hB and d = ?D2 and ?w2.0 = w2' and post = "[?hC]",
      THEN conjunct2, THEN conjunct1]
  have B: "\<exists>w2. getConnectedDaemon_v2 5 (JArr [?hA, ?hB, ?hC]) ?W2 = Some (Resolved ?D2, w2)
      \<and> DAEMON_INFO w2 = ?D2"
    by auto
  let ?K = "(configured JNull [])\<lparr>DAEMON_INFO := JObj [(''host_id'', JStr ''z'')]\<rparr>"
  have "truthy (jsget (DAEMON_INFO ?K) ''host_id'')" by simp
  with locator_first_success[where w = ?K and n = 3 and hosts = "JArr [?hA]",
      THEN conjunct2, THEN conjunct2, THEN conjunct1]
  have K: "getConnectedDaemon_v1 3 (JArr [?hA]) ?K = Some (Resolved (JObj [(''host_id'', JStr ''z'')]), ?K)
      \<and> getConnectedDaemon_v2 3 (JArr [?hA]) ?K = Some (Resolved (JObj [(''host_id'', JStr ''z'')]), ?K)"
    by simp
  let ?WF = "configured JNull [server_error ''Unknown host'']"
  have "case tryDaemon_v1 5 ?hA ?WF of Some (Rejected e, w1) \<Rightarrow> True | other \<Rightarrow> False"
    by code_simp
  then obtain e1 x1 where "tryDaemon_v1 5 ?hA ?WF = Some (Rejected e1, x1)"
    by (elim case_rejectedE)
  then have "fail_through (tryDaemon_v1 5) [?hA] ?WF = Some x1" by simp
  with env(4)[of JNull] locator_first_success[where w = ?WF and n = 5 and hs = "[?hA]"
      and ?w1.0 = x1, THEN conjunct2, THEN conjunct2, THEN conjunct2, THEN conjunct1]
  have F1: "\<exists>e w1. getConnectedDaemon_v1 5 (JArr [?hA]) ?WF = Some (Rejected e, w1)"
    by auto
  have "case tryDaemon_v2 5 ?hA ?WF of Some (Rejected e, w1) \<Rightarrow> True | other \<Rightarrow> False"
    by code_simp
  then obtain e2 x2 where "tryDaemon_v2 5 ?hA ?WF = Some (Rejected e2, x2)"
    by (elim case_rejectedE)
  then have "fail_through (tryDaemon_v2 5) [?hA] ?WF = Some x2" by simp
  with env(4)[of JNull] locator_first_success[where w = ?WF and n = 5 and hs = "[?hA]"
      and ?w1.0 = x2, THEN conjunct2, THEN conjunct2, THEN conjunct2, THEN conjunct2,
      THEN conjunct1]
  have F2: "\<exists>e w1. getConnectedDaemon_v2 5 (JArr [?hA]) ?WF = Some (Rejected e, w1)"
    by auto
  let ?xc = "[JStr ''a'', JStr ''Connected'', JStr ''2.1.1'']"
  let ?xo = "[JStr ''a'', JStr ''Online'', JStr ''2.1.1'']"
  let ?xf = "[JStr ''a'', JStr ''Offline'', JStr '''']"
  have st: "jsget (daemon_info_v1 ?xc (JStr ''10.0.0.1'') (JNum 58846)) ''status'' = JStr ''Connected''"
    "jsget (daemon_info_v1 ?xo (JStr ''10.0.0.1'') (JNum 58846)) ''status'' = JStr ''Online''"
    "jsget (daemon_info_v1 ?xf (JStr ''10.0.0.1'') (JNum 58846)) ''status'' = JStr ''Offline''"
    "jsget (daemon_info_v1 ?xo JNull JNull) ''status'' = JStr ''Online''"
    "jsget (daemon_info_v1 ?xf JNull JNull) ''status'' \<noteq> JStr ''Online''"
    by (simp_all add: daemon_info_v1_def)
  have ids: "jsget (daemon_info_v1 ?xo (JStr ''10.0.0.1'') (JNum 58846)) ''host_id'' = JStr ''a''"
    "jsget (daemon_info_v1 ?xf (JStr ''10.0.0.1'') (JNum 58846)) ''host_id'' = JStr ''a''"
    "jsget (daemon_info_v1 ?xf (JStr ''10.0.0.1'') (JNum 58846)) ''port'' = JNum 58846"
    "jsget (daemon_info_v1 ?xo JNull JNull) ''host_id'' = JStr ''a''"
    "jsget (daemon_info_v1 ?xf JNull JNull) ''host_id'' = JStr ''a''"
    by (simp_all add: daemon_info_v1_def)
  let ?W3 = "configured JNull [answer (JArr ?xc)]"
  have "network ?W3 = Answer (?r (JArr ?xc)) # []" by (simp add: env answer_def)
  with env(1,2)[of JNull] el pl st(1)
    locator_first_success[where w = ?W3 and n = 0 and h = ?hA and hostId = "JStr ''a''"
      and ip = "JStr ''10.0.0.1''" and port = "JNum 58846" and r = "?r (JArr ?xc)" and rest = "[]"
      and pl = "?pl (JArr ?xc)" and xs = ?xc,
      THEN conjunct2, THEN conjunct2, THEN conjunct2, THEN conjunct2, THEN conjunct2,
      THEN conjunct1]
  have C: "\<exists>w'. tryDaemon_v1 (Suc (Suc (Suc 0))) ?hA ?W3
          = Some (Resolved (daemon_info_v1 ?xc (JStr ''10.0.0.1'') (JNum 58846)), w')
        \<and> issued ?W3 w' = [status_rpc (JStr ''a'')]
        \<and> network w' = []"
    by simp
  let ?W4 = "configured JNull [answer (JArr ?xo), answer JNull]"
  have "network ?W4 = Answer (?r (JArr ?xo)) # Answer (?r JNull) # []" by (simp add: env answer_def)
  with env(1,2)[of JNull] el pl st(2)
    locator_first_success[where w = ?W4 and n = 0 and h = ?hA and hostId = "JStr ''a''"
      and ip = "JStr ''10.0.0.1''" and port = "JNum 58846" and r = "?r (JArr ?xo)"
      and ?r2.0 = "?r JNull" and rest = "[]"
      and pl = "?pl (JArr ?xo)" and ?pl2.0 = "?pl JNull" and xs = ?xo,
      THEN conjunct2, THEN conjunct2, THEN conjunct2, THEN conjunct2, THEN conjunct2,
      THEN conjunct2, THEN conjunct1]
  have D: "\<exists>w'. tryDaemon_v1 (Suc (Suc (Suc 0))) ?hA ?W4
          = Some (Resolved (daemon_info_v1 ?xo (JStr ''10.0.0.1'') (JNum 58846)), w')
        \<and> issued ?W4 w' = [status_rpc (JStr ''a''),
             connect_rpc_v1 (daemon_info_v1 ?xo (JStr ''10.0.0.1'') (JNum 58846))]
        \<and> network w' = []"
    by simp
  let ?W5 = "configured JNull [answer (JArr ?xf), answer JNull, answer (JArr ?xf),
                               answer (JArr ?xo), answer JNull]"
  have "network ?W5 = Answer (?r (JArr ?xf)) # Answer (?r JNull)
      # polls_v1 ([?xf] @ [?xo]) (Answer (?r JNull) # [])"
    "CONNECT_ATTEMPTS ?W5 + length [?xf] < 5"
    "list_all (\<lambda>xs. jsget (daemon_info_v1 xs JNull JNull) ''status'' \<noteq> JStr ''Online'') [?xf]"
    by (simp_all add: env answer_def st(5))
  with env(1,2)[of JNull] el pl st(3,4)
    locator_first_success[where w = ?W5 and n = 0 and h = ?hA and hostId = "JStr ''a''"
      and ip = "JStr ''10.0.0.1''" and port = "JNum 58846" and r = "?r (JArr ?xf)"
      and ?r2.0 = "?r JNull" and xss = "[?xf]" and ys = ?xo and ?r4.0 = "?r JNull" and rest = "[]"
      and pl = "?pl (JArr ?xf)" and ?pl2.0 = "?pl JNull" and ?pl4.0 = "?pl JNull" and xs = ?xf,
      THEN conjunct2, THEN conjunct2, THEN conjunct2, THEN conjunct2, THEN conjunct2,
      THEN conjunct2, THEN conjunct2, THEN conjunct1]
  have E: "\<exists>w'. tryDaemon_v1 (Suc (Suc (Suc (Suc 0)))) ?hA ?W5
          = Some (Resolved (daemon_info_v1 ?xo JNull JNull), w')
        \<and> issued ?W5 w' = [status_rpc (JStr ''a''),
             start_rpc_v1 (daemon_info_v1 ?xf (JStr ''10.0.0.1'') (JNum 58846)),
             status_rpc (JStr ''a''), status_rpc (JStr ''a''),
             connect_rpc_v1 (daemon_info_v1 ?xo JNull JNull)]
        \<and> network w' = [] \<and> DAEMON_INFO w' = daemon_info_v1 ?xo JNull JNull"
    by (simp add: ids)
  let ?W6 = "configured JNull [answer (JArr ?xf), answer JNull, answer (JArr ?xf),
                               answer (JArr ?xf), answer (JArr ?xf), answer (JArr ?xf),
                               answer (JArr ?xf)]"
  have "network ?W6 = Answer (?r (JArr ?xf)) # Answer (?r JNull)
      # polls_v1 [?xf, ?xf, ?xf, ?xf, ?xf] []"
    "length [?xf, ?xf, ?xf, ?xf, ?xf] = 5 - CONNECT_ATTEMPTS ?W6"
    "list_all (\<lambda>xs. jsget (daemon_info_v1 xs JNull JNull) ''status'' \<noteq> JStr ''Online'')
       [?xf, ?xf, ?xf, ?xf, ?xf]"
    by (simp_all add: env answer_def st(5))
  with env(1,2)[of JNull] el pl st(3)
    locator_first_success[where w = ?W6 and n = 0 and h = ?hA and hostId = "JStr ''a''"
      and ip = "JStr ''10.0.0.1''" and port = "JNum 58846" and r = "?r (JArr ?xf)"
      and ?r2.0 = "?r JNull" and xss = "[?xf, ?xf, ?xf, ?xf, ?xf]" and rest = "[]"
      and pl = "?pl (JArr ?xf)" and ?pl2.0 = "?pl JNull" and xs = ?xf,
      THEN conjunct2, THEN conjunct2, THEN conjunct2, THEN conjunct2, THEN conjunct2,
      THEN conjunct2, THEN conjunct2, THEN conjunct2]
  have G: "\<exists>w'. tryDaemon_v1 (Suc (Suc (Suc (Suc (Suc (Suc 0)))))) ?hA ?W6
          = Some (Rejected (Error ''Max connection attempts reached''), w')
        \<and> issued ?W6 w' = [status_rpc (JStr ''a''),
             start_rpc_v1 (daemon_info_v1 ?xf (JStr ''10.0.0.1'') (JNum 58846)),
             status_rpc (JStr ''a''), status_rpc (JStr ''a''), status_rpc (JStr ''a''),
             status_rpc (JStr ''a''), status_rpc (JStr ''a'')]
        \<and> network w' = []"
    by (simp add: ids)
  have rp: "status_rpc (JStr ''a'') = \<lparr>rpc_method = ''web.get_host_status'', rpc_params = [JStr ''a'']\<rparr>"
    "start_rpc_v1 (daemon_info_v1 ?xf (JStr ''10.0.0.1'') (JNum 58846))
       = \<lparr>rpc_method = ''web.start_daemon'', rpc_params = [JNum 58846]\<rparr>"
    "connect_rpc_v1 (daemon_info_v1 ?xo (JStr ''10.0.0.1'') (JNum 58846))
       = \<lparr>rpc_method = ''web.connect'', rpc_params = [JStr ''a'']\<rparr>"
    "connect_rpc_v1 (daemon_info_v1 ?xo JNull JNull)
       = \<lparr>rpc_method = ''web.connect'', rpc_params = [JStr ''a'']\<rparr>"
    by (simp_all add: status_rpc_def start_rpc_v1_def connect_rpc_v1_def ids)
  from A B K F1 F2 C D E G show ?thesis
    unfolding rp by blast
qed

subsection \<open>A 403 from the site that hosts the torrent\<close>

text \<open>
  Claim C4, at a failing input. The caller supplied a site cookie and the panel reports
  that the site answered 403. The first generation rejects with its own error for this
  case. The second generation rejects with the panel's message as it came, the error of
  any failed call: the dedicated error of \<open>_addTorrentViaUrl\<close> (code 403) is never built,
  because \<open>_request\<close> has already thrown. Neither generation attempts a download.
\<close>

theorem addTorrent_site_403:
  "(case addTorrent_v2 6 ''http://tracker.example/file.torrent'' (Some [(''session'', ''abc'')])
           None None
           (configured JNull
              [answer (JBool True), answer (JBool True),
               answer (JObj [(''allow_remote'', JBool True)]),
               server_error ''Failed to download: 403 Forbidden'']) of
      Some (Rejected e, w') \<Rightarrow>
        e = Error ''Failed to download: 403 Forbidden''
        \<and> code e = None
        \<and> list_all (\<lambda>ev. case ev of Download u \<Rightarrow> False | other \<Rightarrow> True) (trace w')
    | other \<Rightarrow> False)
   \<and> (case addTorrent_v1 6 ''http://tracker.example/file.torrent'' (Some ''tracker.example'')
           None None
           ((configured (JBool True)
              [answer (JBool True), answer (JBool True),
               answer (JObj [(''allow_remote'', JBool True)]),
               server_error ''Failed to download: 403 Forbidden''])
            \<lparr>cookie_store := (\<lambda>u d. ''session=abc'')\<rparr>) of
      Some (Rejected e, w') \<Rightarrow>
        e = Error ''Remote server denied access - the site may require authentication''
        \<and> list_all (\<lambda>ev. case ev of Download u \<Rightarrow> False | other \<Rightarrow> True) (trace w')
    | other \<Rightarrow> False)"
  by code_simp

subsection \<open>The URL of an add-torrent call\<close>

lemma carries_url_session: "session_call q \<Longrightarrow> carries_url u q"
  by (auto simp: session_call_def carries_url_def)

lemma carries_url_connect: "connect_call q \<Longrightarrow> carries_url u q"
  by (auto simp: connect_call_def carries_url_def)

lemma carries_url_own:
  "rpc_method p = ''core.add_torrent_url'' \<Longrightarrow> rpc_params p = JStr u # rest \<Longrightarrow>
   own_or_session p q \<Longrightarrow> carries_url u q"
  by (auto simp: own_or_session_def carries_url_session) (simp add: carries_url_def)

lemma sound_addTorrent_response:
  "p_error v = None \<Longrightarrow> sound A (addTorrent_response retry v)"
  by (simp add: addTorrent_response_def sound_Error sound_resolve)

lemma sound_addTorrentViaUrl_v1: "sound (carries_url u) (addTorrentViaUrl_v1 n u params)"
  unfolding addTorrentViaUrl_v1_def
  by (intro sound_then_clean clean_request_v1 sound_addTorrent_response
        sound_mono[OF sound_request_v1] carries_url_own[where rest = "[JObj params]"])
     simp_all

lemma sound_addTorrentViaUrl_v2: "sound (carries_url u) (addTorrentViaUrl_v2 n u params)"
  unfolding addTorrentViaUrl_v2_def Let_def
  by (intro sound_then_clean clean_request_v2 sound_addTorrent_response
        sound_mono[OF sound_request_v2] carries_url_own) simp_all

lemma sound_addTorrentUrlToServer_v1:
  "sound (carries_url (if startsWith u ''magnet:'' then u else encodeURI u))
     (addTorrentUrlToServer_v1 n u options cookie_domain)"
  unfolding sound_def
proof (intro allI impI)
  fix w r w'
  let ?A = "carries_url (if startsWith u ''magnet:'' then u else encodeURI u)"
  assume h: "addTorrentUrlToServer_v1 n u options cookie_domain w = Some (r, w')"
  have c: "sound ?A (catch_p (addTorrentViaUrl_v1 n (encodeURI u) ps)
             (\<lambda>error w1.
                if code error = Some 403 \<and> ch \<noteq> [] then
                  pending (w1\<lparr>trace := trace w1 @ [Download (encodeURI u)]\<rparr>)
                else reject error w1))" if "\<not> startsWith u ''magnet:''" for ps ch
    using that
    by (intro sound_catch) (simp_all add: sound_addTorrentViaUrl_v1 sound_reject)
  show "grows ?A w w' \<and> r \<noteq> Pending \<and> (\<forall>e. r = Rejected e \<longrightarrow> code e = None)"
  proof (cases "startsWith u ''magnet:''")
    case True
    with h have "addTorrentViaUrl_v1 n u (build_params options) w = Some (r, w')"
      by (simp add: addTorrentUrlToServer_v1_def Let_def)
    from soundD[OF sound_addTorrentViaUrl_v1 this] True show ?thesis by simp
  next
    case False
    with h soundD[OF c[OF False]] show ?thesis
      by (simp add: addTorrentUrlToServer_v1_def Let_def)
  qed
qed

lemma sound_addTorrentUrlToServer_v2:
  assumes "storage_send_cookies w \<noteq> JBool False \<or> startsWith u ''magnet:''" and "cookies \<noteq> None \<or> startsWith u ''magnet:''"
    and "addTorrentUrlToServer_v2 n u options cookies w = Some (r, w')"
  shows "grows (carries_url (if startsWith u ''magnet:'' then u else encodeURI u)) w w'
         \<and> r \<noteq> Pending \<and> (\<forall>e. r = Rejected e \<longrightarrow> code e = None)"
proof (cases "startsWith u ''magnet:''")
  case True
  with assms(3) have "addTorrentViaUrl_v2 n u (build_params options) w = Some (r, w')"
    by (simp add: addTorrentUrlToServer_v2_def Let_def)
  from soundD[OF sound_addTorrentViaUrl_v2 this] True show ?thesis by simp
next
  case False
  with assms obtain cs where cs: "cookies = Some cs" by auto
  let ?ps = "if join_cookies cs \<noteq> []
       then jsset (build_params options) ''cookie'' (JStr (join_cookies cs))
       else build_params options"
  from False assms cs have "addTorrentViaUrl_v2 n (encodeURI u) ?ps w = Some (r, w')"
    by (simp add: addTorrentUrlToServer_v2_def Let_def catch_rethrow)
  from soundD[OF sound_addTorrentViaUrl_v2 this] False show ?thesis by simp
qed

lemma encode_char_length: "1 \<le> length (encode_char c)"
  by (simp add: encode_char_def pct_def Let_def)

lemma encode_percent_length: "length (encode_char CHR ''%'') = 3"
  by (simp add: encode_char_def pct_def uri_unescaped_def Let_def)

lemma encodeURI_length: "length u \<le> length (encodeURI u)"
proof (induction u)
  case Nil
  show ?case by (simp add: encodeURI_def)
next
  case (Cons c u)
  with encode_char_length[of c] show ?case by (simp add: encodeURI_def)
qed

lemma encodeURI_percent_grows: "CHR ''%'' \<in> set u \<Longrightarrow> length u < length (encodeURI u)"
proof (induction u)
  case Nil
  then show ?case by simp
next
  case (Cons c u)
  show ?case
  proof (cases "c = CHR ''%''")
    case True
    with encodeURI_length[of u] encode_percent_length show ?thesis
      by (simp add: encodeURI_def)
  next
    case False
    with Cons have "length u < length (encodeURI u)" by simp
    with encode_char_length[of c] show ?thesis by (simp add: encodeURI_def)
  qed
qed

lemma addTorrentViaUrl_v1_sends:
  assumes "nonempty (SERVER_URL w)" and "url_valid w (the (SERVER_URL w))"
    and "network w = Answer r # rest" and "plain r pl" and "p_result pl \<noteq> JBool False"
  shows "addTorrentViaUrl_v1 (Suc n) v ps w =
           Some (Resolved (p_result pl),
                 after_fetch \<lparr>rpc_method = ''core.add_torrent_url'',
                              rpc_params = [JStr v, JObj ps]\<rparr> r rest w)"
proof -
  let ?c = "\<lparr>rpc_method = ''core.add_torrent_url'', rpc_params = [JStr v, JObj ps]\<rparr>"
  from assms have "request_v1 (Suc n) ''addtorrent'' ?c False w
      = Some (Resolved pl, after_fetch ?c r rest w)"
    by (intro request_v1_ok) (simp_all add: plain_def)
  note t = then_resolved[where p = "request_v1 (Suc n) ''addtorrent'' ?c False", OF this]
  from assms(4,5) show ?thesis
    unfolding addTorrentViaUrl_v1_def
    by (simp add: t addTorrent_response_def resolve_def plain_def)
qed

lemma addTorrentViaUrl_v2_sends:
  assumes "nonempty (SERVER_URL w)" and "url_valid w (the (SERVER_URL w))"
    and "network w = Answer r # rest" and "plain r pl" and "p_result pl \<noteq> JBool False"
  shows "\<exists>ps' hs. addTorrentViaUrl_v2 (Suc n) v ps w =
           Some (Resolved (p_result pl),
                 after_fetch \<lparr>rpc_method = ''core.add_torrent_url'',
                              rpc_params = [JStr v, JObj ps', JObj hs]\<rparr> r rest w)"
proof -
  have step: "then_p
        (request_v2 (Suc n) ''core.add_torrent_url''
           \<lparr>rpc_method = ''core.add_torrent_url'', rpc_params = [JStr v, JObj ps', JObj hs]\<rparr> False)
        (addTorrent_response retry) w
      = Some (Resolved (p_result pl),
              after_fetch \<lparr>rpc_method = ''core.add_torrent_url'',
                           rpc_params = [JStr v, JObj ps', JObj hs]\<rparr> r rest w)"
    for ps' hs retry
  proof -
    let ?c = "\<lparr>rpc_method = ''core.add_torrent_url'', rpc_params = [JStr v, JObj ps', JObj hs]\<rparr>"
    from assms have "request_v2 (Suc n) ''core.add_torrent_url'' ?c False w
        = Some (Resolved pl, after_fetch ?c r rest w)"
      by (intro request_v2_ok) (simp_all add: plain_def)
    note t = then_resolved[where p = "request_v2 (Suc n) ''core.add_torrent_url'' ?c False", OF this]
    from assms(4,5) show ?thesis
      by (simp add: t addTorrent_response_def resolve_def plain_def)
  qed
  show ?thesis
  proof (cases "truthy (jsget (JObj ps) ''cookie'')")
    case True
    then have "addTorrentViaUrl_v2 (Suc n) v ps w =
        Some (Resolved (p_result pl),
              after_fetch \<lparr>rpc_method = ''core.add_torrent_url'',
                           rpc_params = [JStr v, JObj (jsdelete ps ''cookie''),
                                         JObj [(''Cookie'', jsget (JObj ps) ''cookie'')]]\<rparr> r rest w)"
      unfolding addTorrentViaUrl_v2_def Let_def by (simp only: if_True step)
    then show ?thesis by blast
  next
    case False
    then have "addTorrentViaUrl_v2 (Suc n) v ps w =
        Some (Resolved (p_result pl),
              after_fetch \<lparr>rpc_method = ''core.add_torrent_url'',
                           rpc_params = [JStr v, JObj ps, JObj []]\<rparr> r rest w)"
      unfolding addTorrentViaUrl_v2_def Let_def by (simp only: if_False step)
    then show ?thesis by blast
  qed
qed

lemma addTorrentUrlToServer_v1_sends:
  assumes "nonempty (SERVER_URL w)" and "url_valid w (the (SERVER_URL w))"
    and "network w = Answer r # rest" and "plain r pl" and "p_result pl \<noteq> JBool False"
  shows "\<exists>ps. addTorrentUrlToServer_v1 (Suc n) u options cookie_domain w =
           Some (Resolved (p_result pl),
                 after_fetch \<lparr>rpc_method = ''core.add_torrent_url'',
                              rpc_params = [JStr (if startsWith u ''magnet:'' then u else encodeURI u),
                                            JObj ps]\<rparr> r rest w)"
proof (cases "startsWith u ''magnet:''")
  case True
  with addTorrentViaUrl_v1_sends[OF assms, of n u "build_params options"] show ?thesis
    by (intro exI[where x = "build_params options"]) (simp add: addTorrentUrlToServer_v1_def Let_def)
next
  case False
  let ?ch = "case cookie_domain of
               None \<Rightarrow> []
             | Some d \<Rightarrow> (if d = [] then []
                          else (case map_of (COOKIES w) d of None \<Rightarrow> [] | Some c \<Rightarrow> c))"
  let ?ps = "if storage_send_cookies w \<noteq> JBool False \<and> ?ch \<noteq> []
             then jsset (build_params options) ''cookie'' (JStr ?ch) else build_params options"
  note a = addTorrentViaUrl_v1_sends[OF assms, of n "encodeURI u" ?ps]
  from False have "addTorrentUrlToServer_v1 (Suc n) u options cookie_domain w =
      Some (Resolved (p_result pl),
            after_fetch \<lparr>rpc_method = ''core.add_torrent_url'',
                         rpc_params = [JStr (encodeURI u), JObj ?ps]\<rparr> r rest w)"
    unfolding addTorrentUrlToServer_v1_def Let_def
    by (simp add: catch_resolved[where p = "addTorrentViaUrl_v1 (Suc n) (encodeURI u) ?ps", OF a])
  with False show ?thesis by (intro exI[where x = ?ps]) simp
qed

lemma addTorrentUrlToServer_v2_sends:
  assumes "nonempty (SERVER_URL w)" and "url_valid w (the (SERVER_URL w))"
    and "network w = Answer r # rest" and "plain r pl" and "p_result pl \<noteq> JBool False"
    and "startsWith u ''magnet:'' \<or> (storage_send_cookies w \<noteq> JBool False \<and> cookies \<noteq> None)"
  shows "\<exists>ps hs. addTorrentUrlToServer_v2 (Suc n) u options cookies w =
           Some (Resolved (p_result pl),
                 after_fetch \<lparr>rpc_method = ''core.add_torrent_url'',
                              rpc_params = [JStr (if startsWith u ''magnet:'' then u else encodeURI u),
                                            JObj ps, JObj hs]\<rparr> r rest w)"
proof (cases "startsWith u ''magnet:''")
  case True
  with addTorrentViaUrl_v2_sends[OF assms(1-5), of n u "build_params options"] show ?thesis
    by (simp add: addTorrentUrlToServer_v2_def Let_def)
next
  case False
  with assms(6) obtain cs where cs: "cookies = Some cs" and sc: "storage_send_cookies w \<noteq> JBool False"
    by auto
  let ?ps = "if join_cookies cs \<noteq> []
             then jsset (build_params options) ''cookie'' (JStr (join_cookies cs))
             else build_params options"
  from addTorrentViaUrl_v2_sends[OF assms(1-5), of n "encodeURI u" ?ps] obtain ps' hs where
    a: "addTorrentViaUrl_v2 (Suc n) (encodeURI u) ?ps w =
          Some (Resolved (p_result pl),
                after_fetch \<lparr>rpc_method = ''core.add_torrent_url'',
                             rpc_params = [JStr (encodeURI u), JObj ps', JObj hs]\<rparr> r rest w)"
    by blast
  from False cs sc have "addTorrentUrlToServer_v2 (Suc n) u options cookies w =
      addTorrentViaUrl_v2 (Suc n) (encodeURI u) ?ps w"
    by (simp add: addTorrentUrlToServer_v2_def Let_def catch_rethrow)
  with a False show ?thesis by (intro exI[where x = ps'] exI[where x = hs]) simp
qed

lemma getDomainCookies_v1_step:
  "\<exists>c w'. getDomainCookies_v1 u d w = Some (Resolved c, w')
     \<and> trace w' = trace w \<and> network w' = network w \<and> SERVER_URL w' = SERVER_URL w
     \<and> url_valid w' = url_valid w"
  by (simp add: getDomainCookies_v1_def resolve_def split: option.splits)

lemma connect_calls_not_add:
  assumes "grows connect_call w w1"
  shows "list_all (\<lambda>q. rpc_method q \<noteq> ''core.add_torrent_url'') (issued w w1)"
proof -
  from grows_issued[OF assms] have "list_all connect_call (issued w w1)" .
  then show ?thesis by (auto simp: list_all_iff connect_call_def)
qed

lemma addTorrent_v1_sends:
  assumes "nonempty (SERVER_URL w)" and "connect_v1 (Suc n) False w = Some (Resolved v, w1)"
    and "nonempty (SERVER_URL w1)" and "url_valid w1 (the (SERVER_URL w1))"
    and "network w1 = Answer r # rest" and "plain r pl" and "p_result pl \<noteq> JBool False"
    and "plugins = None \<or> plugins = Some []"
  shows "\<exists>ps w'. addTorrent_v1 (Suc n) u cookie_domain plugins options w
                    = Some (Resolved (p_result pl), w')
           \<and> issued w w' = issued w w1 @
               [\<lparr>rpc_method = ''core.add_torrent_url'',
                 rpc_params = [JStr (if startsWith u ''magnet:'' then u else encodeURI u), JObj ps]\<rparr>]
           \<and> list_all (\<lambda>q. rpc_method q \<noteq> ''core.add_torrent_url'') (issued w w1)
           \<and> network w' = rest"
proof -
  let ?U = "if startsWith u ''magnet:'' then u else encodeURI u"
  from soundD[OF sound_connect_v1 assms(2)] have g: "grows connect_call w w1" by blast
  then obtain evs where evs: "trace w1 = trace w @ evs" unfolding grows_def by blast
  from getDomainCookies_v1_step[of u cookie_domain w1] obtain c w2 where
    d: "getDomainCookies_v1 u cookie_domain w1 = Some (Resolved c, w2)"
    and f: "trace w2 = trace w1" "network w2 = network w1" "SERVER_URL w2 = SERVER_URL w1"
      "url_valid w2 = url_valid w1"
    by blast
  from assms(3-5) f have e2: "nonempty (SERVER_URL w2)" "url_valid w2 (the (SERVER_URL w2))"
    "network w2 = Answer r # rest"
    by simp_all
  from addTorrentUrlToServer_v1_sends[OF e2 assms(6,7), of n u options cookie_domain]
  obtain ps where a: "addTorrentUrlToServer_v1 (Suc n) u options cookie_domain w2 =
      Some (Resolved (p_result pl),
            after_fetch \<lparr>rpc_method = ''core.add_torrent_url'',
                         rpc_params = [JStr ?U, JObj ps]\<rparr> r rest w2)"
    by blast
  let ?w' = "after_fetch \<lparr>rpc_method = ''core.add_torrent_url'',
                          rpc_params = [JStr ?U, JObj ps]\<rparr> r rest w2"
  from assms(1,2,8) d a have "addTorrent_v1 (Suc n) u cookie_domain plugins options w
      = Some (Resolved (p_result pl), ?w')"
    by (auto simp: addTorrent_v1_def catch_rethrow then_p_def resolve_def)
  moreover from evs f(1) have "issued w ?w' = issued w w1 @
      [\<lparr>rpc_method = ''core.add_torrent_url'', rpc_params = [JStr ?U, JObj ps]\<rparr>]"
    by (simp add: issued_def calls_append)
  moreover have "network ?w' = rest" by simp
  ultimately show ?thesis using connect_calls_not_add[OF g] by blast
qed

lemma addTorrent_v2_sends:
  assumes "nonempty (SERVER_URL w)" and "connect_v2 (Suc n) False w = Some (Resolved v, w1)"
    and "nonempty (SERVER_URL w1)" and "url_valid w1 (the (SERVER_URL w1))"
    and "network w1 = Answer r # rest" and "plain r pl" and "p_result pl \<noteq> JBool False"
    and "plugins = None \<or> plugins = Some []"
    and "startsWith u ''magnet:'' \<or> (storage_send_cookies w \<noteq> JBool False \<and> cookies \<noteq> None)"
  shows "\<exists>ps hs w'. addTorrent_v2 (Suc n) u cookies plugins options w
                    = Some (Resolved (p_result pl), w')
           \<and> issued w w' = issued w w1 @
               [\<lparr>rpc_method = ''core.add_torrent_url'',
                 rpc_params = [JStr (if startsWith u ''magnet:'' then u else encodeURI u),
                               JObj ps, JObj hs]\<rparr>]
           \<and> list_all (\<lambda>q. rpc_method q \<noteq> ''core.add_torrent_url'') (issued w w1)
           \<and> network w' = rest"
proof -
  let ?U = "if startsWith u ''magnet:'' then u else encodeURI u"
  from soundD[OF sound_connect_v2 assms(2)] have g: "grows connect_call w w1" by blast
  then obtain evs where evs: "trace w1 = trace w @ evs" unfolding grows_def by blast
  from g have "storage_send_cookies w1 = storage_send_cookies w" unfolding grows_def by blast
  with assms(9) have
    c: "startsWith u ''magnet:'' \<or> (storage_send_cookies w1 \<noteq> JBool False \<and> cookies \<noteq> None)"
    by simp
  from addTorrentUrlToServer_v2_sends[OF assms(3-7) c, of n options]
  obtain ps hs where a: "addTorrentUrlToServer_v2 (Suc n) u options cookies w1 =
      Some (Resolved (p_result pl),
            after_fetch \<lparr>rpc_method = ''core.add_torrent_url'',
                         rpc_params = [JStr ?U, JObj ps, JObj hs]\<rparr> r rest w1)"
    by blast
  let ?w' = "after_fetch \<lparr>rpc_method = ''core.add_torrent_url'',
                          rpc_params = [JStr ?U, JObj ps, JObj hs]\<rparr> r rest w1"
  from assms(1,2,8) a have "addTorrent_v2 (Suc n) u cookies plugins options w
      = Some (Resolved (p_result pl), ?w')"
    by (auto simp: addTorrent_v2_def catch_rethrow then_p_def resolve_def)
  moreover from evs have "issued w ?w' = issued w w1 @
      [\<lparr>rpc_method = ''core.add_torrent_url'', rpc_params = [JStr ?U, JObj ps, JObj hs]\<rparr>]"
    by (simp add: issued_def calls_append)
  moreover have "network ?w' = rest" by simp
  ultimately show ?thesis using connect_calls_not_add[OF g] by blast
qed

text \<open>
  The claim (C5) fails at an already percent-encoded URI: the second generation submits
  \<open>my%20file\<close> as \<open>my%2520file\<close>, from \<open>_addTorrentUrlToServer\<close> and from \<open>addTorrent\<close>.
\<close>

theorem addTorrent_encoded_url_counterexample:
  "(case addTorrentUrlToServer_v2 5 ''http://tracker.example/my%20file.torrent'' None (Some [])
           (configured JNull [answer (JStr ''c0ffee'')]) of
      Some (Resolved v, w') \<Rightarrow>
        calls (trace w') =
          [\<lparr>rpc_method = ''core.add_torrent_url'',
            rpc_params = [JStr ''http://tracker.example/my%2520file.torrent'', JObj [], JObj []]\<rparr>]
    | other \<Rightarrow> False)
   \<and> (case addTorrent_v2 6 ''http://tracker.example/my%20file.torrent'' (Some []) None None
           (configured JNull
              [answer (JBool True), answer (JBool True),
               answer (JObj [(''allow_remote'', JBool True)]), answer (JStr ''c0ffee'')]) of
      Some (Resolved v, w') \<Rightarrow>
        calls (trace w') =
          [\<lparr>rpc_method = ''auth.check_session'', rpc_params = []\<rparr>,
           \<lparr>rpc_method = ''web.connected'', rpc_params = []\<rparr>,
           \<lparr>rpc_method = ''core.get_config'', rpc_params = []\<rparr>,
           \<lparr>rpc_method = ''core.add_torrent_url'',
            rpc_params = [JStr ''http://tracker.example/my%2520file.torrent'', JObj [], JObj []]\<rparr>]
    | other \<Rightarrow> False)"
  by code_simp

text \<open>
  Claim C5, amended. For every URI \<open>u\<close> passed to \<open>addTorrent\<close> (a string of code units
  below 256, as all strings are here), in either generation:
  every add-torrent call that \<open>_addTorrentUrlToServer\<close> issues carries \<open>u\<close> unchanged when
  it starts with \<open>magnet:\<close> and \<open>encodeURI u\<close> otherwise, whether or not \<open>u\<close> was
  percent-encoded before, and \<open>encodeURI\<close> lengthens every URI that contains a percent
  sign, since it escapes the sign itself. The call is submitted: on a client whose panel
  answers the call with a payload without an error, \<open>_addTorrentUrlToServer\<close> issues
  exactly one call, the add-torrent call with that URI as its first parameter; and
  \<open>addTorrent\<close> (without plugin options), once \<open>_connect\<close> has resolved, issues after the
  calls of \<open>_connect\<close>, none of which is an add-torrent call, exactly that one call. (In the
  second generation a URI that is not a magnet link is submitted when \<open>send_cookies\<close> is
  not \<open>false\<close> and a cookie object was passed.)
\<close>

theorem addTorrent_url_encoding:
  "(addTorrentUrlToServer_v1 n u options cookie_domain w = Some (r, w') \<longrightarrow>
      list_all (carries_url (if startsWith u ''magnet:'' then u else encodeURI u)) (issued w w'))
   \<and> (addTorrentUrlToServer_v2 n u options cookies w = Some (r, w') \<longrightarrow>
      list_all (carries_url (if startsWith u ''magnet:'' then u else encodeURI u)) (issued w w'))
   \<and> (CHR ''%'' \<in> set u \<longrightarrow> length u < length (encodeURI u))
   \<and> (nonempty (SERVER_URL w) \<and> url_valid w (the (SERVER_URL w))
      \<and> network w = Answer a # rest \<and> plain a pl \<and> p_result pl \<noteq> JBool False \<longrightarrow>
      (\<exists>ps w2. addTorrentUrlToServer_v1 (Suc n) u options cookie_domain w
                  = Some (Resolved (p_result pl), w2)
         \<and> issued w w2 =
             [\<lparr>rpc_method = ''core.add_torrent_url'',
               rpc_params = [JStr (if startsWith u ''magnet:'' then u else encodeURI u), JObj ps]\<rparr>]
         \<and> network w2 = rest))
   \<and> (nonempty (SERVER_URL w) \<and> url_valid w (the (SERVER_URL w))
      \<and> network w = Answer a # rest \<and> plain a pl \<and> p_result pl \<noteq> JBool False
      \<and> (startsWith u ''magnet:'' \<or> (storage_send_cookies w \<noteq> JBool False \<and> cookies \<noteq> None)) \<longrightarrow>
      (\<exists>ps hs w2. addTorrentUrlToServer_v2 (Suc n) u options cookies w
                  = Some (Resolved (p_result pl), w2)
         \<and> issued w w2 =
             [\<lparr>rpc_method = ''core.add_torrent_url'',
               rpc_params = [JStr (if startsWith u ''magnet:'' then u else encodeURI u),
                             JObj ps, JObj hs]\<rparr>]
         \<and> network w2 = rest))
   \<and> (nonempty (SERVER_URL w) \<and> connect_v1 (Suc n) False w = Some (Resolved v, w1)
      \<and> nonempty (SERVER_URL w1) \<and> url_valid w1 (the (SERVER_URL w1))
      \<and> network w1 = Answer a # rest \<and> plain a pl \<and> p_result pl \<noteq> JBool False
      \<and> (plugins = None \<or> plugins = Some []) \<longrightarrow>
      (\<exists>ps w2. addTorrent_v1 (Suc n) u cookie_domain plugins options w
                  = Some (Resolved (p_result pl), w2)
         \<and> issued w w2 = issued w w1 @
             [\<lparr>rpc_method = ''core.add_torrent_url'',
               rpc_params = [JStr (if startsWith u ''magnet:'' then u else encodeURI u), JObj ps]\<rparr>]
         \<and> list_all (\<lambda>q. rpc_method q \<noteq> ''core.add_torrent_url'') (issued w w1)
         \<and> network w2 = rest))
   \<and> (nonempty (SERVER_URL w) \<and> connect_v2 (Suc n) False w = Some (Resolved v, w1)
      \<and> nonempty (SERVER_URL w1) \<and> url_valid w1 (the (SERVER_URL w1))
      \<and> network w1 = Answer a # rest \<and> plain a pl \<and> p_result pl \<noteq> JBool False
      \<and> (plugins = None \<or> plugins = Some [])
      \<and> (startsWith u ''magnet:'' \<or> (storage_send_cookies w \<noteq> JBool False \<and> cookies \<noteq> None)) \<longrightarrow>
      (\<exists>ps hs w2. addTorrent_v2 (Suc n) u cookies plugins options w
                  = Some (Resolved (p_result pl), w2)
         \<and> issued w w2 = issued w w1 @
             [\<lparr>rpc_method = ''core.add_torrent_url'',
               rpc_params = [JStr (if startsWith u ''magnet:'' then u else encodeURI u),
                             JObj ps, JObj hs]\<rparr>]
         \<and> list_all (\<lambda>q. rpc_method q \<noteq> ''core.add_torrent_url'') (issued w w1)
         \<and> network w2 = rest))"
proof -
  let ?U = "if startsWith u ''magnet:'' then u else encodeURI u"
  have c1: "list_all (carries_url ?U) (issued w w')"
    if "addTorrentUrlToServer_v1 n u options cookie_domain w = Some (r, w')"
    using soundD[OF sound_addTorrentUrlToServer_v1 that] by (blast intro: grows_issued)
  have c2: "list_all (carries_url ?U) (issued w w')"
    if h: "addTorrentUrlToServer_v2 n u options cookies w = Some (r, w')"
  proof (cases "(storage_send_cookies w \<noteq> JBool False \<or> startsWith u ''magnet:'')
                \<and> (cookies \<noteq> None \<or> startsWith u ''magnet:'')")
    case True
    with sound_addTorrentUrlToServer_v2[OF _ _ h] show ?thesis
      by (blast intro: grows_issued)
  next
    case False
    with h have "w' = w"
      by (auto simp: addTorrentUrlToServer_v2_def Let_def pending_def split: if_splits)
    then show ?thesis by (simp add: issued_def)
  qed
  have c3: "length u < length (encodeURI u)" if "CHR ''%'' \<in> set u"
    using that by (rule encodeURI_percent_grows)
  have c4: "\<exists>ps w2. addTorrentUrlToServer_v1 (Suc n) u options cookie_domain w
                  = Some (Resolved (p_result pl), w2)
         \<and> issued w w2 = [\<lparr>rpc_method = ''core.add_torrent_url'', rpc_params = [JStr ?U, JObj ps]\<rparr>]
         \<and> network w2 = rest"
    if h: "nonempty (SERVER_URL w) \<and> url_valid w (the (SERVER_URL w))
      \<and> network w = Answer a # rest \<and> plain a pl \<and> p_result pl \<noteq> JBool False"
  proof -
    from h addTorrentUrlToServer_v1_sends[of w a rest pl n u options cookie_domain]
    obtain ps where "addTorrentUrlToServer_v1 (Suc n) u options cookie_domain w =
        Some (Resolved (p_result pl),
              after_fetch \<lparr>rpc_method = ''core.add_torrent_url'',
                           rpc_params = [JStr ?U, JObj ps]\<rparr> a rest w)"
      by blast
    then show ?thesis
      by (intro exI[where x = ps]
            exI[where x = "after_fetch \<lparr>rpc_method = ''core.add_torrent_url'',
                                        rpc_params = [JStr ?U, JObj ps]\<rparr> a rest w"]) simp
  qed
  have c5: "\<exists>ps hs w2. addTorrentUrlToServer_v2 (Suc n) u options cookies w
                  = Some (Resolved (p_result pl), w2)
         \<and> issued w w2 = [\<lparr>rpc_method = ''core.add_torrent_url'',
                            rpc_params = [JStr ?U, JObj ps, JObj hs]\<rparr>]
         \<and> network w2 = rest"
    if h: "nonempty (SERVER_URL w) \<and> url_valid w (the (SERVER_URL w))
      \<and> network w = Answer a # rest \<and> plain a pl \<and> p_result pl \<noteq> JBool False
      \<and> (startsWith u ''magnet:'' \<or> (storage_send_cookies w \<noteq> JBool False \<and> cookies \<noteq> None))"
  proof -
    from h addTorrentUrlToServer_v2_sends[of w a rest pl u cookies n options]
    obtain ps hs where "addTorrentUrlToServer_v2 (Suc n) u options cookies w =
        Some (Resolved (p_result pl),
              after_fetch \<lparr>rpc_method = ''core.add_torrent_url'',
                           rpc_params = [JStr ?U, JObj ps, JObj hs]\<rparr> a rest w)"
      by blast
    then show ?thesis
      by (intro exI[where x = ps] exI[where x = hs]
            exI[where x = "after_fetch \<lparr>rpc_method = ''core.add_torrent_url'',
                                        rpc_params = [JStr ?U, JObj ps, JObj hs]\<rparr> a rest w"]) simp
  qed
  have c6: "\<exists>ps w2. addTorrent_v1 (Suc n) u cookie_domain plugins options w
                  = Some (Resolved (p_result pl), w2)
         \<and> issued w w2 = issued w w1 @
             [\<lparr>rpc_method = ''core.add_torrent_url'', rpc_params = [JStr ?U, JObj ps]\<rparr>]
         \<and> list_all (\<lambda>q. rpc_method q \<noteq> ''core.add_torrent_url'') (issued w w1)
         \<and> network w2 = rest"
    if "nonempty (SERVER_URL w) \<and> connect_v1 (Suc n) False w = Some (Resolved v, w1)
      \<and> nonempty (SERVER_URL w1) \<and> url_valid w1 (the (SERVER_URL w1))
      \<and> network w1 = Answer a # rest \<and> plain a pl \<and> p_result pl \<noteq> JBool False
      \<and> (plugins = None \<or> plugins = Some [])"
    using that addTorrent_v1_sends[of w n v w1 a rest pl plugins u cookie_domain options]
    by blast
  have c7: "\<exists>ps hs w2. addTorrent_v2 (Suc n) u cookies plugins options w
                  = Some (Resolved (p_result pl), w2)
         \<and> issued w w2 = issued w w1 @
             [\<lparr>rpc_method = ''core.add_torrent_url'', rpc_params = [JStr ?U, JObj ps, JObj hs]\<rparr>]
         \<and> list_all (\<lambda>q. rpc_method q \<noteq> ''core.add_torrent_url'') (issued w w1)
         \<and> network w2 = rest"
    if "nonempty (SERVER_URL w) \<and> connect_v2 (Suc n) False w = Some (Resolved v, w1)
      \<and> nonempty (SERVER_URL w1) \<and> url_valid w1 (the (SERVER_URL w1))
      \<and> network w1 = Answer a # rest \<and> plain a pl \<and> p_result pl \<noteq> JBool False
      \<and> (plugins = None \<or> plugins = Some [])
      \<and> (startsWith u ''magnet:'' \<or> (storage_send_cookies w \<noteq> JBool False \<and> cookies \<noteq> None))"
    using that addTorrent_v2_sends[of w n v w1 a rest pl plugins u cookies options]
    by blast
  have i: "(A \<Longrightarrow> B) \<Longrightarrow> A \<longrightarrow> B" for A B by blast
  show ?thesis
    apply (rule conjI, rule i, erule c1)
    apply (rule conjI, rule i, erule c2)
    apply (rule conjI, rule i, erule c3)
    apply (rule conjI, rule i, erule c4)
    apply (rule conjI, rule i, erule c5)
    apply (rule conjI, rule i, erule c6)
    apply (rule i, erule c7)
    done
qed

theorem addTorrent_url_encoding_witness:
  "(\<exists>r w'. addTorrentUrlToServer_v1 5 ''magnet:?xt=urn:btih:abcd1234'' None None
              (configured JNull [answer (JStr ''abcd1234'')]) = Some (r, w')
      \<and> list_all (carries_url ''magnet:?xt=urn:btih:abcd1234'')
          (issued (configured JNull [answer (JStr ''abcd1234'')]) w'))
   \<and> (\<exists>r w'. addTorrentUrlToServer_v2 5 ''http://tracker.example/a b'' None (Some [])
              (configured JNull [answer (JStr ''abcd1234'')]) = Some (r, w')
      \<and> list_all (carries_url ''http://tracker.example/a%20b'')
          (issued (configured JNull [answer (JStr ''abcd1234'')]) w'))
   \<and> length ''a%20b'' < length (encodeURI ''a%20b'')
   \<and> (\<exists>ps w2. addTorrentUrlToServer_v1 5 ''magnet:?xt=urn:btih:abcd1234'' None None
              (configured JNull [answer (JStr ''abcd1234'')]) = Some (Resolved (JStr ''abcd1234''), w2)
      \<and> issued (configured JNull [answer (JStr ''abcd1234'')]) w2
          = [\<lparr>rpc_method = ''core.add_torrent_url'',
              rpc_params = [JStr ''magnet:?xt=urn:btih:abcd1234'', JObj ps]\<rparr>])
   \<and> (\<exists>ps hs w2. addTorrentUrlToServer_v2 5 ''http://tracker.example/a b'' None (Some [])
              (configured JNull [answer (JStr ''abcd1234'')]) = Some (Resolved (JStr ''abcd1234''), w2)
      \<and> issued (configured JNull [answer (JStr ''abcd1234'')]) w2
          = [\<lparr>rpc_method = ''core.add_torrent_url'',
              rpc_params = [JStr ''http://tracker.example/a%20b'', JObj ps, JObj hs]\<rparr>])
   \<and> (\<exists>v w1 ps w2.
        connect_v1 5 False
          (configured JNull [answer (JBool True), answer (JBool True),
                             answer (JObj [(''allow_remote'', JBool True)]),
                             answer (JStr ''abcd1234'')]) = Some (Resolved v, w1)
      \<and> addTorrent_v1 5 ''magnet:?xt=urn:btih:abcd1234'' None None None
          (configured JNull [answer (JBool True), answer (JBool True),
                             answer (JObj [(''allow_remote'', JBool True)]),
                             answer (JStr ''abcd1234'')]) = Some (Resolved (JStr ''abcd1234''), w2)
      \<and> issued (configured JNull [answer (JBool True), answer (JBool True),
                                   answer (JObj [(''allow_remote'', JBool True)]),
                                   answer (JStr ''abcd1234'')]) w2
          = issued (configured JNull [answer (JBool True), answer (JBool True),
                                      answer (JObj [(''allow_remote'', JBool True)]),
                                      answer (JStr ''abcd1234'')]) w1
            @ [\<lparr>rpc_method = ''core.add_torrent_url'',
                rpc_params = [JStr ''magnet:?xt=urn:btih:abcd1234'', JObj ps]\<rparr>])
   \<and> (\<exists>v w1 ps hs w2.
        connect_v2 5 False
          (configured JNull [answer (JBool True), answer (JBool True),
                             answer (JObj [(''allow_remote'', JBool True)]),
                             answer (JStr ''abcd1234'')]) = Some (Resolved v, w1)
      \<and> addTorrent_v2 5 ''http://tracker.example/a b'' (Some []) None None
          (configured JNull [answer (JBool True), answer (JBool True),
                             answer (JObj [(''allow_remote'', JBool True)]),
                             answer (JStr ''abcd1234'')]) = Some (Resolved (JStr ''abcd1234''), w2)
      \<and> issued (configured JNull [answer (JBool True), answer (JBool True),
                                   answer (JObj [(''allow_remote'', JBool True)]),
                                   answer (JStr ''abcd1234'')]) w2
          = issued (configured JNull [answer (JBool True), answer (JBool True),
                                      answer (JObj [(''allow_remote'', JBool True)]),
                                      answer (JStr ''abcd1234'')]) w1
            @ [\<lparr>rpc_method = ''core.add_torrent_url'',
                rpc_params = [JStr ''http://tracker.example/a%20b'', JObj ps, JObj hs]\<rparr>])"
proof -
  let ?W = "configured JNull [answer (JStr ''abcd1234'')]"
  let ?C = "configured JNull [answer (JBool True), answer (JBool True),
                              answer (JObj [(''allow_remote'', JBool True)]),
                              answer (JStr ''abcd1234'')]"
  let ?m = "''magnet:?xt=urn:btih:abcd1234''"
  let ?h = "''http://tracker.example/a b''"
  let ?pl = "\<lparr>p_error = None, p_result = JStr ''abcd1234'', p_status = JNull\<rparr>"
  let ?a = "\<lparr>status = 200, set_cookie = None, csrf_header = None, body = Some ?pl\<rparr>"
  have s: "Suc 4 = 5" by simp
  have m: "startsWith ?m ''magnet:''" "\<not> startsWith ?h ''magnet:''" by code_simp+
  have e: "encodeURI ?h = ''http://tracker.example/a%20b''" by code_simp
  have env: "nonempty (SERVER_URL (configured c rs))"
    "url_valid (configured c rs) (the (SERVER_URL (configured c rs)))"
    "storage_send_cookies (configured c rs) = c" for c rs
    by (simp_all add: configured_def DelugeConnection_def nonempty_def)
  have net: "network ?W = Answer ?a # []"
    by (simp add: configured_def DelugeConnection_def answer_def)
  have pl: "plain ?a ?pl" "p_result ?pl \<noteq> JBool False" by (simp_all add: plain_def ok_def)
  have "case addTorrentUrlToServer_v1 5 ?m None None ?W of Some (r, w') \<Rightarrow> True | None \<Rightarrow> False"
    by code_simp
  then obtain r1 w1 where a1: "addTorrentUrlToServer_v1 5 ?m None None ?W = Some (r1, w1)"
    by (auto split: option.splits)
  have "case addTorrentUrlToServer_v2 5 ?h None (Some []) ?W of Some (r, w') \<Rightarrow> True | None \<Rightarrow> False"
    by code_simp
  then obtain r2 w2 where a2: "addTorrentUrlToServer_v2 5 ?h None (Some []) ?W = Some (r2, w2)"
    by (auto split: option.splits)
  have p: "CHR ''%'' \<in> set ''a%20b''" by simp
  from addTorrent_url_encoding[where n = 5 and u = ?m and options = None and cookie_domain = None
      and w = ?W and r = r1 and w' = w1, THEN conjunct1] a1 m
  have c1: "\<exists>r w'. addTorrentUrlToServer_v1 5 ?m None None ?W = Some (r, w')
      \<and> list_all (carries_url ?m) (issued ?W w')"
    by auto
  from addTorrent_url_encoding[where n = 5 and u = ?h and options = None and cookies = "Some []"
      and w = ?W and r = r2 and w' = w2, THEN conjunct2, THEN conjunct1] a2 m e
  have c2: "\<exists>r w'. addTorrentUrlToServer_v2 5 ?h None (Some []) ?W = Some (r, w')
      \<and> list_all (carries_url ''http://tracker.example/a%20b'') (issued ?W w')"
    by auto
  from addTorrent_url_encoding[where u = "''a%20b''", THEN conjunct2, THEN conjunct2, THEN conjunct1] p
  have c3: "length ''a%20b'' < length (encodeURI ''a%20b'')" by blast
  from addTorrent_url_encoding[where n = 4 and u = ?m and options = None and cookie_domain = None
      and w = ?W and a = ?a and rest = "[]" and pl = ?pl, unfolded s,
      THEN conjunct2, THEN conjunct2, THEN conjunct2, THEN conjunct1]
    env(1,2)[of JNull] net pl m
  have c4: "\<exists>ps w2. addTorrentUrlToServer_v1 5 ?m None None ?W = Some (Resolved (JStr ''abcd1234''), w2)
      \<and> issued ?W w2 = [\<lparr>rpc_method = ''core.add_torrent_url'', rpc_params = [JStr ?m, JObj ps]\<rparr>]
      \<and> network w2 = []"
    by simp
  from addTorrent_url_encoding[where n = 4 and u = ?h and options = None and cookies = "Some []"
      and w = ?W and a = ?a and rest = "[]" and pl = ?pl, unfolded s,
      THEN conjunct2, THEN conjunct2, THEN conjunct2, THEN conjunct2, THEN conjunct1]
    env[of JNull] net pl m e
  have c5: "\<exists>ps hs w2. addTorrentUrlToServer_v2 5 ?h None (Some []) ?W
        = Some (Resolved (JStr ''abcd1234''), w2)
      \<and> issued ?W w2 = [\<lparr>rpc_method = ''core.add_torrent_url'',
                          rpc_params = [JStr ''http://tracker.example/a%20b'', JObj ps, JObj hs]\<rparr>]
      \<and> network w2 = []"
    by simp
  have "case connect_v1 5 False ?C of
          Some (Resolved v, w1) \<Rightarrow>
            nonempty (SERVER_URL w1) \<and> url_valid w1 (the (SERVER_URL w1)) \<and> network w1 = [Answer ?a]
        | other \<Rightarrow> False"
    by code_simp
  then obtain v1 x1 where k1: "connect_v1 5 False ?C = Some (Resolved v1, x1)"
    "nonempty (SERVER_URL x1)" "url_valid x1 (the (SERVER_URL x1))" "network x1 = Answer ?a # []"
    by (elim case_resolvedE conjE) simp
  with addTorrent_url_encoding[where n = 4 and u = ?m and options = None and cookie_domain = None
      and plugins = None and w = ?C and v = v1 and ?w1.0 = x1 and a = ?a and rest = "[]"
      and pl = ?pl, unfolded s,
      THEN conjunct2, THEN conjunct2, THEN conjunct2, THEN conjunct2, THEN conjunct2,
      THEN conjunct1]
    env(1)[of JNull] pl m
  have "\<exists>ps w2. addTorrent_v1 5 ?m None None None ?C = Some (Resolved (JStr ''abcd1234''), w2)
      \<and> issued ?C w2 = issued ?C x1
          @ [\<lparr>rpc_method = ''core.add_torrent_url'', rpc_params = [JStr ?m, JObj ps]\<rparr>]
      \<and> list_all (\<lambda>q. rpc_method q \<noteq> ''core.add_torrent_url'') (issued ?C x1)
      \<and> network w2 = []"
    by simp
  with k1(1) have c6: "\<exists>v w1 ps w2. connect_v1 5 False ?C = Some (Resolved v, w1)
      \<and> addTorrent_v1 5 ?m None None None ?C = Some (Resolved (JStr ''abcd1234''), w2)
      \<and> issued ?C w2 = issued ?C w1
          @ [\<lparr>rpc_method = ''core.add_torrent_url'', rpc_params = [JStr ?m, JObj ps]\<rparr>]"
    by blast
  have "case connect_v2 5 False ?C of
          Some (Resolved v, w1) \<Rightarrow>
            nonempty (SERVER_URL w1) \<and> url_valid w1 (the (SERVER_URL w1)) \<and> network w1 = [Answer ?a]
        | other \<Rightarrow> False"
    by code_simp
  then obtain v2 x2 where k2: "connect_v2 5 False ?C = Some (Resolved v2, x2)"
    "nonempty (SERVER_URL x2)" "url_valid x2 (the (SERVER_URL x2))" "network x2 = Answer ?a # []"
    by (elim case_resolvedE conjE) simp
  with addTorrent_url_encoding[where n = 4 and u = ?h and options = None and cookies = "Some []"
      and plugins = None and w = ?C and v = v2 and ?w1.0 = x2 and a = ?a and rest = "[]"
      and pl = ?pl, unfolded s,
      THEN conjunct2, THEN conjunct2, THEN conjunct2, THEN conjunct2, THEN conjunct2,
      THEN conjunct2]
    env(1,3)[of JNull] pl m e
  have "\<exists>ps hs w2. addTorrent_v2 5 ?h (Some []) None None ?C = Some (Resolved (JStr ''abcd1234''), w2)
      \<and> issued ?C w2 = issued ?C x2
          @ [\<lparr>rpc_method = ''core.add_torrent_url'',
              rpc_params = [JStr ''http://tracker.example/a%20b'', JObj ps, JObj hs]\<rparr>]
      \<and> list_all (\<lambda>q. rpc_method q \<noteq> ''core.add_torrent_url'') (issued ?C x2)
      \<and> network w2 = []"
    by simp
  with k2(1) have c7: "\<exists>v w1 ps hs w2. connect_v2 5 False ?C = Some (Resolved v, w1)
      \<and> addTorrent_v2 5 ?h (Some []) None None ?C = Some (Resolved (JStr ''abcd1234''), w2)
      \<and> issued ?C w2 = issued ?C w1
          @ [\<lparr>rpc_method = ''core.add_torrent_url'',
              rpc_params = [JStr ''http://tracker.example/a%20b'', JObj ps, JObj hs]\<rparr>]"
    by blast
  from c1 c2 c3 c4 c5 c6 c7 show ?thesis by blast
qed

subsection \<open>Remote connections disabled\<close>

lemma getServerConfig_v1_rejects:
  assumes "nonempty (SERVER_URL w)" and "url_valid w (the (SERVER_URL w))"
    and "network w = Answer r # rest" and "plain r pl"
    and "\<not> truthy (jsget (spread (p_result pl)) ''allow_remote'')"
  shows "getServerConfig_v1 (Suc n) w =
           Some (Rejected (Error ''Remote connections disabled''),
                 (after_fetch config_call_v1 r rest w)\<lparr>server_config := spread (p_result pl)\<rparr>)"
proof -
  from assms have "request_v1 (Suc n) ''getconfig'' config_call_v1 False w
      = Some (Resolved pl, after_fetch config_call_v1 r rest w)"
    by (intro request_v1_ok) (simp_all add: plain_def)
  note t = then_resolved[where p = "request_v1 (Suc n) ''getconfig'' config_call_v1 False", OF this]
  from assms(5) show ?thesis
    unfolding getServerConfig_v1_def catch_rethrow config_call_v1_def[symmetric]
    by (simp add: t Let_def reject_def)
qed

lemma getServerConfig_v1_resolved:
  assumes "getServerConfig_v1 n w = Some (Resolved v, w')"
  shows "truthy (jsget (server_config w') ''allow_remote'') \<and> v = JArr [server_config w']"
  using then_ResolvedD[OF assms[unfolded getServerConfig_v1_def catch_rethrow]]
  by (auto simp: Let_def reject_def resolve_def split: if_splits)

lemma connect_v1_resolved:
  assumes "connect_v1 n silent w = Some (Resolved v, w')"
  shows "truthy (jsget (server_config w') ''allow_remote'')"
proof -
  from then_ResolvedD[OF assms[unfolded connect_v1_def]] obtain x w0 where
    "(if \<not> nonempty (SERVER_URL w0) then
         reject (Error ''Server URL not set after initialization'') w0
       else then_p (ensureDaemon_v1 n silent) (\<lambda>u. getServerConfig_v1 n) w0)
      = Some (Resolved v, w')"
    by blast
  then have "then_p (ensureDaemon_v1 n silent) (\<lambda>u. getServerConfig_v1 n) w0
      = Some (Resolved v, w')"
    by (simp add: reject_def split: if_splits)
  from then_ResolvedD[OF this] getServerConfig_v1_resolved show ?thesis by blast
qed

lemma getServerConfig_v2_resolves:
  assumes "nonempty (SERVER_URL w)" and "url_valid w (the (SERVER_URL w))"
    and "network w = Answer r # rest" and "plain r pl" and "truthy (p_result pl)"
  shows "getServerConfig_v2 (Suc n) w =
           Some (Resolved (p_result pl),
                 (after_fetch config_call_v2 r rest w)\<lparr>server_config := p_result pl\<rparr>)"
proof -
  from assms have "request_v2 (Suc n) ''core.get_config'' config_call_v2 False w
      = Some (Resolved pl, after_fetch config_call_v2 r rest w)"
    by (intro request_v2_ok) (simp_all add: plain_def)
  note t = then_resolved[where p = "request_v2 (Suc n) ''core.get_config'' config_call_v2 False", OF this]
  from assms(5) show ?thesis
    unfolding getServerConfig_v2_def config_call_v2_def[symmetric]
    by (simp add: t catch_p_def resolve_def)
qed

lemma getServerConfig_v2_status_403:
  assumes "nonempty (SERVER_URL w)" and "url_valid w (the (SERVER_URL w))"
    and "network w = Answer r # rest" and "ok r" and "body r = Some pl" and "p_error pl = None"
    and "p_status pl = JNum 403"
  shows "getServerConfig_v2 (Suc n) w =
           Some (Rejected (Error ''Remote connections are not enabled on your Deluge server''),
                 after_fetch config_call_v2 r rest w)"
proof -
  from assms have "request_v2 (Suc n) ''core.get_config'' config_call_v2 False w
      = Some (Rejected (Error ''Access denied by remote server''),
              after_fetch config_call_v2 r rest w)"
    by (intro request_v2_access_denied) simp_all
  note t = then_rejected[where p = "request_v2 (Suc n) ''core.get_config'' config_call_v2 False", OF this]
  show ?thesis
    unfolding getServerConfig_v2_def config_call_v2_def[symmetric]
    by (simp add: t catch_p_def reject_def Error_def)
qed

lemma getServerConfig_v2_outcome:
  "request_v2 m ''core.get_config'' config_call_v2 False w = Some (Resolved pl, w1) \<Longrightarrow>
   getServerConfig_v2 m w =
     (if truthy (p_result pl) then
        Some (Resolved (p_result pl), w1\<lparr>server_config := p_result pl\<rparr>)
      else Some (Rejected (Error ''No config result''), w1))"
  "request_v2 m ''core.get_config'' config_call_v2 False w = Some (Rejected e, w1) \<Longrightarrow>
   getServerConfig_v2 m w =
     Some (Rejected (if message e = ''Access denied by remote server'' then
                       Error ''Remote connections are not enabled on your Deluge server''
                     else e), w1)"
  unfolding getServerConfig_v2_def config_call_v2_def[symmetric]
  by (simp_all add: catch_p_def then_p_def reject_def resolve_def Error_def)

text \<open>
  The claim (C6) fails in the second generation: the fetched configuration reports
  \<open>allow_remote: false\<close>, \<open>_connect\<close> resolves all the same, and the add-torrent call is
  issued and answered.
\<close>

theorem allow_remote_false_counterexample:
  "(case addTorrent_v2 6 ''magnet:?xt=urn:btih:abcd1234'' (Some []) None None
           (configured JNull
              [answer (JBool True), answer (JBool True),
               answer (JObj [(''allow_remote'', JBool False)]),
               answer (JStr ''abcd1234'')]) of
      Some (Resolved v, w') \<Rightarrow>
        v = JStr ''abcd1234''
        \<and> map rpc_method (calls (trace w')) =
            [''auth.check_session'', ''web.connected'', ''core.get_config'',
             ''core.add_torrent_url'']
    | other \<Rightarrow> False)"
  by code_simp

text \<open>
  Claim C6, amended. First generation: when \<open>_connect\<close> has come to the configuration
  fetch and the answer reports \<open>allow_remote\<close> as false (or not at all), \<open>_connect\<close>
  rejects with \<open>Remote connections disabled\<close>; \<open>addTorrent\<close> rejects with the same error in
  the same world, so that the configuration call is the last call of the operation and no
  call of the operation is an add-torrent call; and \<open>_connect\<close> never resolves unless the
  stored configuration has a truthy \<open>allow_remote\<close>. Second generation: \<open>_getServerConfig\<close>
  does not look at \<open>allow_remote\<close>, its outcome is decided by the outcome of the
  configuration request alone. When the request resolves, it resolves with the result if
  that is truthy, whatever \<open>allow_remote\<close> says, and rejects with \<open>No config result\<close>
  otherwise. When the request rejects, it rejects with \<open>Remote connections are not
  enabled on your Deluge server\<close> if the message of the request's error is \<open>Access denied
  by remote server\<close> (as for an answer whose payload carries no error and the status 403),
  and with the request's own error otherwise.
\<close>

theorem allow_remote_gate:
  "(initState_v1 w = Some (Resolved JNull, w0) \<and> nonempty (SERVER_URL w0)
      \<and> ensureDaemon_v1 (Suc n) silent w0 = Some (Resolved x, w1)
      \<and> nonempty (SERVER_URL w1) \<and> url_valid w1 (the (SERVER_URL w1))
      \<and> network w1 = Answer r # rest \<and> plain r pl
      \<and> \<not> truthy (jsget (spread (p_result pl)) ''allow_remote'') \<longrightarrow>
      connect_v1 (Suc n) silent w =
        Some (Rejected (Error ''Remote connections disabled''),
              (after_fetch config_call_v1 r rest w1)\<lparr>server_config := spread (p_result pl)\<rparr>)
      \<and> (nonempty (SERVER_URL w) \<and> \<not> silent \<longrightarrow>
           addTorrent_v1 (Suc n) u cookie_domain plugins options w =
             Some (Rejected (Error ''Remote connections disabled''),
                   (after_fetch config_call_v1 r rest w1)\<lparr>server_config := spread (p_result pl)\<rparr>))
      \<and> issued w ((after_fetch config_call_v1 r rest w1)\<lparr>server_config := spread (p_result pl)\<rparr>)
          = issued w w1 @ [config_call_v1]
      \<and> list_all (\<lambda>q. rpc_method q \<noteq> ''core.add_torrent_url'')
           (issued w ((after_fetch config_call_v1 r rest w1)\<lparr>server_config := spread (p_result pl)\<rparr>)))
   \<and> (connect_v1 m silent w = Some (Resolved v, w') \<longrightarrow>
        truthy (jsget (server_config w') ''allow_remote''))
   \<and> (nonempty (SERVER_URL w) \<and> url_valid w (the (SERVER_URL w))
      \<and> network w = Answer r # rest \<and> plain r pl \<and> truthy (p_result pl) \<longrightarrow>
      getServerConfig_v2 (Suc n) w =
        Some (Resolved (p_result pl),
              (after_fetch config_call_v2 r rest w)\<lparr>server_config := p_result pl\<rparr>))
   \<and> (nonempty (SERVER_URL w) \<and> url_valid w (the (SERVER_URL w))
      \<and> network w = Answer r # rest \<and> ok r \<and> body r = Some pl \<and> p_error pl = None
      \<and> p_status pl = JNum 403 \<longrightarrow>
      getServerConfig_v2 (Suc n) w =
        Some (Rejected (Error ''Remote connections are not enabled on your Deluge server''),
              after_fetch config_call_v2 r rest w))
   \<and> (request_v2 m ''core.get_config'' config_call_v2 False w = Some (Resolved pl, w1) \<longrightarrow>
      getServerConfig_v2 m w =
        (if truthy (p_result pl) then
           Some (Resolved (p_result pl), w1\<lparr>server_config := p_result pl\<rparr>)
         else Some (Rejected (Error ''No config result''), w1)))
   \<and> (request_v2 m ''core.get_config'' config_call_v2 False w = Some (Rejected e, w1) \<longrightarrow>
      getServerConfig_v2 m w =
        Some (Rejected (if message e = ''Access denied by remote server'' then
                          Error ''Remote connections are not enabled on your Deluge server''
                        else e), w1))"
proof (intro conjI impI)
  let ?w2 = "(after_fetch config_call_v1 r rest w1)\<lparr>server_config := spread (p_result pl)\<rparr>"
  assume h: "initState_v1 w = Some (Resolved JNull, w0) \<and> nonempty (SERVER_URL w0)
      \<and> ensureDaemon_v1 (Suc n) silent w0 = Some (Resolved x, w1)
      \<and> nonempty (SERVER_URL w1) \<and> url_valid w1 (the (SERVER_URL w1))
      \<and> network w1 = Answer r # rest \<and> plain r pl
      \<and> \<not> truthy (jsget (spread (p_result pl)) ''allow_remote'')"
  then have g: "getServerConfig_v1 (Suc n) w1 = Some (Rejected (Error ''Remote connections disabled''), ?w2)"
    by (intro getServerConfig_v1_rejects) simp_all
  from h have e: "then_p (ensureDaemon_v1 (Suc n) silent) (\<lambda>u. getServerConfig_v1 (Suc n)) w0
      = Some (Rejected (Error ''Remote connections disabled''), ?w2)"
    by (simp add: then_resolved[where p = "ensureDaemon_v1 (Suc n) silent"] g)
  from h e show c: "connect_v1 (Suc n) silent w =
      Some (Rejected (Error ''Remote connections disabled''), ?w2)"
    by (simp add: connect_v1_def then_resolved[where p = initState_v1])
  {
    assume "nonempty (SERVER_URL w) \<and> \<not> silent"
    with c show "addTorrent_v1 (Suc n) u cookie_domain plugins options w =
             Some (Rejected (Error ''Remote connections disabled''), ?w2)"
      by (simp add: addTorrent_v1_def catch_rethrow then_p_def)
  }
  from h have g0: "grows connect_call w w0"
    using soundD[OF sound_initState_v1, of w "Resolved JNull" w0 connect_call] by blast
  from h have g1: "grows connect_call w0 w1"
    using soundD[OF sound_ensureDaemon_v1, of "Suc n" silent w0 "Resolved x" w1] by blast
  have g01: "grows connect_call w w1" by (rule grows_trans[OF g0 g1])
  then obtain evs where evs: "trace w1 = trace w @ evs" unfolding grows_def by blast
  then show i: "issued w ?w2 = issued w w1 @ [config_call_v1]"
    by (simp add: issued_def calls_append)
  from grows_issued[OF g01] have "list_all connect_call (issued w w1)" .
  then have "list_all (\<lambda>q. rpc_method q \<noteq> ''core.add_torrent_url'') (issued w w1)"
    by (auto simp: list_all_iff connect_call_def)
  with i show "list_all (\<lambda>q. rpc_method q \<noteq> ''core.add_torrent_url'') (issued w ?w2)"
    by (simp add: config_call_v1_def)
next
  assume "connect_v1 m silent w = Some (Resolved v, w')"
  then show "truthy (jsget (server_config w') ''allow_remote'')" by (rule connect_v1_resolved)
next
  assume "nonempty (SERVER_URL w) \<and> url_valid w (the (SERVER_URL w))
      \<and> network w = Answer r # rest \<and> plain r pl \<and> truthy (p_result pl)"
  then show "getServerConfig_v2 (Suc n) w =
        Some (Resolved (p_result pl),
              (after_fetch config_call_v2 r rest w)\<lparr>server_config := p_result pl\<rparr>)"
    by (intro getServerConfig_v2_resolves) simp_all
next
  assume "nonempty (SERVER_URL w) \<and> url_valid w (the (SERVER_URL w))
      \<and> network w = Answer r # rest \<and> ok r \<and> body r = Some pl \<and> p_error pl = None
      \<and> p_status pl = JNum 403"
  then show "getServerConfig_v2 (Suc n) w =
        Some (Rejected (Error ''Remote connections are not enabled on your Deluge server''),
              after_fetch config_call_v2 r rest w)"
    by (intro getServerConfig_v2_status_403[where pl = pl]) simp_all
next
  assume "request_v2 m ''core.get_config'' config_call_v2 False w = Some (Resolved pl, w1)"
  then show "getServerConfig_v2 m w =
        (if truthy (p_result pl) then
           Some (Resolved (p_result pl), w1\<lparr>server_config := p_result pl\<rparr>)
         else Some (Rejected (Error ''No config result''), w1))"
    by (rule getServerConfig_v2_outcome(1))
next
  assume "request_v2 m ''core.get_config'' config_call_v2 False w = Some (Rejected e, w1)"
  then show "getServerConfig_v2 m w =
        Some (Rejected (if message e = ''Access denied by remote server'' then
                          Error ''Remote connections are not enabled on your Deluge server''
                        else e), w1)"
    by (rule getServerConfig_v2_outcome(2))
qed

theorem allow_remote_gate_witness:
  "(\<exists>w2. connect_v1 5 False
            (configured JNull [answer (JBool True), answer (JBool True),
                               answer (JObj [(''allow_remote'', JBool False)])])
          = Some (Rejected (Error ''Remote connections disabled''), w2)
        \<and> addTorrent_v1 5 ''magnet:?xt=urn:btih:abcd1234'' None None None
            (configured JNull [answer (JBool True), answer (JBool True),
                               answer (JObj [(''allow_remote'', JBool False)])])
          = Some (Rejected (Error ''Remote connections disabled''), w2)
        \<and> list_all (\<lambda>q. rpc_method q \<noteq> ''core.add_torrent_url'')
            (issued (configured JNull [answer (JBool True), answer (JBool True),
                                       answer (JObj [(''allow_remote'', JBool False)])]) w2))
   \<and> (\<exists>v w'. connect_v1 5 False
            (configured JNull [answer (JBool True), answer (JBool True),
                               answer (JObj [(''allow_remote'', JBool True)])])
          = Some (Resolved v, w')
        \<and> truthy (jsget (server_config w') ''allow_remote''))
   \<and> (\<exists>w'. getServerConfig_v2 5
            (configured JNull [answer (JObj [(''allow_remote'', JBool False)])])
          = Some (Resolved (JObj [(''allow_remote'', JBool False)]), w'))
   \<and> (\<exists>w'. getServerConfig_v2 5
            (configured JNull
               [Answer \<lparr>status = 200, set_cookie = None, csrf_header = None,
                        body = Some \<lparr>p_error = None, p_result = JNull, p_status = JNum 403\<rparr>\<rparr>])
          = Some (Rejected (Error ''Remote connections are not enabled on your Deluge server''), w'))
   \<and> (\<exists>w'. getServerConfig_v2 5 (configured JNull [answer JNull])
          = Some (Rejected (Error ''No config result''), w'))
   \<and> (\<exists>w'. getServerConfig_v2 5
            (configured JNull [server_error ''Access denied by remote server''])
          = Some (Rejected (Error ''Remote connections are not enabled on your Deluge server''), w'))
   \<and> (\<exists>w'. getServerConfig_v2 5 (configured JNull [server_error ''Unknown method''])
          = Some (Rejected (Error ''Unknown method''), w'))"
proof -
  let ?W = "configured JNull [answer (JBool True), answer (JBool True),
                              answer (JObj [(''allow_remote'', JBool False)])]"
  let ?V = "configured JNull [answer (JBool True), answer (JBool True),
                              answer (JObj [(''allow_remote'', JBool True)])]"
  let ?pl = "\<lparr>p_error = None, p_result = JObj [(''allow_remote'', JBool False)], p_status = JNull\<rparr>"
  let ?r = "\<lparr>status = 200, set_cookie = None, csrf_header = None, body = Some ?pl\<rparr>"
  let ?pd = "\<lparr>p_error = None, p_result = JNull, p_status = JNum 403\<rparr>"
  let ?d = "\<lparr>status = 200, set_cookie = None, csrf_header = None, body = Some ?pd\<rparr>"
  have s: "Suc 4 = 5" by simp
  have "case initState_v1 ?W of
          Some (Resolved v0, w0) \<Rightarrow>
            v0 = JNull \<and> nonempty (SERVER_URL w0)
            \<and> (case ensureDaemon_v1 5 False w0 of
                 Some (Resolved x, w1) \<Rightarrow>
                   nonempty (SERVER_URL w1) \<and> url_valid w1 (the (SERVER_URL w1))
                   \<and> network w1 = [Answer ?r]
               | other \<Rightarrow> False)
        | other \<Rightarrow> False"
    by code_simp
  then obtain w0 x w1 where
    "initState_v1 ?W = Some (Resolved JNull, w0)" "nonempty (SERVER_URL w0)"
    "ensureDaemon_v1 5 False w0 = Some (Resolved x, w1)"
    "nonempty (SERVER_URL w1)" "url_valid w1 (the (SERVER_URL w1))" "network w1 = [Answer ?r]"
    by (elim case_resolvedE conjE) simp
  moreover have "plain ?r ?pl" "\<not> truthy (jsget (spread (p_result ?pl)) ''allow_remote'')"
    "nonempty (SERVER_URL ?W)"
    by (simp_all add: plain_def ok_def configured_def nonempty_def)
  ultimately have A: "\<exists>w2. connect_v1 5 False ?W
          = Some (Rejected (Error ''Remote connections disabled''), w2)
        \<and> addTorrent_v1 5 ''magnet:?xt=urn:btih:abcd1234'' None None None ?W
          = Some (Rejected (Error ''Remote connections disabled''), w2)
        \<and> list_all (\<lambda>q. rpc_method q \<noteq> ''core.add_torrent_url'') (issued ?W w2)"
    using allow_remote_gate[where w = ?W and ?w0.0 = w0 and n = 4 and silent = False and x = x
        and ?w1.0 = w1 and r = ?r and rest = "[]" and pl = ?pl
        and u = "''magnet:?xt=urn:btih:abcd1234''" and cookie_domain = None and plugins = None
        and options = None
        and m = 0 and v = JNull and w' = ?W, unfolded s]
    by blast
  have "case connect_v1 5 False ?V of Some (Resolved v, w') \<Rightarrow> True | other \<Rightarrow> False"
    by code_simp
  then obtain v w' where c: "connect_v1 5 False ?V = Some (Resolved v, w')"
    by (elim case_resolvedE)
  with allow_remote_gate[where w = ?V and m = 5 and silent = False and v = v and w' = w']
  have B: "\<exists>v w'. connect_v1 5 False ?V = Some (Resolved v, w')
        \<and> truthy (jsget (server_config w') ''allow_remote'')"
    by blast
  let ?C = "configured JNull [answer (JObj [(''allow_remote'', JBool False)])]"
  have "nonempty (SERVER_URL ?C)" "url_valid ?C (the (SERVER_URL ?C))"
    "network ?C = Answer ?r # []" "plain ?r ?pl" "truthy (p_result ?pl)"
    by (simp_all add: configured_def DelugeConnection_def nonempty_def answer_def plain_def ok_def)
  with allow_remote_gate[where w = ?C and n = 4 and r = ?r and rest = "[]" and pl = ?pl,
      unfolded s]
  have C: "\<exists>w'. getServerConfig_v2 5 ?C = Some (Resolved (JObj [(''allow_remote'', JBool False)]), w')"
    by simp
  let ?D = "configured JNull [Answer ?d]"
  have "nonempty (SERVER_URL ?D)" "url_valid ?D (the (SERVER_URL ?D))"
    "network ?D = Answer ?d # []" "ok ?d" "body ?d = Some ?pd" "p_error ?pd = None"
    "p_status ?pd = JNum 403"
    by (simp_all add: configured_def DelugeConnection_def nonempty_def ok_def)
  with allow_remote_gate[where w = ?D and n = 4 and r = ?d and rest = "[]" and pl = ?pd,
      unfolded s]
  have D: "\<exists>w'. getServerConfig_v2 5 ?D
      = Some (Rejected (Error ''Remote connections are not enabled on your Deluge server''), w')"
    by simp
  have "case request_v2 5 ''core.get_config'' config_call_v2 False (configured JNull [answer JNull]) of
          Some (Resolved pl, w1) \<Rightarrow> \<not> truthy (p_result pl) | other \<Rightarrow> False"
    by code_simp
  then obtain pl1 w1 where
    "request_v2 5 ''core.get_config'' config_call_v2 False (configured JNull [answer JNull])
       = Some (Resolved pl1, w1)" "\<not> truthy (p_result pl1)"
    by (elim case_resolvedE)
  with allow_remote_gate[where w = "configured JNull [answer JNull]" and m = 5 and pl = pl1
      and ?w1.0 = w1, THEN conjunct2, THEN conjunct2, THEN conjunct2, THEN conjunct2,
      THEN conjunct1]
  have E: "\<exists>w'. getServerConfig_v2 5 (configured JNull [answer JNull])
      = Some (Rejected (Error ''No config result''), w')"
    by simp
  have "case request_v2 5 ''core.get_config'' config_call_v2 False
               (configured JNull [server_error ''Access denied by remote server'']) of
          Some (Rejected e, w1) \<Rightarrow> e = Error ''Access denied by remote server''
        | other \<Rightarrow> False"
    by code_simp
  then obtain w2 where
    "request_v2 5 ''core.get_config'' config_call_v2 False
       (configured JNull [server_error ''Access denied by remote server''])
       = Some (Rejected (Error ''Access denied by remote server''), w2)"
    by (elim case_rejectedE) simp
  with allow_remote_gate[where w = "configured JNull [server_error ''Access denied by remote server'']"
      and m = 5 and e = "Error ''Access denied by remote server''" and ?w1.0 = w2,
      THEN conjunct2, THEN conjunct2, THEN conjunct2, THEN conjunct2, THEN conjunct2]
  have F: "\<exists>w'. getServerConfig_v2 5
        (configured JNull [server_error ''Access denied by remote server''])
      = Some (Rejected (Error ''Remote connections are not enabled on your Deluge server''), w')"
    by (simp add: Error_def)
  have "case request_v2 5 ''core.get_config'' config_call_v2 False
               (configured JNull [server_error ''Unknown method'']) of
          Some (Rejected e, w1) \<Rightarrow> e = Error ''Unknown method''
        | other \<Rightarrow> False"
    by code_simp
  then obtain w3 where
    "request_v2 5 ''core.get_config'' config_call_v2 False
       (configured JNull [server_error ''Unknown method''])
       = Some (Rejected (Error ''Unknown method''), w3)"
    by (elim case_rejectedE) simp
  with allow_remote_gate[where w = "configured JNull [server_error ''Unknown method'']"
      and m = 5 and e = "Error ''Unknown method''" and ?w1.0 = w3,
      THEN conjunct2, THEN conjunct2, THEN conjunct2, THEN conjunct2, THEN conjunct2]
  have G: "\<exists>w'. getServerConfig_v2 5 (configured JNull [server_error ''Unknown method''])
      = Some (Rejected (Error ''Unknown method''), w')"
    by (simp add: Error_def)
  from A B C D E F G show ?thesis by blast
qed

subsection \<open>The wrong-argument-count error of an add-torrent call\<close>

text \<open>
  The retry with the alternate parameter shape is unreachable: \<open>_request\<close> never resolves
  with a payload that carries an error, so \<open>_addTorrentViaUrl\<close> behaves the same whatever
  is put in the place of the retry.
\<close>

lemma addTorrentViaUrl_retry_unreachable:
  "addTorrentViaUrl_v1 n u params w =
     then_p
       (request_v1 n ''addtorrent''
          \<lparr>rpc_method = ''core.add_torrent_url'', rpc_params = [JStr u, JObj params]\<rparr> False)
       (addTorrent_response anything) w"
  unfolding addTorrentViaUrl_v1_def
  by (rule then_clean_cong[OF clean_request_v1]) (simp add: addTorrent_response_def)

text \<open>
  Claim C7, at a failing input. The panel answers the add-torrent call with the
  wrong-argument-count error and would accept the call in the alternate shape. Both
  generations reject with the server's message after the one call: the alternate shape is
  never sent and the second reply is not consumed.
\<close>

theorem addTorrentViaUrl_argument_count_error_not_retried:
  "(case addTorrentViaUrl_v1 5 ''http://tracker.example/file.torrent'' []
           (configured JNull
              [server_error ''add_torrent_url() takes exactly 3 arguments (4 given)'',
               answer (JStr ''c0ffee'')]) of
      Some (Rejected e, w') \<Rightarrow>
        e = Error ''add_torrent_url() takes exactly 3 arguments (4 given)''
        \<and> calls (trace w') =
            [\<lparr>rpc_method = ''core.add_torrent_url'',
              rpc_params = [JStr ''http://tracker.example/file.torrent'', JObj []]\<rparr>]
        \<and> length (network w') = 1
    | other \<Rightarrow> False)
   \<and> (case addTorrentViaUrl_v2 5 ''http://tracker.example/file.torrent'' []
           (configured JNull
              [server_error ''add_torrent_url() takes exactly 3 arguments (4 given)'',
               answer (JStr ''c0ffee'')]) of
      Some (Rejected e, w') \<Rightarrow>
        e = Error ''add_torrent_url() takes exactly 3 arguments (4 given)''
        \<and> calls (trace w') =
            [\<lparr>rpc_method = ''core.add_torrent_url'',
              rpc_params = [JStr ''http://tracker.example/file.torrent'', JObj [], JObj []]\<rparr>]
        \<and> length (network w') = 1
    | other \<Rightarrow> False)"
  by code_simp

subsection \<open>Probe, login, confirming probe\<close>

lemma session_confirmed:
  assumes "nonempty (SERVER_URL w)" and "url_valid w (the (SERVER_URL w))"
    and "nonempty (SERVER_PASS w)"
    and "network w = Answer r1 # Answer r2 # Answer r3 # rest"
    and "plain r1 p1" and "\<not> truthy (p_result p1)"
    and "plain r2 p2" and "truthy (p_result p2)"
    and "plain r3 p3" and "p_result p3 = JBool True"
  shows "(\<exists>w'. ensureSession_v1 (Suc (Suc (Suc (Suc n)))) silent w = Some (Resolved (p_result p2), w')
            \<and> issued w w' = [probe_call, login_call w, probe_call] \<and> network w' = rest)
       \<and> (\<exists>w'. getSession_v2 (Suc (Suc (Suc (Suc n)))) w = Some (Resolved (p_result p2), w')
            \<and> issued w w' = [probe_call, login_call w, probe_call] \<and> network w' = rest)
       \<and> (\<exists>w'. ensureSession_v2 (Suc (Suc (Suc (Suc n)))) silent w = Some (Resolved (p_result p2), w')
            \<and> issued w w' = [probe_call, login_call w, probe_call] \<and> network w' = rest)"
proof -
  let ?net2 = "Answer r2 # Answer r3 # rest"
  let ?w1 = "after_fetch probe_call r1 ?net2 w"
  let ?w2 = "after_fetch (login_call w) r2 (Answer r3 # rest) ?w1"
  let ?w3 = "after_fetch probe_call r3 rest ?w2"
  have t3: "truthy (p_result p3)" using assms(10) by simp
  have n1: "p_result p1 \<noteq> JBool True" using assms(6) by auto
  have l: "login_call ?w1 = login_call w" by (simp add: login_call_def)
  have obs: "issued w ?w3 = [probe_call, login_call w, probe_call]" "network ?w3 = rest"
    by (simp_all add: issued_def)
  \<comment> \<open>first generation\<close>
  have a1: "getSession_v1 (Suc (Suc (Suc (Suc n)))) w =
              Some (Rejected (Error ''Invalid session''), ?w1)"
    using assms by (intro getSession_v1_invalid) simp_all
  have a3: "getSession_v1 (Suc (Suc (Suc n))) ?w2 = Some (Resolved (p_result p3), ?w3)"
    using assms t3 by (intro getSession_v1_valid) simp_all
  have a2: "doLogin_v1 (Suc (Suc (Suc (Suc n)))) silent ?w1 = Some (Resolved (p_result p2), ?w3)"
    using assms
    by (subst doLogin_v1_accepted[where r = r2 and pl = p2 and rest = "Answer r3 # rest"])
       (simp_all add: l then_resolved[where p = "getSession_v1 (Suc (Suc (Suc n)))", OF a3] resolve_def)
  have g1: "ensureSession_v1 (Suc (Suc (Suc (Suc n)))) silent w = Some (Resolved (p_result p2), ?w3)"
    by (simp add: ensureSession_v1_def catch_rejected[where p = "getSession_v1 (Suc (Suc (Suc (Suc n))))", OF a1] a2)
  \<comment> \<open>second generation\<close>
  have b3: "getSession_v2 (Suc (Suc n)) ?w2 = Some (Resolved (JBool True), ?w3)"
    using assms by (intro getSession_v2_valid) simp_all
  have b2: "doLogin_v2 (Suc (Suc (Suc n))) False ?w1 = Some (Resolved (p_result p2), ?w3)"
    using assms
    by (subst doLogin_v2_accepted[where r = r2 and pl = p2 and rest = "Answer r3 # rest"])
       (simp_all add: l then_resolved[where p = "getSession_v2 (Suc (Suc n))", OF b3] resolve_def)
  have b1: "getSession_v2 (Suc (Suc (Suc (Suc n)))) w = Some (Resolved (p_result p2), ?w3)"
    using assms n1
    by (subst getSession_v2_invalid[where r = r1 and pl = p1 and rest = ?net2])
       (simp_all add: b2)
  have g2: "ensureSession_v2 (Suc (Suc (Suc (Suc n)))) silent w = Some (Resolved (p_result p2), ?w3)"
    by (simp add: ensureSession_v2_def catch_resolved[where p = "getSession_v2 (Suc (Suc (Suc (Suc n))))", OF b1])
  from g1 b1 g2 obs show ?thesis by blast
qed

lemma session_unconfirmed_v1:
  assumes "nonempty (SERVER_URL w)" and "url_valid w (the (SERVER_URL w))"
    and "nonempty (SERVER_PASS w)"
    and "network w = Answer r1 # Answer r2 # Answer r3 # rest"
    and "plain r1 p1" and "\<not> truthy (p_result p1)"
    and "plain r2 p2" and "truthy (p_result p2)"
    and "plain r3 p3" and "\<not> truthy (p_result p3)"
  shows "\<exists>w'. ensureSession_v1 (Suc (Suc (Suc (Suc n)))) silent w
                 = Some (Rejected (Error ''Invalid session''), w')
            \<and> issued w w' = [probe_call, login_call w, probe_call] \<and> network w' = rest"
proof -
  let ?net2 = "Answer r2 # Answer r3 # rest"
  let ?w1 = "after_fetch probe_call r1 ?net2 w"
  let ?w2 = "after_fetch (login_call w) r2 (Answer r3 # rest) ?w1"
  let ?w3 = "after_fetch probe_call r3 rest ?w2"
  have l: "login_call ?w1 = login_call w" by (simp add: login_call_def)
  have obs: "issued w ?w3 = [probe_call, login_call w, probe_call]" "network ?w3 = rest"
    by (simp_all add: issued_def)
  have a1: "getSession_v1 (Suc (Suc (Suc (Suc n)))) w =
              Some (Rejected (Error ''Invalid session''), ?w1)"
    using assms by (intro getSession_v1_invalid[where pl = p1]) simp_all
  have a3: "getSession_v1 (Suc (Suc (Suc n))) ?w2 =
              Some (Rejected (Error ''Invalid session''), ?w3)"
    using assms by (intro getSession_v1_invalid[where pl = p3]) simp_all
  have a2: "doLogin_v1 (Suc (Suc (Suc (Suc n)))) silent ?w1 =
              Some (Rejected (Error ''Invalid session''), ?w3)"
    using assms
    by (subst doLogin_v1_accepted[where r = r2 and pl = p2 and rest = "Answer r3 # rest"])
       (simp_all add: l then_rejected[where p = "getSession_v1 (Suc (Suc (Suc n)))", OF a3])
  have g1: "ensureSession_v1 (Suc (Suc (Suc (Suc n)))) silent w =
              Some (Rejected (Error ''Invalid session''), ?w3)"
    by (simp add: ensureSession_v1_def
          catch_rejected[where p = "getSession_v1 (Suc (Suc (Suc (Suc n))))", OF a1] a2)
  from g1 obs show ?thesis by blast
qed

lemma getSession_v2_unconfirmed:
  assumes "nonempty (SERVER_URL w)" and "url_valid w (the (SERVER_URL w))"
    and "nonempty (SERVER_PASS w)"
    and "network w = unconfirmed k (answer (JBool True) # rest)"
  shows "\<exists>w' evs. getSession_v2 (2 * k + Suc (Suc n)) w = Some (Resolved (JBool True), w')
           \<and> trace w' = trace w @ evs
           \<and> calls evs = concat (replicate k [probe_call, login_call w]) @ [probe_call]
           \<and> network w' = rest"
  using assms
proof (induction k arbitrary: w)
  case 0
  let ?pt = "\<lparr>p_error = None, p_result = JBool True, p_status = JNull\<rparr>"
  let ?t = "\<lparr>status = 200, set_cookie = None, csrf_header = None, body = Some ?pt\<rparr>"
  from 0 have net: "network w = Answer ?t # rest" by (simp add: plain_answer(1))
  have "getSession_v2 (Suc (Suc n)) w = Some (Resolved (JBool True), after_fetch probe_call ?t rest w)"
    using 0(1,2) net by (intro getSession_v2_valid[where pl = ?pt] plain_answer(2)) simp_all
  then show ?case
    by (intro exI[where x = "after_fetch probe_call ?t rest w"]
          exI[where x = "[Fetch probe_call (SESSION_COOKIE w) (CSRF_TOKEN w)]"]) simp
next
  case (Suc k)
  let ?pf = "\<lparr>p_error = None, p_result = JBool False, p_status = JNull\<rparr>"
  let ?f = "\<lparr>status = 200, set_cookie = None, csrf_header = None, body = Some ?pf\<rparr>"
  let ?pt = "\<lparr>p_error = None, p_result = JBool True, p_status = JNull\<rparr>"
  let ?t = "\<lparr>status = 200, set_cookie = None, csrf_header = None, body = Some ?pt\<rparr>"
  let ?rest = "unconfirmed k (answer (JBool True) # rest)"
  let ?w1 = "after_fetch probe_call ?f (Answer ?t # ?rest) w"
  let ?w2 = "after_fetch (login_call ?w1) ?t ?rest ?w1"
  let ?F = "2 * k + Suc (Suc n)"
  from Suc.prems(4) have net: "network w = Answer ?f # Answer ?t # ?rest"
    by (simp add: plain_answer(1))
  have f: "Suc (Suc ?F) = 2 * Suc k + Suc (Suc n)" "?F = Suc (2 * k + Suc n)" by simp_all
  have s1: "getSession_v2 (Suc (Suc ?F)) w = doLogin_v2 (Suc ?F) False ?w1"
    using Suc.prems(1,2) net
    by (intro getSession_v2_invalid[where pl = ?pf] plain_answer(2)) simp_all
  have s2: "doLogin_v2 (Suc ?F) False ?w1 =
      then_p (getSession_v2 ?F) (\<lambda>u. resolve (p_result ?pt)) ?w2"
    unfolding f(2)
    using Suc.prems(1-3)
    by (intro doLogin_v2_accepted[where pl = ?pt] plain_answer(2)) simp_all
  have p2: "nonempty (SERVER_URL ?w2)" "url_valid ?w2 (the (SERVER_URL ?w2))"
    "nonempty (SERVER_PASS ?w2)" "network ?w2 = ?rest"
    using Suc.prems(1-3) by simp_all
  from Suc.IH[OF p2] obtain w' evs where
    i: "getSession_v2 ?F ?w2 = Some (Resolved (JBool True), w')"
    and t: "trace w' = trace ?w2 @ evs"
    and c: "calls evs = concat (replicate k [probe_call, login_call ?w2]) @ [probe_call]"
    and n': "network w' = rest"
    by blast
  have l: "login_call ?w2 = login_call w" "login_call ?w1 = login_call w"
    by (simp_all add: login_call_def)
  have "getSession_v2 (Suc (Suc ?F)) w = doLogin_v2 (Suc ?F) False ?w1" by (rule s1)
  also have "\<dots> = then_p (getSession_v2 ?F) (\<lambda>u. resolve (p_result ?pt)) ?w2" by (rule s2)
  also have "\<dots> = resolve (p_result ?pt) w'"
    by (rule then_resolved[where p = "getSession_v2 ?F", OF i])
  also have "\<dots> = Some (Resolved (JBool True), w')" by (simp add: resolve_def)
  finally have "getSession_v2 (2 * Suc k + Suc (Suc n)) w = Some (Resolved (JBool True), w')"
    unfolding f(1) .
  moreover from t have "trace w' = trace w @
      ([Fetch probe_call (SESSION_COOKIE w) (CSRF_TOKEN w),
        Fetch (login_call w) (SESSION_COOKIE ?w1) (CSRF_TOKEN ?w1)] @ evs)"
    by (simp add: l(2))
  moreover from c[unfolded l(1)] have "calls ([Fetch probe_call (SESSION_COOKIE w) (CSRF_TOKEN w),
        Fetch (login_call w) (SESSION_COOKIE ?w1) (CSRF_TOKEN ?w1)] @ evs)
      = concat (replicate (Suc k) [probe_call, login_call w]) @ [probe_call]"
    by simp
  ultimately show ?case using n' by blast
qed

text \<open>
  The claim (C8) fails in the second generation where it says that an establishment
  attempt never performs more than one login: \<open>_doLogin\<close> confirms an accepted login with
  \<open>_getSession\<close>, and \<open>_getSession\<close> answers every probe that does not confirm with
  another \<open>_doLogin\<close>. The first probe fails, the login is accepted, the next probe does
  not confirm: a second login follows within the same attempt.
\<close>

theorem session_two_logins_counterexample:
  "(case getSession_v2 8
           (configured JNull
              [answer (JBool False), answer (JBool True),
               answer (JBool False), answer (JBool True),
               answer (JBool True)]) of
      Some (Resolved v, w') \<Rightarrow>
        map rpc_method (calls (trace w')) =
          [''auth.check_session'', ''auth.login'',
           ''auth.check_session'', ''auth.login'',
           ''auth.check_session'']
    | other \<Rightarrow> False)"
  by code_simp

text \<open>
  Claim C8, amended. The first probe is answered and does not confirm the session and the
  login that follows is accepted. When the next probe confirms, session establishment (in
  the first generation the \<open>_getSession().catch(_doLogin)\<close> of \<open>_connect\<close>, in the second
  \<open>_getSession\<close> itself) resolves, and the calls it issued are exactly the probe, one
  login with the stored password, and one more probe. When the next probe does not
  confirm, the first generation rejects with \<open>Invalid session\<close> after that one login; the
  second generation logs in again after every probe that does not confirm, so that an
  attempt whose first \<open>k\<close> probes do not confirm performs \<open>k\<close> logins before it resolves.
\<close>

theorem session_login_per_unconfirmed_probe:
  assumes "nonempty (SERVER_URL w)" and "url_valid w (the (SERVER_URL w))"
    and "nonempty (SERVER_PASS w)"
  shows "(network w = Answer r1 # Answer r2 # Answer r3 # rest
          \<and> plain r1 p1 \<and> \<not> truthy (p_result p1)
          \<and> plain r2 p2 \<and> truthy (p_result p2)
          \<and> plain r3 p3 \<and> p_result p3 = JBool True \<longrightarrow>
          (\<exists>w'. ensureSession_v1 (Suc (Suc (Suc (Suc n)))) silent w = Some (Resolved (p_result p2), w')
              \<and> issued w w' = [probe_call, login_call w, probe_call] \<and> network w' = rest)
          \<and> (\<exists>w'. getSession_v2 (Suc (Suc (Suc (Suc n)))) w = Some (Resolved (p_result p2), w')
              \<and> issued w w' = [probe_call, login_call w, probe_call] \<and> network w' = rest)
          \<and> (\<exists>w'. ensureSession_v2 (Suc (Suc (Suc (Suc n)))) silent w = Some (Resolved (p_result p2), w')
              \<and> issued w w' = [probe_call, login_call w, probe_call] \<and> network w' = rest))
       \<and> (network w = Answer r1 # Answer r2 # Answer r3 # rest
          \<and> plain r1 p1 \<and> \<not> truthy (p_result p1)
          \<and> plain r2 p2 \<and> truthy (p_result p2)
          \<and> plain r3 p3 \<and> \<not> truthy (p_result p3) \<longrightarrow>
          (\<exists>w'. ensureSession_v1 (Suc (Suc (Suc (Suc n)))) silent w
                   = Some (Rejected (Error ''Invalid session''), w')
              \<and> issued w w' = [probe_call, login_call w, probe_call] \<and> network w' = rest))
       \<and> (network w = unconfirmed k (answer (JBool True) # rest) \<longrightarrow>
          (\<exists>w'. getSession_v2 (2 * k + Suc (Suc n)) w = Some (Resolved (JBool True), w')
              \<and> issued w w' = concat (replicate k [probe_call, login_call w]) @ [probe_call]
              \<and> network w' = rest))"
proof (intro conjI impI)
  assume h: "network w = unconfirmed k (answer (JBool True) # rest)"
  from getSession_v2_unconfirmed[OF assms h, of n] obtain w' evs where
    "getSession_v2 (2 * k + Suc (Suc n)) w = Some (Resolved (JBool True), w')"
    "trace w' = trace w @ evs"
    "calls evs = concat (replicate k [probe_call, login_call w]) @ [probe_call]"
    "network w' = rest"
    by blast
  then show "\<exists>w'. getSession_v2 (2 * k + Suc (Suc n)) w = Some (Resolved (JBool True), w')
              \<and> issued w w' = concat (replicate k [probe_call, login_call w]) @ [probe_call]
              \<and> network w' = rest"
    by (auto simp: issued_def)
next
  assume "network w = Answer r1 # Answer r2 # Answer r3 # rest
          \<and> plain r1 p1 \<and> \<not> truthy (p_result p1)
          \<and> plain r2 p2 \<and> truthy (p_result p2)
          \<and> plain r3 p3 \<and> \<not> truthy (p_result p3)"
  then show "\<exists>w'. ensureSession_v1 (Suc (Suc (Suc (Suc n)))) silent w
                   = Some (Rejected (Error ''Invalid session''), w')
              \<and> issued w w' = [probe_call, login_call w, probe_call] \<and> network w' = rest"
    using session_unconfirmed_v1[OF assms, of r1 r2 r3 rest p1 p2 p3 n silent] by blast
next
  assume h: "network w = Answer r1 # Answer r2 # Answer r3 # rest
          \<and> plain r1 p1 \<and> \<not> truthy (p_result p1)
          \<and> plain r2 p2 \<and> truthy (p_result p2)
          \<and> plain r3 p3 \<and> p_result p3 = JBool True"
  note s = session_confirmed[OF assms, of r1 r2 r3 rest p1 p2 p3 n silent]
  from h s show "\<exists>w'. ensureSession_v1 (Suc (Suc (Suc (Suc n)))) silent w = Some (Resolved (p_result p2), w')
              \<and> issued w w' = [probe_call, login_call w, probe_call] \<and> network w' = rest"
    by blast
  from h s show "\<exists>w'. getSession_v2 (Suc (Suc (Suc (Suc n)))) w = Some (Resolved (p_result p2), w')
              \<and> issued w w' = [probe_call, login_call w, probe_call] \<and> network w' = rest"
    by blast
  from h s show "\<exists>w'. ensureSession_v2 (Suc (Suc (Suc (Suc n)))) silent w = Some (Resolved (p_result p2), w')
              \<and> issued w w' = [probe_call, login_call w, probe_call] \<and> network w' = rest"
    by blast
qed

theorem session_login_per_unconfirmed_probe_witness:
  "(\<exists>w'. ensureSession_v1 (Suc (Suc (Suc (Suc 0)))) False
            (configured JNull [answer (JBool False), answer (JBool True), answer (JBool True)])
          = Some (Resolved (JBool True), w')
        \<and> issued (configured JNull [answer (JBool False), answer (JBool True), answer (JBool True)]) w'
          = [\<lparr>rpc_method = ''auth.check_session'', rpc_params = []\<rparr>,
             \<lparr>rpc_method = ''auth.login'', rpc_params = [JStr ''deluge'']\<rparr>,
             \<lparr>rpc_method = ''auth.check_session'', rpc_params = []\<rparr>]
        \<and> network w' = [])
   \<and> (\<exists>w'. getSession_v2 (Suc (Suc (Suc (Suc 0))))
            (configured JNull [answer (JBool False), answer (JBool True), answer (JBool True)])
          = Some (Resolved (JBool True), w')
        \<and> issued (configured JNull [answer (JBool False), answer (JBool True), answer (JBool True)]) w'
          = [\<lparr>rpc_method = ''auth.check_session'', rpc_params = []\<rparr>,
             \<lparr>rpc_method = ''auth.login'', rpc_params = [JStr ''deluge'']\<rparr>,
             \<lparr>rpc_method = ''auth.check_session'', rpc_params = []\<rparr>]
        \<and> network w' = [])
   \<and> (\<exists>w'. ensureSession_v1 (Suc (Suc (Suc (Suc 0)))) False
            (configured JNull [answer (JBool False), answer (JBool True), answer (JBool False)])
          = Some (Rejected (Error ''Invalid session''), w')
        \<and> issued (configured JNull [answer (JBool False), answer (JBool True), answer (JBool False)]) w'
          = [\<lparr>rpc_method = ''auth.check_session'', rpc_params = []\<rparr>,
             \<lparr>rpc_method = ''auth.login'', rpc_params = [JStr ''deluge'']\<rparr>,
             \<lparr>rpc_method = ''auth.check_session'', rpc_params = []\<rparr>]
        \<and> network w' = [])
   \<and> (\<exists>w'. getSession_v2 (2 * 2 + Suc (Suc 0))
            (configured JNull [answer (JBool False), answer (JBool True),
                               answer (JBool False), answer (JBool True),
                               answer (JBool True)])
          = Some (Resolved (JBool True), w')
        \<and> issued (configured JNull [answer (JBool False), answer (JBool True),
                                     answer (JBool False), answer (JBool True),
                                     answer (JBool True)]) w'
          = [\<lparr>rpc_method = ''auth.check_session'', rpc_params = []\<rparr>,
             \<lparr>rpc_method = ''auth.login'', rpc_params = [JStr ''deluge'']\<rparr>,
             \<lparr>rpc_method = ''auth.check_session'', rpc_params = []\<rparr>,
             \<lparr>rpc_method = ''auth.login'', rpc_params = [JStr ''deluge'']\<rparr>,
             \<lparr>rpc_method = ''auth.check_session'', rpc_params = []\<rparr>]
        \<and> network w' = [])"
proof -
  let ?W = "configured JNull [answer (JBool False), answer (JBool True), answer (JBool True)]"
  let ?U = "configured JNull [answer (JBool False), answer (JBool True), answer (JBool False)]"
  let ?V = "configured JNull [answer (JBool False), answer (JBool True),
                              answer (JBool False), answer (JBool True), answer (JBool True)]"
  let ?p = "\<lambda>b. \<lparr>p_error = None, p_result = JBool b, p_status = JNull\<rparr>"
  let ?r = "\<lambda>b. \<lparr>status = 200, set_cookie = None, csrf_header = None, body = Some (?p b)\<rparr>"
  have env: "nonempty (SERVER_URL (configured c rs))"
    "url_valid (configured c rs) (the (SERVER_URL (configured c rs)))"
    "nonempty (SERVER_PASS (configured c rs))" for c rs
    by (simp_all add: configured_def DelugeConnection_def nonempty_def)
  have net: "network ?W = Answer (?r False) # Answer (?r True) # Answer (?r True) # []"
    "network ?U = Answer (?r False) # Answer (?r True) # Answer (?r False) # []"
    "network ?V = unconfirmed 2 (answer (JBool True) # [])"
    by (simp_all add: configured_def DelugeConnection_def answer_def numeral_2_eq_2)
  have p: "plain (?r b) (?p b)" for b by (simp add: plain_def ok_def)
  have l: "login_call (configured c rs)
      = \<lparr>rpc_method = ''auth.login'', rpc_params = [JStr ''deluge'']\<rparr>" for c rs
    by (simp add: login_call_def configured_def)
  from session_login_per_unconfirmed_probe[where w = ?W and n = 0 and silent = False
      and ?r1.0 = "?r False" and ?r2.0 = "?r True" and ?r3.0 = "?r True" and rest = "[]"
      and ?p1.0 = "?p False" and ?p2.0 = "?p True" and ?p3.0 = "?p True", OF env, THEN conjunct1]
    net(1) p
  have A: "(\<exists>w'. ensureSession_v1 (Suc (Suc (Suc (Suc 0)))) False ?W = Some (Resolved (JBool True), w')
        \<and> issued ?W w' = [probe_call, login_call ?W, probe_call] \<and> network w' = [])
     \<and> (\<exists>w'. getSession_v2 (Suc (Suc (Suc (Suc 0)))) ?W = Some (Resolved (JBool True), w')
        \<and> issued ?W w' = [probe_call, login_call ?W, probe_call] \<and> network w' = [])"
    by simp
  from session_login_per_unconfirmed_probe[where w = ?U and n = 0 and silent = False
      and ?r1.0 = "?r False" and ?r2.0 = "?r True" and ?r3.0 = "?r False" and rest = "[]"
      and ?p1.0 = "?p False" and ?p2.0 = "?p True" and ?p3.0 = "?p False",
      OF env, THEN conjunct2, THEN conjunct1]
    net(2) p
  have B: "\<exists>w'. ensureSession_v1 (Suc (Suc (Suc (Suc 0)))) False ?U
          = Some (Rejected (Error ''Invalid session''), w')
        \<and> issued ?U w' = [probe_call, login_call ?U, probe_call] \<and> network w' = []"
    by simp
  from session_login_per_unconfirmed_probe[where w = ?V and n = 0 and k = 2 and rest = "[]",
      OF env, THEN conjunct2, THEN conjunct2]
    net(3)
  have C: "\<exists>w'. getSession_v2 (2 * 2 + Suc (Suc 0)) ?V = Some (Resolved (JBool True), w')
        \<and> issued ?V w' = [probe_call, login_call ?V, probe_call, login_call ?V, probe_call]
        \<and> network w' = []"
    by (simp add: numeral_2_eq_2)
  from A B C show ?thesis
    unfolding l probe_call_def by blast
qed

subsection \<open>Label discovery\<close>










subsection \<open>A promise that is never settled\<close>

text \<open>
  The claim (C10) fails for \<open>addTorrent\<close> where it says the promise never settles for
  every URL that is not a magnet link: with \<open>send_cookies\<close> equal to \<open>false\<close>,
  \<open>addTorrent\<close> rejects on a client without a server URL, and it rejects when \<open>_connect\<close>
  rejects (here the panel cannot be reached). In both runs it never comes to
  \<open>_addTorrentUrlToServer\<close>.
\<close>

theorem addTorrent_v2_settles_counterexample:
  "\<not> startsWith ''http://tracker.example/file.torrent'' ''magnet:''
   \<and> storage_send_cookies (DelugeConnection (Entries []) (JBool False) []) = JBool False
   \<and> addTorrent_v2 5 ''http://tracker.example/file.torrent'' None None None
        (DelugeConnection (Entries []) (JBool False) [])
      = Some (Rejected (Error ''SERVER_URL is not set. Please configure it in the options.''),
              DelugeConnection (Entries []) (JBool False) [])
   \<and> storage_send_cookies (configured (JBool False) []) = JBool False
   \<and> (case addTorrent_v2 5 ''http://tracker.example/file.torrent'' None None None
              (configured (JBool False) []) of
         Some (Rejected e, w') \<Rightarrow> e = TypeError ''Failed to fetch''
       | other \<Rightarrow> False)"
proof -
  have "\<not> startsWith ''http://tracker.example/file.torrent'' ''magnet:''" by code_simp
  moreover have "storage_send_cookies (DelugeConnection (Entries []) (JBool False) []) = JBool False"
    "storage_send_cookies (configured (JBool False) []) = JBool False"
    by (simp_all add: configured_def DelugeConnection_def)
  moreover have "addTorrent_v2 5 ''http://tracker.example/file.torrent'' None None None
        (DelugeConnection (Entries []) (JBool False) [])
      = Some (Rejected (Error ''SERVER_URL is not set. Please configure it in the options.''),
              DelugeConnection (Entries []) (JBool False) [])"
    by (simp add: addTorrent_v2_def DelugeConnection_def nonempty_def reject_def)
  moreover have "case addTorrent_v2 5 ''http://tracker.example/file.torrent'' None None None
              (configured (JBool False) []) of
         Some (Rejected e, w') \<Rightarrow> e = TypeError ''Failed to fetch''
       | other \<Rightarrow> False"
    by code_simp
  ultimately show ?thesis by blast
qed

text \<open>
  Claim C10, amended. In the second generation, for a URL that is not a magnet link (a
  string of code units below 256, as all strings are here) and with the stored
  \<open>send_cookies\<close> equal to \<open>false\<close>, the promise of
  \<open>_addTorrentUrlToServer\<close> stays pending and nothing is sent. \<open>addTorrent\<close> hands this
  promise on: when the server URL is set and \<open>_connect\<close> resolves, its own promise stays
  pending too. When the server URL is not set, or \<open>_connect\<close> rejects, \<open>addTorrent\<close>
  rejects (with the missing-URL error, or with the error of \<open>_connect\<close>).
\<close>

theorem addTorrent_v2_send_cookies_false_pending:
  assumes "\<not> startsWith u ''magnet:''" and "storage_send_cookies w = JBool False"
  shows "addTorrentUrlToServer_v2 n u options cookies w = Some (Pending, w)
       \<and> (nonempty (SERVER_URL w) \<and> connect_v2 n False w = Some (Resolved v, w1) \<longrightarrow>
            addTorrent_v2 n u cookies plugins options w = Some (Pending, w1))
       \<and> (\<not> nonempty (SERVER_URL w) \<longrightarrow>
            addTorrent_v2 n u cookies plugins options w
              = Some (Rejected (Error ''SERVER_URL is not set. Please configure it in the options.''), w))
       \<and> (nonempty (SERVER_URL w) \<and> connect_v2 n False w = Some (Rejected e, w1) \<longrightarrow>
            addTorrent_v2 n u cookies plugins options w = Some (Rejected e, w1))"
proof (intro conjI impI)
  have a: "addTorrentUrlToServer_v2 n u options cookies w' = Some (Pending, w')"
    if "storage_send_cookies w' = JBool False" for w'
    using assms(1) that by (simp add: addTorrentUrlToServer_v2_def Let_def pending_def)
  from a assms(2) show "addTorrentUrlToServer_v2 n u options cookies w = Some (Pending, w)" .
  {
    assume h: "nonempty (SERVER_URL w) \<and> connect_v2 n False w = Some (Resolved v, w1)"
    from soundD[OF sound_connect_v2] h have "grows connect_call w w1" by blast
    with assms(2) have "storage_send_cookies w1 = JBool False" by (simp add: grows_def)
    from a[OF this] h show "addTorrent_v2 n u cookies plugins options w = Some (Pending, w1)"
      by (simp add: addTorrent_v2_def catch_rethrow then_p_def)
  }
  {
    assume "\<not> nonempty (SERVER_URL w)"
    then show "addTorrent_v2 n u cookies plugins options w
        = Some (Rejected (Error ''SERVER_URL is not set. Please configure it in the options.''), w)"
      by (simp add: addTorrent_v2_def reject_def)
  }
  {
    assume "nonempty (SERVER_URL w) \<and> connect_v2 n False w = Some (Rejected e, w1)"
    then show "addTorrent_v2 n u cookies plugins options w = Some (Rejected e, w1)"
      by (simp add: addTorrent_v2_def catch_rethrow then_p_def)
  }
qed

theorem addTorrent_v2_send_cookies_false_pending_witness:
  "\<not> startsWith ''http://tracker.example/file.torrent'' ''magnet:''
   \<and> storage_send_cookies
        (configured (JBool False)
           [answer (JBool True), answer (JBool True), answer (JObj [(''allow_remote'', JBool True)])])
      = JBool False
   \<and> addTorrentUrlToServer_v2 5 ''http://tracker.example/file.torrent'' None (Some [])
        (configured (JBool False)
           [answer (JBool True), answer (JBool True), answer (JObj [(''allow_remote'', JBool True)])])
      = Some (Pending,
          configured (JBool False)
           [answer (JBool True), answer (JBool True), answer (JObj [(''allow_remote'', JBool True)])])
   \<and> (\<exists>w1. connect_v2 5 False
          (configured (JBool False)
             [answer (JBool True), answer (JBool True), answer (JObj [(''allow_remote'', JBool True)])])
          = Some (Resolved (JObj [(''allow_remote'', JBool True)]), w1)
        \<and> addTorrent_v2 5 ''http://tracker.example/file.torrent'' (Some []) None None
          (configured (JBool False)
             [answer (JBool True), answer (JBool True), answer (JObj [(''allow_remote'', JBool True)])])
          = Some (Pending, w1))
   \<and> addTorrent_v2 5 ''http://tracker.example/file.torrent'' None None None
        (DelugeConnection (Entries []) (JBool False) [])
      = Some (Rejected (Error ''SERVER_URL is not set. Please configure it in the options.''),
              DelugeConnection (Entries []) (JBool False) [])
   \<and> (\<exists>w1. addTorrent_v2 5 ''http://tracker.example/file.torrent'' None None None
          (configured (JBool False) [])
        = Some (Rejected (TypeError ''Failed to fetch''), w1))"
proof -
  let ?W = "configured (JBool False)
           [answer (JBool True), answer (JBool True), answer (JObj [(''allow_remote'', JBool True)])]"
  let ?u = "''http://tracker.example/file.torrent''"
  have m: "\<not> startsWith ?u ''magnet:''" by code_simp
  have s: "storage_send_cookies ?W = JBool False"
    by (simp add: configured_def DelugeConnection_def)
  have u: "nonempty (SERVER_URL ?W)"
    by (simp add: configured_def DelugeConnection_def nonempty_def)
  have "case connect_v2 5 False ?W of Some (Resolved v, w1) \<Rightarrow> v = JObj [(''allow_remote'', JBool True)]
        | other \<Rightarrow> False"
    by code_simp
  then obtain w1 where c: "connect_v2 5 False ?W = Some (Resolved (JObj [(''allow_remote'', JBool True)]), w1)"
    by (auto split: option.splits prod.splits settled.splits)
  from addTorrent_v2_send_cookies_false_pending[where w = ?W and n = 5 and options = None
      and cookies = "Some []" and ?w1.0 = w1 and plugins = None
      and v = "JObj [(''allow_remote'', JBool True)]", OF m s] c u m s
  have A: "addTorrentUrlToServer_v2 5 ?u None (Some []) ?W = Some (Pending, ?W)
      \<and> addTorrent_v2 5 ?u (Some []) None None ?W = Some (Pending, w1)"
    by blast
  let ?E = "DelugeConnection (Entries []) (JBool False) []"
  have "storage_send_cookies ?E = JBool False" "\<not> nonempty (SERVER_URL ?E)"
    by (simp_all add: DelugeConnection_def nonempty_def)
  with addTorrent_v2_send_cookies_false_pending[where w = ?E and n = 5 and options = None
      and cookies = None and plugins = None, OF m]
  have B: "addTorrent_v2 5 ?u None None None ?E
      = Some (Rejected (Error ''SERVER_URL is not set. Please configure it in the options.''), ?E)"
    by blast
  let ?D = "configured (JBool False) []"
  have d: "storage_send_cookies ?D = JBool False" "nonempty (SERVER_URL ?D)"
    by (simp_all add: configured_def DelugeConnection_def nonempty_def)
  have "case connect_v2 5 False ?D of Some (Rejected e, w1) \<Rightarrow> e = TypeError ''Failed to fetch''
        | other \<Rightarrow> False"
    by code_simp
  then obtain w2 where "connect_v2 5 False ?D = Some (Rejected (TypeError ''Failed to fetch''), w2)"
    by (elim case_rejectedE) simp
  with d addTorrent_v2_send_cookies_false_pending[where w = ?D and n = 5 and options = None
      and cookies = None and plugins = None and ?w1.0 = w2
      and e = "TypeError ''Failed to fetch''", OF m d(1)]
  have C: "\<exists>w1. addTorrent_v2 5 ?u None None None ?D
      = Some (Rejected (TypeError ''Failed to fetch''), w1)"
    by blast
  from A B C c m s show ?thesis by blast
qed

subsection \<open>An empty connection list\<close>

text \<open>
  Claim C2. When the stored connection list is empty, \<open>_connect\<close> (in both generations)
  rejects with the error reserved for a missing configuration, \<open>Server URL not set after
  initialization\<close>, and the only change to the world is that the instance fields are reset:
  no call is recorded and no network reply is consumed.
\<close>

theorem connect_empty_list_not_configured:
  assumes "storage_connections w = Entries []"
  shows "connect_v1 n silent w =
           Some (Rejected (Error ''Server URL not set after initialization''),
                 w\<lparr>CONNECTION_INFO := [], SERVER_URL := None, SERVER_PASS := None\<rparr>)
       \<and> connect_v2 n silent w =
           Some (Rejected (Error ''Server URL not set after initialization''),
                 w\<lparr>CONNECTION_INFO := [], SERVER_URL := None, SERVER_PASS := None\<rparr>)
       \<and> trace (w\<lparr>CONNECTION_INFO := [], SERVER_URL := None, SERVER_PASS := None\<rparr>) = trace w
       \<and> network (w\<lparr>CONNECTION_INFO := [], SERVER_URL := None, SERVER_PASS := None\<rparr>) = network w"
  using assms
  by (simp add: connect_v1_def connect_v2_def initState_v1_def initState_v2_def
        read_connections_def read_connections_v2_def then_p_def resolve_def reject_def nonempty_def)

theorem connect_empty_list_not_configured_witness:
  "storage_connections (DelugeConnection (Entries []) JNull [NetworkFailure]) = Entries []
   \<and> connect_v1 3 False (DelugeConnection (Entries []) JNull [NetworkFailure]) =
       Some (Rejected (Error ''Server URL not set after initialization''),
             DelugeConnection (Entries []) JNull [NetworkFailure])
   \<and> connect_v2 3 False (DelugeConnection (Entries []) JNull [NetworkFailure]) =
       Some (Rejected (Error ''Server URL not set after initialization''),
             DelugeConnection (Entries []) JNull [NetworkFailure])
   \<and> trace (DelugeConnection (Entries []) JNull [NetworkFailure]) = []"
  using connect_empty_list_not_configured
          [of "DelugeConnection (Entries []) JNull [NetworkFailure]" 3 False]
  by (simp add: DelugeConnection_def)

end
